theory Spec2Isabelle
  imports Main "HOL-Library.Sublist" "HOL-Library.AList"
begin

section \<open>Shared modelling layer\<close>

subsection \<open>Errors\<close>

text \<open>
  Errors that come back from the vendor SDK (\<^verbatim>\<open>golangsdk\<close>) and from helper packages.
  The only distinction the source draws is the type assertion
  \<^verbatim>\<open>err.(golangsdk.ErrDefault404)\<close>; every other error is generic. The string is the text
  that \<^verbatim>\<open>err.Error()\<close> returns.
\<close>

datatype goerr = ErrDefault404 string | ErrGeneric string

fun goerr_Error :: "goerr \<Rightarrow> string" where
  "goerr_Error (ErrDefault404 m) = m"
| "goerr_Error (ErrGeneric m) = m"

fun is_ErrDefault404 :: "goerr \<Rightarrow> bool" where
  "is_ErrDefault404 (ErrDefault404 m) = True"
| "is_ErrDefault404 (ErrGeneric m) = False"

text \<open>
  Errors built by the handlers. \<^verbatim>\<open>fmt.Errorf\<close> and \<^verbatim>\<open>diag.Errorf\<close> are kept as the
  format string with its arguments, unformatted; \<^verbatim>\<open>diag.FromErr(err)\<close> is \<open>err\<close> itself.
  \<open>TimeoutError\<close> and \<open>UnexpectedStateError\<close> are the two failures of the state poller;
  \<open>Panic\<close> is a run-time panic of the Go program.
\<close>

datatype fmtarg = AStr string | AInt int | AStrs "string list" | ANil | AErr err
and err =
    GoErr goerr
  | Errorf string "fmtarg list"
  | TimeoutError
  | UnexpectedStateError string "string list"
  | Panic string

subsection \<open>Library functions used by the source\<close>

text \<open>
  Go's \<^verbatim>\<open>strings.Contains(s, substr)\<close>: \<open>substr\<close> occurs in \<open>s\<close> as a contiguous
  run of bytes. The empty string occurs in every string.
\<close>

fun has_prefix :: "string \<Rightarrow> string \<Rightarrow> bool" where
  "has_prefix s [] = True"
| "has_prefix [] (c # p) = False"
| "has_prefix (a # s) (c # p) = (a = c \<and> has_prefix s p)"

text \<open>\<^verbatim>\<open>strings.HasPrefix(s, p)\<close> is \<open>has_prefix s p\<close>.\<close>

fun strings_Contains :: "string \<Rightarrow> string \<Rightarrow> bool" where
  "strings_Contains [] substr = (substr = [])"
| "strings_Contains (a # s) substr = (has_prefix (a # s) substr \<or> strings_Contains s substr)"

text \<open>
  \<^verbatim>\<open>strings.EqualFold\<close> against an ASCII constant: equality after folding the ASCII
  upper-case letters to lower case.
\<close>

definition ascii_lower :: "char \<Rightarrow> char" where
  "ascii_lower c =
     (if 65 \<le> (of_char c :: nat) \<and> (of_char c :: nat) \<le> 90
      then char_of ((of_char c :: nat) + 32) else c)"

definition strings_EqualFold :: "string \<Rightarrow> string \<Rightarrow> bool" where
  "strings_EqualFold s t = (map ascii_lower s = map ascii_lower t)"

subsection \<open>Attribute values and \<^verbatim>\<open>schema.ResourceData\<close>\<close>

text \<open>
  The values of a \<^verbatim>\<open>map[string]interface{}\<close> attribute bag. \<open>VNil\<close> is an attribute that
  is not set. A \<^verbatim>\<open>schema.Set\<close> is the list that its \<^verbatim>\<open>List()\<close> method returns; a Go map
  is the list of its entries in the order in which \<^verbatim>\<open>range\<close> visits them.
\<close>

datatype tfvalue =
    VNil
  | VStr string
  | VInt int
  | VBool bool
  | VList "tfvalue list"
  | VMap "(string \<times> tfvalue) list"

text \<open>
  The type assertions \<^verbatim>\<open>.(string)\<close>, \<^verbatim>\<open>.(bool)\<close>, \<^verbatim>\<open>.(int)\<close>, \<^verbatim>\<open>.([]interface{})\<close> and
  \<^verbatim>\<open>.(map[string]interface{})\<close>. \<^verbatim>\<open>d.Get\<close> returns the zero value of the schema type for
  an unset attribute, so \<open>VNil\<close> reads as that zero value.
\<close>

fun as_string :: "tfvalue \<Rightarrow> string" where
  "as_string (VStr s) = s"
| "as_string v = []"

fun as_bool :: "tfvalue \<Rightarrow> bool" where
  "as_bool (VBool b) = b"
| "as_bool v = False"

fun as_int :: "tfvalue \<Rightarrow> int" where
  "as_int (VInt i) = i"
| "as_int v = 0"

fun as_list :: "tfvalue \<Rightarrow> tfvalue list" where
  "as_list (VList xs) = xs"
| "as_list v = []"

fun as_map :: "tfvalue \<Rightarrow> (string \<times> tfvalue) list" where
  "as_map (VMap m) = m"
| "as_map v = []"

text \<open>The zero values: what \<^verbatim>\<open>GetOk\<close> reports as "not ok".\<close>

fun is_zero :: "tfvalue \<Rightarrow> bool" where
  "is_zero VNil = True"
| "is_zero (VStr s) = (s = [])"
| "is_zero (VInt i) = (i = 0)"
| "is_zero (VBool b) = (\<not> b)"
| "is_zero (VList xs) = (xs = [])"
| "is_zero (VMap m) = (m = [])"

text \<open>Lookup in a nested \<^verbatim>\<open>map[string]interface{}\<close> and in a list; absent is \<open>VNil\<close>.\<close>

definition field :: "(string \<times> tfvalue) list \<Rightarrow> string \<Rightarrow> tfvalue" where
  "field m k = (case map_of m k of None \<Rightarrow> VNil | Some v \<Rightarrow> v)"

definition elem :: "tfvalue list \<Rightarrow> nat \<Rightarrow> tfvalue" where
  "elem xs i = (if i < length xs then xs ! i else VNil)"

record ResourceData =
  rd_Id :: string
  rd_attrs :: "string \<Rightarrow> tfvalue"
  rd_old :: "string \<Rightarrow> tfvalue"
  rd_connInfo :: "(string \<times> string) list"

text \<open>
  \<^verbatim>\<open>d.Get\<close>, \<^verbatim>\<open>d.GetOk\<close>, \<^verbatim>\<open>d.Set\<close>, \<^verbatim>\<open>d.SetId\<close>, \<^verbatim>\<open>d.GetChange\<close> and \<^verbatim>\<open>d.HasChange\<close>.
  \<open>rd_attrs\<close> is the merged view that \<^verbatim>\<open>Get\<close> reads and \<^verbatim>\<open>Set\<close> writes; \<open>rd_old\<close> is the
  prior state, the first component of \<^verbatim>\<open>GetChange\<close>. Two zero values compare equal.
\<close>

definition d_Get :: "ResourceData \<Rightarrow> string \<Rightarrow> tfvalue" where
  "d_Get d k = rd_attrs d k"

definition d_GetOk :: "ResourceData \<Rightarrow> string \<Rightarrow> tfvalue \<times> bool" where
  "d_GetOk d k = (rd_attrs d k, \<not> is_zero (rd_attrs d k))"

definition d_Set :: "string \<Rightarrow> tfvalue \<Rightarrow> ResourceData \<Rightarrow> ResourceData" where
  "d_Set k v d = d\<lparr>rd_attrs := (rd_attrs d)(k := v)\<rparr>"

definition d_SetId :: "string \<Rightarrow> ResourceData \<Rightarrow> ResourceData" where
  "d_SetId i d = d\<lparr>rd_Id := i\<rparr>"

text \<open>A run of \<^verbatim>\<open>d.Set\<close> calls, first to last.\<close>

definition d_SetAll :: "(string \<times> tfvalue) list \<Rightarrow> ResourceData \<Rightarrow> ResourceData" where
  "d_SetAll kvs d = foldl (\<lambda>d' (k, v). d_Set k v d') d kvs"

definition values_differ :: "tfvalue \<Rightarrow> tfvalue \<Rightarrow> bool" where
  "values_differ old new = (\<not> (is_zero old \<and> is_zero new) \<and> old \<noteq> new)"

definition d_HasChange :: "ResourceData \<Rightarrow> string \<Rightarrow> bool" where
  "d_HasChange d k = values_differ (rd_old d k) (rd_attrs d k)"

subsection \<open>Security groups\<close>

text \<open>
  \<^verbatim>\<open>v1groups.SecurityGroup\<close> and \<^verbatim>\<open>v3groups.SecurityGroup\<close>, with the fields that
  \<^verbatim>\<open>flattenSecGroupDetail\<close> reads.
\<close>

record v1Group =
  v1_ID :: string
  v1_Name :: string
  v1_EnterpriseProjectId :: string
  v1_Description :: string

record v3Group =
  v3_ID :: string
  v3_Name :: string
  v3_EnterpriseProjectId :: string
  v3_Description :: string
  v3_CreatedAt :: string
  v3_UpdatedAt :: string

subsection \<open>Remote calls\<close>

text \<open>
  \<^verbatim>\<open>cloudservers.CreateOpts\<close> and \<^verbatim>\<open>servers.CreateOpts\<close>, cut down to the fields that
  identify the server and carry the billing mode; volumes, NICs, tags, user data and
  scheduler hints are not part of the request label.
\<close>

record CreateOpts =
  co_Name :: string
  co_ImageRef :: string
  co_FlavorRef :: string
  co_KeyName :: string
  co_VpcId :: string
  co_SecurityGroups :: "string list"
  co_ChargingMode :: string
  co_MarketType :: string
  co_SpotPrice :: string
  co_OpSvcUserId :: string

text \<open>
  One constructor per outbound operation. Operations of the vendor SDK carry the arguments
  the source passes. Helpers of this repository whose source is not available
  (\<^verbatim>\<open>common.WaitOrderComplete\<close>, \<^verbatim>\<open>common.WaitOrderResourceComplete\<close>,
  \<^verbatim>\<open>common.GetEipIDbyAddress\<close>, \<^verbatim>\<open>common.UnsubscribePrePaidResource\<close>,
  \<^verbatim>\<open>common.UpdateEcsInstanceKeyPair\<close>, \<^verbatim>\<open>common.UpdateAutoRenew\<close>,
  \<^verbatim>\<open>utils.UpdateResourceTags\<close>, \<^verbatim>\<open>flattenInstanceNetworks\<close>,
  \<^verbatim>\<open>evs.CloudVolumeRefreshFunc\<close>) and the SDK's \<^verbatim>\<open>cloudservers.WaitForJobSuccess\<close> are
  each one operation whose outcome is a parameter.
\<close>

datatype call =
    V3GroupsList string string string
  | V1GroupsList string
  | ImagesList string string
  | SubnetsGet string
  | SecGroupsList string
  | CloudserversCreatePrePaid CreateOpts
  | CloudserversCreate CreateOpts
  | ServersCreate CreateOpts
  | WaitOrderComplete string
  | WaitOrderResourceComplete string
  | WaitForJobSuccess string
  | GetJobEntity string string
  | CloudserversGet string
  | PowerAction string string string
  | PortsUpdate string "string list"
  | FlattenInstanceNetworks string
  | CloudvolumesGet string
  | BlockDevicesGet string string
  | CloudserversUpdate string string string
  | DeleteMetadatum string string
  | UpdateMetadata string "(string \<times> string) list"
  | RemoveServer string string
  | AddServer string string
  | ChangeAdminPassword string string
  | Resize string string
  | UpdateResourceTags string
  | ExtendSize string int
  | CloudVolumeRefresh string
  | UpdateEcsInstanceKeyPair string string string
  | UpdateAutoRenew string string
  | GetEipIDbyAddress string string
  | UnsubscribePrePaidResource "string list"
  | CloudserversDelete string bool bool

text \<open>\<^verbatim>\<open>cloudservers.CloudServer\<close>, with the fields the handlers read.\<close>

record CloudServer =
  cs_Status :: string
  cs_Name :: string
  cs_Description :: string
  cs_AvailabilityZone :: string
  cs_AgencyName :: string
  cs_AgentList :: string
  cs_ChargingMode :: string
  cs_Created :: string
  cs_Updated :: string
  cs_FlavorID :: string
  cs_FlavorName :: string
  cs_ImageID :: string
  cs_KeyName :: string
  cs_Addresses :: "(string \<times> (string \<times> string) list) list"
  cs_AccessIPv4 :: string
  cs_AccessIPv6 :: string
  cs_SecurityGroups :: "(string \<times> string) list"
  cs_VolumeAttached :: "string list"
  cs_SchedulerGroups :: "string list"
  cs_Tags :: "string list"
  cs_FaultCode :: int
  cs_FaultMessage :: string

text \<open>
  Response bodies. \<open>RImages\<close> lists (ID, Name); \<open>RVolume\<close> is (Size, VolumeType,
  SystemCmkID); \<open>RBlockDevice\<close> is (BootIndex, PciAddress).
\<close>

datatype response =
    RUnit
  | RString string
  | RServer CloudServer
  | RImages "(string \<times> string) list"
  | RV1Groups "v1Group list"
  | RV3Groups "v3Group list"
  | RNetworks "(string \<times> tfvalue) list list"
  | RVolume int string string
  | RBlockDevice int string

text \<open>
  Everything outside the handlers. \<open>respond n c\<close> is what the remote side answers to
  operation \<open>c\<close> when \<open>n\<close> operations have been issued before it, so an answer may depend
  on all that happened earlier. \<open>cfg_client\<close> is the outcome of building a service client
  (\<^verbatim>\<open>cfg.ComputeV1Client(region)\<close> and the like), \<open>cfg_UserID\<close> the user id of the
  provider configuration. The remaining fields are helpers of this repository whose
  source is not available and that issue no remote call; \<open>polls_within\<close> is the number of
  status polls that fit into the timeout \<^verbatim>\<open>d.Timeout(...)\<close> of the named operation.
\<close>

record env =
  respond :: "nat \<Rightarrow> call \<Rightarrow> goerr + response"
  cfg_client :: "string \<Rightarrow> goerr option"
  cfg_UserID :: string
  GetRegion :: "ResourceData \<Rightarrow> string"
  DataGetEnterpriseProjectID :: "ResourceData \<Rightarrow> string"
  polls_within :: "string \<Rightarrow> nat"
  hashcode_Strings :: "string list \<Rightarrow> string"
  ValidatePrePaidChargeInfo :: "ResourceData \<Rightarrow> goerr option"
  expandInstanceNetworks :: "ResourceData \<Rightarrow> goerr option"
  getInstanceAccessAddresses :: "(string \<times> tfvalue) list list \<Rightarrow> string \<times> string"

subsection \<open>Handlers as state transformers\<close>

text \<open>
  A handler mutates its \<^verbatim>\<open>ResourceData\<close> and issues remote calls. The state is the
  resource data and the log of the operations issued so far, each with its answer. A
  computation returns \<open>Inl e\<close> where the source returns an error.
\<close>

type_synonym trace = "(call \<times> (goerr + response)) list"

record st =
  st_d :: ResourceData
  st_trace :: trace

type_synonym 'a io = "st \<Rightarrow> (err + 'a) \<times> st"

definition ret :: "'a \<Rightarrow> 'a io" where
  "ret x = (\<lambda>s. (Inr x, s))"

definition fail :: "err \<Rightarrow> 'a io" where
  "fail e = (\<lambda>s. (Inl e, s))"

text \<open>Running a callee whose \<^verbatim>\<open>error\<close> result the caller inspects.\<close>

definition attempt :: "'a io \<Rightarrow> (err + 'a) io" where
  "attempt m = (\<lambda>s. case m s of (r, s') \<Rightarrow> (Inr r, s'))"

definition bind :: "'a io \<Rightarrow> ('a \<Rightarrow> 'b io) \<Rightarrow> 'b io" where
  "bind m f = (\<lambda>s. case m s of (Inl e, s') \<Rightarrow> (Inl e, s') | (Inr x, s') \<Rightarrow> f x s')"

definition get_d :: "ResourceData io" where
  "get_d = (\<lambda>s. (Inr (st_d s), s))"

definition update_d :: "(ResourceData \<Rightarrow> ResourceData) \<Rightarrow> unit io" where
  "update_d f = (\<lambda>s. (Inr (), s\<lparr>st_d := f (st_d s)\<rparr>))"

definition remote :: "env \<Rightarrow> call \<Rightarrow> (goerr + response) io" where
  "remote E c = (\<lambda>s. let r = respond E (length (st_trace s)) c
                      in (Inr r, s\<lparr>st_trace := st_trace s @ [(c, r)]\<rparr>))"

text \<open>
  Building a service client: \<^verbatim>\<open>c, err := cfg.XClient(region); if err != nil { return
  diag.Errorf(msg, err) }\<close>.
\<close>

definition client :: "env \<Rightarrow> string \<Rightarrow> string \<Rightarrow> unit io" where
  "client E name msg =
     (case cfg_client E name of
        Some e \<Rightarrow> fail (Errorf msg [AErr (GoErr e)])
      | None \<Rightarrow> ret ())"

text \<open>The \<^verbatim>\<open>Extract\<close> methods: a body of the wrong shape is a decoding error.\<close>

definition malformed :: goerr where
  "malformed = ErrGeneric ''malformed response''"

fun ExtractErr :: "goerr + response \<Rightarrow> goerr option" where
  "ExtractErr (Inl e) = Some e"
| "ExtractErr (Inr r) = None"

fun ExtractString :: "goerr + response \<Rightarrow> goerr + string" where
  "ExtractString (Inl e) = Inl e"
| "ExtractString (Inr (RString x)) = Inr x"
| "ExtractString (Inr r) = Inl malformed"

fun ExtractServer :: "goerr + response \<Rightarrow> goerr + CloudServer" where
  "ExtractServer (Inl e) = Inl e"
| "ExtractServer (Inr (RServer x)) = Inr x"
| "ExtractServer (Inr r) = Inl malformed"

fun ExtractImages :: "response \<Rightarrow> goerr + (string \<times> string) list" where
  "ExtractImages (RImages xs) = Inr xs"
| "ExtractImages r = Inl malformed"

fun ExtractSecurityGroups :: "response \<Rightarrow> goerr + v1Group list" where
  "ExtractSecurityGroups (RV1Groups xs) = Inr xs"
| "ExtractSecurityGroups r = Inl malformed"

fun ExtractV3Groups :: "goerr + response \<Rightarrow> goerr + v3Group list" where
  "ExtractV3Groups (Inl e) = Inl e"
| "ExtractV3Groups (Inr (RV3Groups xs)) = Inr xs"
| "ExtractV3Groups (Inr r) = Inl malformed"

fun ExtractNetworks :: "goerr + response \<Rightarrow> goerr + (string \<times> tfvalue) list list" where
  "ExtractNetworks (Inl e) = Inl e"
| "ExtractNetworks (Inr (RNetworks xs)) = Inr xs"
| "ExtractNetworks (Inr r) = Inl malformed"

fun ExtractVolume :: "goerr + response \<Rightarrow> goerr + (int \<times> string \<times> string)" where
  "ExtractVolume (Inl e) = Inl e"
| "ExtractVolume (Inr (RVolume n t k)) = Inr (n, t, k)"
| "ExtractVolume (Inr r) = Inl malformed"

fun ExtractBlockDevice :: "goerr + response \<Rightarrow> goerr + (int \<times> string)" where
  "ExtractBlockDevice (Inl e) = Inl e"
| "ExtractBlockDevice (Inr (RBlockDevice b p)) = Inr (b, p)"
| "ExtractBlockDevice (Inr r) = Inl malformed"

section \<open>Security-group data source (package vpc)\<close>

subsection \<open>Flattening\<close>

text \<open>
  The result of \<^verbatim>\<open>flattenSecGroupDetail\<close> is a \<^verbatim>\<open>map[string]interface{}\<close> whose values are
  all strings; it is kept as the list of its entries, in the order of the composite literal.
  The type switch of the source becomes one function per case.
\<close>

type_synonym attr_map = "(string \<times> string) list"

definition flattenSecGroupDetail_v1 :: "v1Group \<Rightarrow> attr_map" where
  "flattenSecGroupDetail_v1 entity =
     [(''id'', v1_ID entity),
      (''name'', v1_Name entity),
      (''enterprise_project_id'', v1_EnterpriseProjectId entity),
      (''description'', v1_Description entity)]"

definition flattenSecGroupDetail_v3 :: "v3Group \<Rightarrow> attr_map" where
  "flattenSecGroupDetail_v3 entity =
     [(''id'', v3_ID entity),
      (''name'', v3_Name entity),
      (''enterprise_project_id'', v3_EnterpriseProjectId entity),
      (''description'', v3_Description entity),
      (''created_at'', v3_CreatedAt entity),
      (''updated_at'', v3_UpdatedAt entity)]"

subsection \<open>Client-side filters\<close>

text \<open>
  \<^verbatim>\<open>filterAvailableSecGroupsV1\<close>. Both loops of the source range over the parameter
  \<^verbatim>\<open>secGroups\<close>; each assigns its result to \<^verbatim>\<open>secGroupsCopy\<close>. The two \<open>let\<close>s below are
  the two \<^verbatim>\<open>if\<close> blocks, in order.
\<close>

definition filterAvailableSecGroupsV1 ::
  "v1Group list \<Rightarrow> string \<Rightarrow> string \<Rightarrow> attr_map list \<times> string list" where
  "filterAvailableSecGroupsV1 secGroups name descKey =
     (let secGroupsCopy = secGroups;
          secGroupsCopy =
            (if name \<noteq> [] then filter (\<lambda>secgroup. \<not> (name \<noteq> v1_Name secgroup)) secGroups
             else secGroupsCopy);
          secGroupsCopy =
            (if descKey \<noteq> []
             then filter (\<lambda>secgroup. \<not> (\<not> strings_Contains (v1_Description secgroup) descKey)) secGroups
             else secGroupsCopy)
      in (map flattenSecGroupDetail_v1 secGroupsCopy, map v1_ID secGroupsCopy))"

definition filterAvailableSecGroupsV3 ::
  "v3Group list \<Rightarrow> string \<Rightarrow> attr_map list \<times> string list" where
  "filterAvailableSecGroupsV3 secGroups descKey =
     (let secGroupsCopy = secGroups;
          secGroupsCopy =
            (if descKey \<noteq> []
             then filter (\<lambda>secgroup. \<not> (\<not> strings_Contains (v3_Description secgroup) descKey)) secGroups
             else secGroupsCopy)
      in (map flattenSecGroupDetail_v3 secGroupsCopy, map v3_ID secGroupsCopy))"

subsection \<open>The data-source read handlers\<close>

text \<open>
  The value stored by \<^verbatim>\<open>d.Set("security_groups", groupList)\<close>. The two \<^verbatim>\<open>d.Set\<close> calls
  write well-typed values to attributes of the schema, so the
  \<^verbatim>\<open>multierror\<close> that collects their results is empty.
\<close>

definition groupList_value :: "attr_map list \<Rightarrow> tfvalue" where
  "groupList_value groupList = VList (map (\<lambda>m. VMap (map (\<lambda>(k, v). (k, VStr v)) m)) groupList)"

text \<open>\<^verbatim>\<open>dataSourceNetworkingSecGroupsReadV1\<close>.\<close>

definition dataSourceNetworkingSecGroupsReadV1 :: "env \<Rightarrow> unit io" where
  "dataSourceNetworkingSecGroupsReadV1 E =
     bind (client E ''NetworkingV1Client'' ''error creating networking v1 client: %s'') (\<lambda>_.
     bind get_d (\<lambda>d.
     bind (remote E (V1GroupsList (DataGetEnterpriseProjectID E d))) (\<lambda>pages.
       case pages of
         Inl e \<Rightarrow> fail (Errorf ''error getting security groups: %s'' [AErr (GoErr e)])
       | Inr body \<Rightarrow>
          (case ExtractSecurityGroups body of
             Inl e \<Rightarrow> fail (Errorf ''error retrieving security groups list: %s'' [AErr (GoErr e)])
           | Inr allSecGroups \<Rightarrow>
               (case filterAvailableSecGroupsV1 allSecGroups
                       (as_string (d_Get d ''name'')) (as_string (d_Get d ''description'')) of
                  (groupList, ids) \<Rightarrow>
                    bind (update_d (d_SetId (hashcode_Strings E ids))) (\<lambda>_.
                    bind (update_d (\<lambda>d. d_Set ''region'' (VStr (GetRegion E d)) d)) (\<lambda>_.
                    update_d (d_Set ''security_groups'' (groupList_value groupList)))))))))"

text \<open>\<^verbatim>\<open>dataSourceNetworkingSecGroupsRead\<close>.\<close>

definition dataSourceNetworkingSecGroupsRead :: "env \<Rightarrow> unit io" where
  "dataSourceNetworkingSecGroupsRead E =
     bind (client E ''NetworkingV3Client'' ''error creating networking v3 client: %s'') (\<lambda>_.
     bind get_d (\<lambda>d.
     bind (remote E (V3GroupsList (as_string (d_Get d ''id'')) (as_string (d_Get d ''name''))
                       (DataGetEnterpriseProjectID E d))) (\<lambda>r.
       case ExtractV3Groups r of
         Inl e \<Rightarrow>
           (if is_ErrDefault404 e then dataSourceNetworkingSecGroupsReadV1 E
            else fail (Errorf ''error getting security groups list: %s'' [AErr (GoErr e)]))
       | Inr allSecGroups \<Rightarrow>
           (case filterAvailableSecGroupsV3 allSecGroups (as_string (d_Get d ''description'')) of
              (groupList, ids) \<Rightarrow>
                bind (update_d (d_SetId (hashcode_Strings E ids))) (\<lambda>_.
                bind (update_d (\<lambda>d. d_Set ''region'' (VStr (GetRegion E d)) d)) (\<lambda>_.
                update_d (d_Set ''security_groups'' (groupList_value groupList))))))))"

section \<open>Compute instance resource (package ecs)\<close>

subsection \<open>Billing mode normalisation\<close>

text \<open>\<^verbatim>\<open>normalizeChargingMode\<close>: a switch on the metadata string with a default branch.\<close>

definition normalizeChargingMode :: "string \<Rightarrow> string" where
  "normalizeChargingMode mode =
     (if mode = ''1'' then ''prePaid''
      else if mode = ''2'' then ''spot''
      else ''postPaid'')"

subsection \<open>State poller\<close>

text \<open>
  \<^verbatim>\<open>ServerV1StateRefreshFunc\<close>: the closure's result triple. On a 404 the pointer \<^verbatim>\<open>s\<close>
  is nil, which is \<open>None\<close>.
\<close>

definition ServerV1StateRefreshFunc ::
  "env \<Rightarrow> string \<Rightarrow> (CloudServer option \<times> string \<times> err option) io" where
  "ServerV1StateRefreshFunc E instanceID =
     bind (remote E (CloudserversGet instanceID)) (\<lambda>r.
       case ExtractServer r of
         Inl e \<Rightarrow>
           (if is_ErrDefault404 e then ret (None, ''DELETED'', None)
            else ret (None, [], Some (GoErr e)))
       | Inr s \<Rightarrow>
           (if cs_Status s = ''ERROR''
            then ret (Some s, ''ERROR'',
                   Some (Errorf ''error code: %d, message: %s''
                           [AInt (cs_FaultCode s), AStr (cs_FaultMessage s)]))
            else ret (Some s, cs_Status s, None)))"

text \<open>
  Modelled from the spec: the polling loop \<^verbatim>\<open>resource.StateChangeConf.WaitForStateContext\<close>
  of the Terraform plugin SDK, whose source is not available. Section 4.2 of the
  specification gives its contract: the status-fetch function is invoked repeatedly at a
  fixed interval; a fetch that reports an error is a terminal failure with that error; a
  state in the target set is success; the elapsed timeout is a terminal failure. The
  timeout is counted in polls: the first argument is the number of fetches that fit into
  it. A state in the pending set means another poll; a state in neither set is reported as
  unexpected when a pending set was given.
\<close>

fun WaitForStateContext ::
  "nat \<Rightarrow> string list \<Rightarrow> string list \<Rightarrow> ('r \<times> string \<times> err option) io \<Rightarrow> 'r io" where
  "WaitForStateContext 0 pending target refresh s = (Inl TimeoutError, s)"
| "WaitForStateContext (Suc n) pending target refresh s =
     (case refresh s of
        (Inl e, s') \<Rightarrow> (Inl e, s')
      | (Inr (res, currentState, Some e), s') \<Rightarrow> (Inl e, s')
      | (Inr (res, currentState, None), s') \<Rightarrow>
          (if currentState \<in> set target then (Inr res, s')
           else if currentState \<in> set pending \<or> pending = []
           then WaitForStateContext n pending target refresh s'
           else (Inl (UnexpectedStateError currentState target), s')))"

text \<open>\<^verbatim>\<open>waitForServerTargetState\<close>; \<open>timeout\<close> is in polls.\<close>

definition waitForServerTargetState ::
  "env \<Rightarrow> string \<Rightarrow> string list \<Rightarrow> string list \<Rightarrow> nat \<Rightarrow> unit io" where
  "waitForServerTargetState E instanceID pending target timeout =
     bind (attempt (WaitForStateContext timeout pending target
                      (ServerV1StateRefreshFunc E instanceID))) (\<lambda>r.
       case r of
         Inl e \<Rightarrow> fail (Errorf ''error waiting for instance (%s) to become target state (%v): %s''
                          [AStr instanceID, AStrs target, AErr e])
       | Inr _ \<Rightarrow> ret ())"

subsection \<open>Power actions and source/destination check\<close>

definition powerActionMap :: "(string \<times> string) list" where
  "powerActionMap = [(''ON'', ''os-start''), (''OFF'', ''os-stop''), (''REBOOT'', ''reboot'')]"

text \<open>
  \<^verbatim>\<open>doPowerAction\<close>. The job id of the \<^verbatim>\<open>JobResponse\<close> is the body of the answer.
\<close>

definition doPowerAction :: "env \<Rightarrow> string \<Rightarrow> unit io" where
  "doPowerAction E action0 =
     bind get_d (\<lambda>d.
       let typ = (if action0 \<noteq> ''ON'' then ''SOFT'' else []);
           typ = (if has_prefix action0 ''FORCE-'' then ''HARD'' else typ);
           action = (if has_prefix action0 ''FORCE-'' then drop (length ''FORCE-'') action0
                     else action0)
       in case map_of powerActionMap action of
            None \<Rightarrow> fail (Errorf ''the powerMap does not contain option (%s)'' [AStr action])
          | Some opn \<Rightarrow>
              bind (remote E (PowerAction typ opn (rd_Id d))) (\<lambda>r.
                case ExtractString r of
                  Inl e \<Rightarrow>
                    fail (Errorf ''doing power action (%s) for instance (%s) failed: %s''
                            [AStr action, AStr (rd_Id d), AErr (GoErr e)])
                | Inr jobID \<Rightarrow>
                    bind (remote E (WaitForJobSuccess jobID)) (\<lambda>w.
                      case ExtractErr w of
                        Some e \<Rightarrow>
                          fail (Errorf ''waiting power action (%s) for instance (%s) failed: %s''
                                  [AStr action, AStr (rd_Id d), AErr (GoErr e)])
                      | None \<Rightarrow> ret ())))"

text \<open>
  \<^verbatim>\<open>disableSourceDestCheck\<close> and \<^verbatim>\<open>enableSourceDestCheck\<close>: a port update whose
  allowed-address-pairs are the given list; the result is the \<^verbatim>\<open>error\<close> they return.
\<close>

definition disableSourceDestCheck :: "env \<Rightarrow> string \<Rightarrow> goerr option io" where
  "disableSourceDestCheck E portID =
     bind (remote E (PortsUpdate portID [''1.1.1.1/0''])) (\<lambda>r. ret (ExtractErr r))"

definition enableSourceDestCheck :: "env \<Rightarrow> string \<Rightarrow> goerr option io" where
  "enableSourceDestCheck E portID =
     bind (remote E (PortsUpdate portID [])) (\<lambda>r. ret (ExtractErr r))"

text \<open>\<^verbatim>\<open>d.HasChange(fmt.Sprintf("network.%d.source_dest_check", i))\<close>.\<close>

definition HasChange_source_dest_check :: "ResourceData \<Rightarrow> nat \<Rightarrow> bool" where
  "HasChange_source_dest_check d i =
     values_differ
       (field (as_map (elem (as_list (rd_old d ''network'')) i)) ''source_dest_check'')
       (field (as_map (elem (as_list (rd_attrs d ''network'')) i)) ''source_dest_check'')"

text \<open>\<^verbatim>\<open>updateSourceDestCheck\<close>: the loop over \<^verbatim>\<open>networks\<close> from index \<open>i\<close> on.\<close>

fun updateSourceDestCheck_from :: "env \<Rightarrow> ResourceData \<Rightarrow> nat \<Rightarrow> tfvalue list \<Rightarrow> unit io" where
  "updateSourceDestCheck_from E d i [] = ret ()"
| "updateSourceDestCheck_from E d i (v # vs) =
     (let nic = as_map v; nicPort = as_string (field nic ''port'')
      in if nicPort = [] then updateSourceDestCheck_from E d (Suc i) vs
         else if HasChange_source_dest_check d i
         then bind (if \<not> as_bool (field nic ''source_dest_check'')
                    then disableSourceDestCheck E nicPort
                    else enableSourceDestCheck E nicPort) (\<lambda>err.
                case err of
                  Some e \<Rightarrow>
                    fail (Errorf ''error updating source_dest_check on port(%s) of instance(%s) failed: %s''
                            [AStr nicPort, AStr (rd_Id d), AErr (GoErr e)])
                | None \<Rightarrow> updateSourceDestCheck_from E d (Suc i) vs)
         else updateSourceDestCheck_from E d (Suc i) vs)"

definition updateSourceDestCheck :: "env \<Rightarrow> unit io" where
  "updateSourceDestCheck E =
     bind get_d (\<lambda>d. updateSourceDestCheck_from E d 0 (as_list (d_Get d ''network'')))"

subsection \<open>Unsubscribing pre-paid resources\<close>

text \<open>\<^verbatim>\<open>shouldUnsubscribeEIP\<close>.\<close>

definition shouldUnsubscribeEIP :: "ResourceData \<Rightarrow> bool" where
  "shouldUnsubscribeEIP d =
     (let deleteEIP = as_bool (d_Get d ''delete_eip_on_termination'');
          eipAddr = as_string (d_Get d ''public_ip'');
          eipType = as_string (d_Get d ''eip_type'');
          sharebw = \<not> is_zero (field (as_map (elem (as_list (d_Get d ''bandwidth'')) 0)) ''id'')
      in deleteEIP \<and> eipAddr \<noteq> [] \<and> eipType \<noteq> [] \<and> \<not> sharebw)"

text \<open>\<^verbatim>\<open>calcUnsubscribeResources\<close>.\<close>

definition calcUnsubscribeResources :: "env \<Rightarrow> string list io" where
  "calcUnsubscribeResources E =
     bind get_d (\<lambda>d.
       let mainResources = [rd_Id d]
       in if shouldUnsubscribeEIP d
          then bind (client E ''NetworkingV1Client'' ''error creating networking client: %s'') (\<lambda>_.
               let eipAddr = as_string (d_Get d ''public_ip'')
               in bind (remote E (GetEipIDbyAddress eipAddr ''all_granted_eps'')) (\<lambda>r.
                    case ExtractString r of
                      Inl e \<Rightarrow> fail (Errorf ''error fetching EIP ID of ECS (%s): %s''
                                       [AStr (rd_Id d), AErr (GoErr e)])
                    | Inr eipID \<Rightarrow> ret (mainResources @ [eipID])))
          else ret mainResources)"

subsection \<open>Configuration checks\<close>

text \<open>\<^verbatim>\<open>getOpSvcUserID\<close> and \<^verbatim>\<open>validateComputeInstanceConfig\<close>.\<close>

definition getOpSvcUserID :: "ResourceData \<Rightarrow> env \<Rightarrow> string" where
  "getOpSvcUserID d conf =
     (case d_GetOk d ''user_id'' of
        (v, ok) \<Rightarrow> if ok then as_string v else cfg_UserID conf)"

definition validateComputeInstanceConfig :: "ResourceData \<Rightarrow> env \<Rightarrow> err option" where
  "validateComputeInstanceConfig d conf =
     (let hasSSH = snd (d_GetOk d ''key_pair'')
      in if as_string (d_Get d ''charging_mode'') = ''prePaid'' \<and> hasSSH
         then (if getOpSvcUserID d conf = []
               then Some (Errorf ''user_id must be specified when charging_mode is set to prePaid and the ECS is logged in using an SSH key'' [])
               else None)
         else None)"

text \<open>\<^verbatim>\<open>getFlavorID\<close>.\<close>

definition getFlavorID :: "ResourceData \<Rightarrow> err + string" where
  "getFlavorID d =
     (let flavorID =
            (case d_GetOk d ''flavor_id'' of
               (v1, ok) \<Rightarrow>
                 if ok then as_string v1
                 else (case d_GetOk d ''flavor_name'' of
                         (v2, ok2) \<Rightarrow> if ok2 then as_string v2 else []))
      in if flavorID = []
         then Inl (Errorf ''missing required argument: the `flavor_id` must be specified'' [])
         else Inr flavorID)"

text \<open>\<^verbatim>\<open>hasDeprecatedConfig\<close>.\<close>

definition hasDeprecatedConfig :: "ResourceData \<Rightarrow> bool" where
  "hasDeprecatedConfig d =
     (if snd (d_GetOk d ''metadata'') then True
      else if snd (d_GetOk d ''block_device_mapping_v2'') then True
      else False)"

text \<open>
  \<^verbatim>\<open>checkBlockDeviceConfig\<close>. The source compares \<^verbatim>\<open>interface{}\<close> values with constants,
  which holds only for a value of that type with that content.
\<close>

fun checkBlockDeviceConfig_each :: "tfvalue list \<Rightarrow> err option" where
  "checkBlockDeviceConfig_each [] = None"
| "checkBlockDeviceConfig_each (v # vs) =
     (let vM = as_map v
      in if field vM ''source_type'' \<noteq> VStr ''blank'' \<and> field vM ''uuid'' = VStr []
         then Some (Errorf ''you must specify a uuid for %s block device types''
                      [AStr (as_string (field vM ''source_type''))])
         else if field vM ''source_type'' = VStr ''image''
                 \<and> field vM ''destination_type'' = VStr ''volume''
                 \<and> field vM ''volume_size'' = VInt 0
         then Some (Errorf ''you must specify a volume_size when creating a volume from an image'' [])
         else if field vM ''source_type'' = VStr ''blank''
                 \<and> field vM ''destination_type'' = VStr ''local''
                 \<and> field vM ''volume_size'' = VInt 0
         then Some (Errorf ''you must specify a volume_size when creating a blank block device'' [])
         else checkBlockDeviceConfig_each vs)"

definition checkBlockDeviceConfig :: "ResourceData \<Rightarrow> err option" where
  "checkBlockDeviceConfig d =
     (case d_GetOk d ''block_device_mapping_v2'' of
        (vL, ok) \<Rightarrow> if ok then checkBlockDeviceConfig_each (as_list vL) else None)"

text \<open>
  \<^verbatim>\<open>resourceInstanceBlockDevicesV2\<close>, its error result: the first block device whose
  source type or destination type is unknown.
\<close>

fun resourceInstanceBlockDevicesV2 :: "tfvalue list \<Rightarrow> err option" where
  "resourceInstanceBlockDevicesV2 [] = None"
| "resourceInstanceBlockDevicesV2 (bd # bds) =
     (let bdM = as_map bd;
          sourceType = as_string (field bdM ''source_type'');
          destinationType = as_string (field bdM ''destination_type'')
      in if sourceType \<notin> set [''blank'', ''image'', ''snapshot'', ''volume'']
         then Some (Errorf ''unknown block device source type %s'' [AStr sourceType])
         else if destinationType \<notin> set [''local'', ''volume'']
         then Some (Errorf ''unknown block device destination type %s'' [AStr destinationType])
         else resourceInstanceBlockDevicesV2 bds)"

subsection \<open>Images, flavors, networks and security groups\<close>

text \<open>
  \<^verbatim>\<open>getImage\<close>; an image is its (ID, Name). The result is the pair the Go function
  returns, with the error first.
\<close>

definition getImage :: "env \<Rightarrow> string \<Rightarrow> string \<Rightarrow> (err + string \<times> string) io" where
  "getImage E ident name =
     bind (remote E (ImagesList ident name)) (\<lambda>allPages.
       case allPages of
         Inl e \<Rightarrow> ret (Inl (Errorf ''unable to query images: %s'' [AErr (GoErr e)]))
       | Inr body \<Rightarrow>
          (case ExtractImages body of
             Inl e \<Rightarrow> ret (Inl (Errorf ''unable to retrieve images: %s'' [AErr (GoErr e)]))
           | Inr allImages \<Rightarrow>
              (case allImages of
                 [] \<Rightarrow> ret (Inl (Errorf ''unable to find images %s: Maybe not existed'' [AStr ident]))
               | img # _ \<Rightarrow>
                   if ident \<noteq> [] \<and> fst img \<noteq> ident
                   then ret (Inl (Errorf ''unexpected images ID'' []))
                   else if name \<noteq> [] \<and> snd img \<noteq> name
                   then ret (Inl (Errorf ''unexpected images Name'' []))
                   else ret (Inr img))))"

text \<open>The test shared by \<^verbatim>\<open>getImageIDFromConfig\<close> and \<^verbatim>\<open>setImageInformation\<close>.\<close>

definition needImage :: "tfvalue list \<Rightarrow> bool" where
  "needImage vL =
     (\<exists>v \<in> set vL. field (as_map v) ''source_type'' = VStr ''image''
                    \<and> field (as_map v) ''destination_type'' = VStr ''local'')"

text \<open>\<^verbatim>\<open>getImageIDFromConfig\<close>.\<close>

definition getImageIDFromConfig :: "env \<Rightarrow> string io" where
  "getImageIDFromConfig E =
     bind get_d (\<lambda>d.
       if snd (d_GetOk d ''block_device_mapping_v2'')
          \<and> \<not> needImage (as_list (d_Get d ''block_device_mapping_v2''))
       then ret []
       else if as_string (d_Get d ''image_id'') \<noteq> []
       then ret (as_string (d_Get d ''image_id''))
       else if as_string (d_Get d ''image_name'') \<noteq> []
       then bind (getImage E [] (as_string (d_Get d ''image_name''))) (\<lambda>r.
              case r of Inl e \<Rightarrow> fail e | Inr img \<Rightarrow> ret (fst img))
       else fail (Errorf ''neither a boot device, image ID, or image name were able to be determined'' []))"

text \<open>\<^verbatim>\<open>setImageInformation\<close>; it returns no error on any path.\<close>

definition setImageInformation :: "env \<Rightarrow> string \<Rightarrow> unit io" where
  "setImageInformation E imageID =
     bind get_d (\<lambda>d.
       if snd (d_GetOk d ''block_device_mapping_v2'')
          \<and> \<not> needImage (as_list (d_Get d ''block_device_mapping_v2''))
       then update_d (d_Set ''image_id'' (VStr ''Attempt to boot from volume - no image supplied''))
       else if imageID \<noteq> []
       then bind (update_d (d_Set ''image_id'' (VStr imageID))) (\<lambda>_.
            bind (getImage E imageID []) (\<lambda>r.
              case r of
                Inl e \<Rightarrow> update_d (d_Set ''image_name'' (VStr ''Image not found''))
              | Inr img \<Rightarrow> update_d (d_Set ''image_name'' (VStr (snd img)))))
       else ret ())"

text \<open>\<^verbatim>\<open>getVpcID\<close>; the body of the subnet answer is its \<^verbatim>\<open>VPC_ID\<close>.\<close>

definition getVpcID :: "env \<Rightarrow> string io" where
  "getVpcID E =
     bind get_d (\<lambda>d.
       let networks = as_list (d_Get d ''network'');
           networkID = (if length networks > 0
                        then as_string (field (as_map (elem networks 0)) ''uuid'') else [])
       in if networkID = [] then fail (Errorf ''network ID should not be empty'' [])
          else bind (remote E (SubnetsGet networkID)) (\<lambda>r.
                 case ExtractString r of
                   Inl e \<Rightarrow> fail (Errorf ''error retrieving subnets: %s'' [AErr (GoErr e)])
                 | Inr vpc \<Rightarrow> ret vpc))"

text \<open>\<^verbatim>\<open>resourceInstanceSecGroupIdsV1\<close>.\<close>

definition resourceInstanceSecGroupIdsV1 :: "env \<Rightarrow> string list io" where
  "resourceInstanceSecGroupIdsV1 E =
     bind get_d (\<lambda>d.
       case d_GetOk d ''security_group_ids'' of
         (v, ok) \<Rightarrow>
           if ok then ret (map as_string (as_list v))
           else
             let rawSecGroups = as_list (d_Get d ''security_groups'')
             in bind (remote E (SecGroupsList ''all_granted_eps'')) (\<lambda>pages.
                  case pages of
                    Inl e \<Rightarrow> fail (GoErr e)
                  | Inr body \<Rightarrow>
                     (case ExtractSecurityGroups body of
                        Inl e \<Rightarrow> fail (GoErr e)
                      | Inr resp \<Rightarrow>
                         (let secGroups =
                                concat (map (\<lambda>raw.
                                  case find (\<lambda>secGroup. as_string raw = v1_Name secGroup) resp of
                                    None \<Rightarrow> []
                                  | Some secGroup \<Rightarrow> [v1_ID secGroup]) rawSecGroups)
                          in if length secGroups \<noteq> length rawSecGroups
                             then fail (Errorf ''the list contains invalid security groups (num: %d), please check your entry''
                                          [AInt (int (length rawSecGroups) - int (length secGroups))])
                             else ret secGroups))))"

text \<open>\<^verbatim>\<open>resourceInstanceSecGroupsV2\<close>.\<close>

definition resourceInstanceSecGroupsV2 :: "ResourceData \<Rightarrow> string list" where
  "resourceInstanceSecGroupsV2 d = map as_string (as_list (d_Get d ''security_groups''))"

subsection \<open>Flattening the server\<close>

text \<open>
  \<^verbatim>\<open>computePublicIP\<close>: per network, the first floating address overwrites the result.
  An address is (Addr, Type).
\<close>

definition computePublicIP :: "CloudServer \<Rightarrow> string" where
  "computePublicIP server =
     foldl (\<lambda>publicIP addresses.
              case find (\<lambda>addr. snd addr = ''floating'') (snd addresses) of
                None \<Rightarrow> publicIP
              | Some addr \<Rightarrow> fst addr)
       [] (cs_Addresses server)"

text \<open>
  \<^verbatim>\<open>flattenTagsToMap\<close>. \<^verbatim>\<open>strings.SplitN(tagStr, "=", 2)\<close> yields one piece when there is no
  \<open>=\<close> and otherwise the text before the first \<open>=\<close> and the text after it.
\<close>

definition flattenTagsToMap :: "string list \<Rightarrow> (string \<times> string) list" where
  "flattenTagsToMap tags =
     foldl (\<lambda>result tagStr.
              let k = takeWhile (\<lambda>c. c \<noteq> CHR ''='') tagStr;
                  rest = dropWhile (\<lambda>c. c \<noteq> CHR ''='') tagStr
              in if rest = [] then AList.update k [] result
                 else AList.update k (tl rest) result)
       [] tags"

subsection \<open>Read\<close>

text \<open>
  Modelled from the spec: \<^verbatim>\<open>common.CheckDeletedDiag\<close>, whose source is not available.
  Section 4.1 of the specification: "not found" on read is treated as an implicit deletion,
  not an error; section 3: identity is cleared on confirmed deletion; section 7: any other
  remote failure is fatal and surfaced with its call context.
\<close>

definition CheckDeletedDiag :: "goerr \<Rightarrow> string \<Rightarrow> unit io" where
  "CheckDeletedDiag e msg =
     (if is_ErrDefault404 e then update_d (d_SetId [])
      else fail (Errorf ''%s: %s'' [AStr msg, AErr (GoErr e)]))"

text \<open>
  The body of \<^verbatim>\<open>resourceComputeInstanceRead\<close> after the deletion test, in four parts.
  First the block of \<^verbatim>\<open>d.Set\<close> calls up to the flavor.
\<close>

definition Read_setBasic :: "string \<Rightarrow> CloudServer \<Rightarrow> ResourceData \<Rightarrow> ResourceData" where
  "Read_setBasic region server =
     d_SetAll
       [(''region'', VStr region),
        (''availability_zone'', VStr (cs_AvailabilityZone server)),
        (''name'', VStr (cs_Name server)),
        (''description'', VStr (cs_Description server)),
        (''status'', VStr (cs_Status server)),
        (''agency_name'', VStr (cs_AgencyName server)),
        (''agent_list'', VStr (cs_AgentList server)),
        (''charging_mode'', VStr (normalizeChargingMode (cs_ChargingMode server))),
        (''created_at'', VStr (cs_Created server)),
        (''updated_at'', VStr (cs_Updated server)),
        (''flavor_id'', VStr (cs_FlavorID server)),
        (''flavor_name'', VStr (cs_FlavorName server))]"

text \<open>
  Key pair, public IP, networks, access addresses, connection info and security groups.
  A security group of the server is (Name, ID).
\<close>

definition Read_setNetworks :: "env \<Rightarrow> CloudServer \<Rightarrow> unit io" where
  "Read_setNetworks E server =
     bind (if cs_KeyName server \<noteq> [] then update_d (d_Set ''key_pair'' (VStr (cs_KeyName server)))
           else ret ()) (\<lambda>_.
     bind (if computePublicIP server \<noteq> []
           then update_d (d_Set ''public_ip'' (VStr (computePublicIP server)))
           else ret ()) (\<lambda>_.
     bind get_d (\<lambda>d.
     bind (remote E (FlattenInstanceNetworks (rd_Id d))) (\<lambda>r.
       case ExtractNetworks r of
         Inl e \<Rightarrow> fail (GoErr e)
       | Inr networks \<Rightarrow>
          (let hostv4 = fst (getInstanceAccessAddresses E networks);
               hostv6 = snd (getInstanceAccessAddresses E networks);
               hostv4 = (if cs_AccessIPv4 server \<noteq> [] then cs_AccessIPv4 server else hostv4);
               hostv6 = (if cs_AccessIPv6 server \<noteq> [] then cs_AccessIPv6 server else hostv6);
               preferredSSHAddress = (if hostv4 \<noteq> [] then hostv4
                                      else if hostv6 \<noteq> [] then hostv6 else [])
           in
           bind (update_d (d_Set ''network'' (VList (map VMap networks)))) (\<lambda>_.
           bind (update_d (d_Set ''access_ip_v4'' (VStr hostv4))) (\<lambda>_.
           bind (update_d (d_Set ''access_ip_v6'' (VStr hostv6))) (\<lambda>_.
           bind (if preferredSSHAddress \<noteq> []
                 then update_d (\<lambda>d. d\<lparr>rd_connInfo :=
                                  [(''type'', ''ssh''), (''host'', preferredSSHAddress)]\<rparr>)
                 else ret ()) (\<lambda>_.
           bind (update_d (d_Set ''security_groups''
                             (VList (map (\<lambda>sg. VStr (fst sg)) (cs_SecurityGroups server))))) (\<lambda>_.
           update_d (d_Set ''security_group_ids''
                       (VList (map (\<lambda>sg. VStr (snd sg)) (cs_SecurityGroups server))))))))))))))"

text \<open>The loop over \<^verbatim>\<open>server.VolumeAttached\<close>; \<open>bds\<close> is the part of the slice filled so far.\<close>

fun Read_volumes :: "env \<Rightarrow> string list \<Rightarrow> tfvalue list \<Rightarrow> tfvalue list io" where
  "Read_volumes E [] bds = ret bds"
| "Read_volumes E (b # bs) bds =
     bind get_d (\<lambda>d.
     bind (remote E (CloudvolumesGet b)) (\<lambda>r.
       case ExtractVolume r of
         Inl e \<Rightarrow> fail (GoErr e)
       | Inr (volSize, volType, cmkID) \<Rightarrow>
           bind (remote E (BlockDevicesGet (rd_Id d) b)) (\<lambda>r2.
             case ExtractBlockDevice r2 of
               Inl e \<Rightarrow> fail (GoErr e)
             | Inr (bootIndex, pciAddress) \<Rightarrow>
                 bind (if bootIndex = 0
                       then update_d (d_SetAll [(''system_disk_id'', VStr b),
                                                (''system_disk_size'', VInt volSize),
                                                (''system_disk_type'', VStr volType)])
                       else ret ()) (\<lambda>_.
                 Read_volumes E bs
                   (bds @ [VMap [(''volume_id'', VStr b), (''size'', VInt volSize),
                                 (''type'', VStr volType), (''boot_index'', VInt bootIndex),
                                 (''pci_address'', VStr pciAddress),
                                 (''kms_key_id'', VStr cmkID)]])))))"

text \<open>Attached volumes, scheduler hints and tags.\<close>

definition Read_setVolumes :: "env \<Rightarrow> CloudServer \<Rightarrow> unit io" where
  "Read_setVolumes E server =
     bind (if length (cs_VolumeAttached server) > 0
           then bind (Read_volumes E (cs_VolumeAttached server) []) (\<lambda>bds.
                  update_d (d_Set ''volume_attached'' (VList bds)))
           else ret ()) (\<lambda>_.
     bind (if length (cs_SchedulerGroups server) > 0
           then update_d (d_Set ''scheduler_hints''
                            (VList (map (\<lambda>v. VMap [(''group'', VStr v)]) (cs_SchedulerGroups server))))
           else ret ()) (\<lambda>_.
     update_d (d_Set ''tags''
                 (VMap (map (\<lambda>(k, v). (k, VStr v)) (flattenTagsToMap (cs_Tags server)))))))"

text \<open>\<^verbatim>\<open>resourceComputeInstanceRead\<close>.\<close>

definition resourceComputeInstanceRead :: "env \<Rightarrow> unit io" where
  "resourceComputeInstanceRead E =
     bind (client E ''ComputeV1Client'' ''error creating compute V1 client: %s'') (\<lambda>_.
     bind (client E ''BlockStorageV2Client'' ''error creating evs client: %s'') (\<lambda>_.
     bind (client E ''ImageV2Client'' ''error creating image client: %s'') (\<lambda>_.
     bind get_d (\<lambda>d.
     bind (remote E (CloudserversGet (rd_Id d))) (\<lambda>r.
       case ExtractServer r of
         Inl e \<Rightarrow> CheckDeletedDiag e ''error retrieving compute instance''
       | Inr server \<Rightarrow>
           if cs_Status server = ''DELETED'' then update_d (d_SetId [])
           else
             bind (update_d (Read_setBasic (GetRegion E d) server)) (\<lambda>_.
             bind (setImageInformation E (cs_ImageID server)) (\<lambda>_.
             bind (Read_setNetworks E server) (\<lambda>_.
             Read_setVolumes E server))))))))"

subsection \<open>Create\<close>

text \<open>
  The request of the ECS create path: \<^verbatim>\<open>createOpts\<close> with its \<^verbatim>\<open>extendParam\<close> and
  \<^verbatim>\<open>metadata\<close>, for the fields kept in \<open>CreateOpts\<close>.
\<close>

definition ecsCreateOpts ::
  "env \<Rightarrow> ResourceData \<Rightarrow> string \<Rightarrow> string \<Rightarrow> string \<Rightarrow> string list \<Rightarrow> CreateOpts" where
  "ecsCreateOpts E d imageId flavorId vpcId secGroups =
     (let chargingMode = as_string (d_Get d ''charging_mode'')
      in \<lparr>co_Name = as_string (d_Get d ''name''),
          co_ImageRef = imageId,
          co_FlavorRef = flavorId,
          co_KeyName = as_string (d_Get d ''key_pair''),
          co_VpcId = vpcId,
          co_SecurityGroups = secGroups,
          co_ChargingMode = (if chargingMode = ''prePaid'' then chargingMode else []),
          co_MarketType = (if chargingMode = ''prePaid'' then []
                           else if chargingMode = ''spot'' then ''spot'' else []),
          co_SpotPrice = (if chargingMode = ''prePaid'' then []
                          else if chargingMode = ''spot''
                          then as_string (d_Get d ''spot_maximum_price'') else []),
          co_OpSvcUserId = getOpSvcUserID d E\<rparr>)"

text \<open>The request of the OpenStack create path.\<close>

definition novaCreateOpts :: "ResourceData \<Rightarrow> string \<Rightarrow> string \<Rightarrow> CreateOpts" where
  "novaCreateOpts d imageId flavorId =
     \<lparr>co_Name = as_string (d_Get d ''name''),
      co_ImageRef = imageId,
      co_FlavorRef = flavorId,
      co_KeyName = as_string (d_Get d ''key_pair''),
      co_VpcId = [],
      co_SecurityGroups = resourceInstanceSecGroupsV2 d,
      co_ChargingMode = [],
      co_MarketType = [],
      co_SpotPrice = [],
      co_OpSvcUserId = []\<rparr>"

text \<open>
  The branch \<^verbatim>\<open>if !hasDeprecatedConfig(d)\<close>: the ECS API. The body of the create answer
  is the order id or the job id; the body of \<^verbatim>\<open>GetJobEntity\<close> is the server id.
\<close>

definition Create_ecs :: "env \<Rightarrow> string \<Rightarrow> string \<Rightarrow> unit io" where
  "Create_ecs E imageId flavorId =
     bind (client E ''ComputeV11Client'' ''error creating compute V1.1 client: %s'') (\<lambda>_.
     bind (client E ''NetworkingV1Client'' ''error creating networking V1 client: %s'') (\<lambda>_.
     bind (getVpcID E) (\<lambda>vpcId.
     bind (resourceInstanceSecGroupIdsV1 E) (\<lambda>secGroups.
     bind get_d (\<lambda>d.
     bind (if as_string (d_Get d ''charging_mode'') = ''prePaid''
           then (case ValidatePrePaidChargeInfo E d of
                   Some e \<Rightarrow> fail (GoErr e)
                 | None \<Rightarrow> ret ())
           else ret ()) (\<lambda>_.
     let createOpts = ecsCreateOpts E d imageId flavorId vpcId secGroups
     in if d_Get d ''charging_mode'' = VStr ''prePaid''
        then
          bind (remote E (CloudserversCreatePrePaid createOpts)) (\<lambda>n.
            case ExtractString n of
              Inl e \<Rightarrow> fail (Errorf ''error creating server: %s'' [AErr (GoErr e)])
            | Inr orderID \<Rightarrow>
                bind (client E ''BssV2Client'' ''error creating BSS v2 client: %s'') (\<lambda>_.
                bind (remote E (WaitOrderComplete orderID)) (\<lambda>w.
                  case ExtractErr w of
                    Some e \<Rightarrow> fail (GoErr e)
                  | None \<Rightarrow>
                      bind (remote E (WaitOrderResourceComplete orderID)) (\<lambda>w2.
                        case ExtractString w2 of
                          Inl e \<Rightarrow> fail (GoErr e)
                        | Inr resourceId \<Rightarrow> update_d (d_SetId resourceId)))))
        else
          bind (remote E (CloudserversCreate createOpts)) (\<lambda>n.
            case ExtractString n of
              Inl e \<Rightarrow> fail (Errorf ''error creating server: %s'' [AErr (GoErr e)])
            | Inr jobID \<Rightarrow>
                bind (remote E (WaitForJobSuccess jobID)) (\<lambda>w.
                  case ExtractErr w of
                    Some e \<Rightarrow> fail (GoErr e)
                  | None \<Rightarrow>
                      bind (remote E (GetJobEntity jobID ''server_id'')) (\<lambda>g.
                        case ExtractString g of
                          Inl e \<Rightarrow> fail (GoErr e)
                        | Inr serverId \<Rightarrow> update_d (d_SetId serverId))))))))))"

text \<open>The \<^verbatim>\<open>else\<close> branch: the OpenStack API. The body of the create answer is the server id.\<close>

definition Create_nova :: "env \<Rightarrow> string \<Rightarrow> string \<Rightarrow> unit io" where
  "Create_nova E imageId flavorId =
     bind get_d (\<lambda>d.
     bind (case expandInstanceNetworks E d of
             Some e \<Rightarrow> fail (GoErr e)
           | None \<Rightarrow> ret ()) (\<lambda>_.
     bind (case d_GetOk d ''block_device_mapping_v2'' of
             (vL, ok) \<Rightarrow>
               if ok then (case resourceInstanceBlockDevicesV2 (as_list vL) of
                             Some e \<Rightarrow> fail e
                           | None \<Rightarrow> ret ())
               else ret ()) (\<lambda>_.
     bind (remote E (ServersCreate (novaCreateOpts d imageId flavorId))) (\<lambda>r.
       case ExtractString r of
         Inl e \<Rightarrow> fail (Errorf ''error creating server: %s'' [AErr (GoErr e)])
       | Inr serverID \<Rightarrow>
           bind (update_d (d_SetId serverID)) (\<lambda>_.
           bind get_d (\<lambda>d'.
           bind (attempt (waitForServerTargetState E (rd_Id d') [''BUILD''] [''ACTIVE'']
                            (polls_within E ''create''))) (\<lambda>w.
             case w of
               Inl e \<Rightarrow> fail (Errorf ''State waiting timeout: %s'' [AErr e])
             | Inr _ \<Rightarrow> ret ())))))))"

text \<open>"Create an instance in the shutdown state."\<close>

definition Create_powerAction :: "env \<Rightarrow> unit io" where
  "Create_powerAction E =
     bind get_d (\<lambda>d.
       case d_GetOk d ''power_action'' of
         (v, ok) \<Rightarrow>
           if ok
           then (let action = as_string v
                 in if action = ''OFF'' \<or> action = ''FORCE-OFF''
                    then bind (attempt (doPowerAction E action)) (\<lambda>r.
                           case r of
                             Inl e \<Rightarrow> fail (Errorf ''Doing power action (%s) for instance (%s) failed: %s''
                                              [AStr action, AStr (rd_Id d), AErr e])
                           | Inr _ \<Rightarrow> ret ())
                    else ret ())
           else ret ())"

text \<open>
  The loop \<^verbatim>\<open>for i, nic := range networks\<close> of the create handler, from index \<open>i\<close> on.
  \<^verbatim>\<open>sourceDestChecks[i]\<close> is read only for a NIC with a port; an index beyond the slice
  panics.
\<close>

fun Create_disableChecks ::
  "env \<Rightarrow> ResourceData \<Rightarrow> bool list \<Rightarrow> nat \<Rightarrow> (string \<times> tfvalue) list list \<Rightarrow> unit io" where
  "Create_disableChecks E d sourceDestChecks i [] = ret ()"
| "Create_disableChecks E d sourceDestChecks i (nic # nics) =
     (let nicPort = as_string (field nic ''port'')
      in if nicPort = [] then Create_disableChecks E d sourceDestChecks (Suc i) nics
         else if \<not> i < length sourceDestChecks then fail (Panic ''index out of range'')
         else if \<not> sourceDestChecks ! i
         then bind (disableSourceDestCheck E nicPort) (\<lambda>err.
                case err of
                  Some e \<Rightarrow>
                    fail (Errorf ''error disabling source dest check on port(%s) of instance(%s): %s''
                            [AStr nicPort, AStr (rd_Id d), AErr (GoErr e)])
                | None \<Rightarrow> Create_disableChecks E d sourceDestChecks (Suc i) nics)
         else Create_disableChecks E d sourceDestChecks (Suc i) nics)"

text \<open>"get the original value of source_dest_check in script" and what follows.\<close>

definition Create_sourceDestCheck :: "env \<Rightarrow> unit io" where
  "Create_sourceDestCheck E =
     bind get_d (\<lambda>d.
       let originalNetworks = as_list (d_Get d ''network'');
           sourceDestChecks =
             map (\<lambda>v. as_bool (field (as_map v) ''source_dest_check'')) originalNetworks;
           flag = (\<exists>c \<in> set sourceDestChecks. \<not> c)
       in if flag
          then bind (remote E (CloudserversGet (rd_Id d))) (\<lambda>r.
                 case ExtractServer r of
                   Inl e \<Rightarrow> fail (Errorf ''error retrieving compute instance: %s'' [AStr (rd_Id d)])
                 | Inr server \<Rightarrow>
                     bind (remote E (FlattenInstanceNetworks (rd_Id d))) (\<lambda>n.
                       case ExtractNetworks n of
                         Inl e \<Rightarrow> fail (GoErr e)
                       | Inr networks \<Rightarrow> Create_disableChecks E d sourceDestChecks 0 networks))
          else ret ())"

text \<open>\<^verbatim>\<open>resourceComputeInstanceCreate\<close>.\<close>

definition resourceComputeInstanceCreate :: "env \<Rightarrow> unit io" where
  "resourceComputeInstanceCreate E =
     bind (client E ''ComputeV2Client'' ''error creating compute V2 client: %s'') (\<lambda>_.
     bind (client E ''ComputeV1Client'' ''error creating compute V1 client: %s'') (\<lambda>_.
     bind (client E ''ImageV2Client'' ''error creating image client: %s'') (\<lambda>_.
     bind (client E ''NetworkingV2Client'' ''error creating networking client: %s'') (\<lambda>_.
     bind get_d (\<lambda>d.
     bind (case validateComputeInstanceConfig d E of
             Some e \<Rightarrow> fail e
           | None \<Rightarrow> ret ()) (\<lambda>_.
     bind (getImageIDFromConfig E) (\<lambda>imageId.
     bind (case getFlavorID d of Inl e \<Rightarrow> fail e | Inr flavorId \<Rightarrow> ret flavorId) (\<lambda>flavorId.
     bind (case checkBlockDeviceConfig d of
             Some e \<Rightarrow> fail e
           | None \<Rightarrow> ret ()) (\<lambda>_.
     bind (if \<not> hasDeprecatedConfig d then Create_ecs E imageId flavorId
           else Create_nova E imageId flavorId) (\<lambda>_.
     bind (Create_powerAction E) (\<lambda>_.
     bind (Create_sourceDestCheck E) (\<lambda>_.
     resourceComputeInstanceRead E))))))))))))"

subsection \<open>Update\<close>

text \<open>
  \<^verbatim>\<open>resourceComputeInstanceUpdate\<close> is a sequence of \<^verbatim>\<open>if d.HasChange(...)\<close> blocks; each
  block is one definition below, in the order of the source.
\<close>

definition Update_name :: "env \<Rightarrow> unit io" where
  "Update_name E =
     bind get_d (\<lambda>d.
       if d_HasChange d ''name'' \<or> d_HasChange d ''description''
       then bind (remote E (CloudserversUpdate (rd_Id d) (as_string (d_Get d ''name''))
                              (as_string (d_Get d ''description'')))) (\<lambda>r.
              case ExtractErr r of
                Some e \<Rightarrow> fail (Errorf ''error updating server: %s'' [AErr (GoErr e)])
              | None \<Rightarrow> ret ())
       else ret ())"

fun Update_deleteMetadata :: "env \<Rightarrow> ResourceData \<Rightarrow> string list \<Rightarrow> unit io" where
  "Update_deleteMetadata E d [] = ret ()"
| "Update_deleteMetadata E d (key # keys) =
     bind (remote E (DeleteMetadatum (rd_Id d) key)) (\<lambda>r.
       case ExtractErr r of
         Some e \<Rightarrow> fail (Errorf ''error deleting metadata (%s) from server (%s): %s''
                           [AStr key, AStr (rd_Id d), AErr (GoErr e)])
       | None \<Rightarrow> Update_deleteMetadata E d keys)"

definition Update_metadata :: "env \<Rightarrow> unit io" where
  "Update_metadata E =
     bind get_d (\<lambda>d.
       if d_HasChange d ''metadata''
       then
         (let oldMetadata = as_map (rd_old d ''metadata'');
              newMetadata = as_map (rd_attrs d ''metadata'');
              metadataToDelete =
                filter (\<lambda>oldKey. \<not> (\<exists>newKey \<in> set (map fst newMetadata). oldKey = newKey))
                  (map fst oldMetadata)
          in bind (Update_deleteMetadata E d metadataToDelete) (\<lambda>_.
             bind (remote E (UpdateMetadata (rd_Id d)
                               (map (\<lambda>(k, v). (k, as_string v)) newMetadata))) (\<lambda>r.
               case ExtractErr r of
                 Some e \<Rightarrow> fail (Errorf ''error updating server (%s) metadata: %s''
                                   [AStr (rd_Id d), AErr (GoErr e)])
               | None \<Rightarrow> ret ())))
       else ret ())"

text \<open>The guard of the source names the key \<^verbatim>\<open>"agent_list "\<close>, with a trailing blank.\<close>

definition Update_agency :: "env \<Rightarrow> unit io" where
  "Update_agency E =
     bind get_d (\<lambda>d.
       if d_HasChange d ''agency_name'' \<or> d_HasChange d ''agent_list ''
       then
         (let metadataOpts =
                (if d_HasChange d ''agency_name''
                 then [(''agency_name'', as_string (d_Get d ''agency_name''))] else []) @
                (if d_HasChange d ''agent_list''
                 then [(''__support_agent_list'', as_string (d_Get d ''agent_list''))] else [])
          in bind (remote E (UpdateMetadata (rd_Id d) metadataOpts)) (\<lambda>r.
               case ExtractErr r of
                 Some e \<Rightarrow> fail (Errorf ''error updating server (%s) metadata(agency_name, agent_list) : %s''
                                   [AStr (rd_Id d), AErr (GoErr e)])
               | None \<Rightarrow> ret ()))
       else ret ())"

fun Update_removeSecgroups :: "env \<Rightarrow> ResourceData \<Rightarrow> string list \<Rightarrow> unit io" where
  "Update_removeSecgroups E d [] = ret ()"
| "Update_removeSecgroups E d (g # gs) =
     bind (remote E (RemoveServer (rd_Id d) g)) (\<lambda>r.
       case ExtractErr r of
         Some e \<Rightarrow>
           if goerr_Error e \<noteq> ''EOF''
           then (if is_ErrDefault404 e then Update_removeSecgroups E d gs
                 else fail (Errorf ''error removing security group (%s) from server (%s): %s''
                              [AStr g, AStr (rd_Id d), AErr (GoErr e)]))
           else Update_removeSecgroups E d gs
       | None \<Rightarrow> Update_removeSecgroups E d gs)"

fun Update_addSecgroups :: "env \<Rightarrow> ResourceData \<Rightarrow> string list \<Rightarrow> unit io" where
  "Update_addSecgroups E d [] = ret ()"
| "Update_addSecgroups E d (g # gs) =
     bind (remote E (AddServer (rd_Id d) g)) (\<lambda>r.
       case ExtractErr r of
         Some e \<Rightarrow>
           if goerr_Error e \<noteq> ''EOF''
           then fail (Errorf ''error adding security group (%s) to server (%s): %s''
                        [AStr g, AStr (rd_Id d), AErr (GoErr e)])
           else Update_addSecgroups E d gs
       | None \<Rightarrow> Update_addSecgroups E d gs)"

definition Update_secgroups :: "env \<Rightarrow> unit io" where
  "Update_secgroups E =
     bind get_d (\<lambda>d.
       if d_HasChange d ''security_group_ids'' \<or> d_HasChange d ''security_groups''
       then
         (let k = (if d_HasChange d ''security_group_ids'' then ''security_group_ids''
                   else ''security_groups'');
              oldSGSet = map as_string (as_list (rd_old d k));
              newSGSet = map as_string (as_list (rd_attrs d k));
              secgroupsToAdd = filter (\<lambda>g. g \<notin> set oldSGSet) newSGSet;
              secgroupsToRemove = filter (\<lambda>g. g \<notin> set newSGSet) oldSGSet
          in bind (Update_removeSecgroups E d secgroupsToRemove) (\<lambda>_.
             Update_addSecgroups E d secgroupsToAdd))
       else ret ())"

definition Update_adminPass :: "env \<Rightarrow> unit io" where
  "Update_adminPass E =
     bind get_d (\<lambda>d.
       if d_HasChange d ''admin_pass''
       then bind (remote E (ChangeAdminPassword (rd_Id d) (as_string (d_Get d ''admin_pass'')))) (\<lambda>r.
              case ExtractErr r of
                Some e \<Rightarrow> fail (Errorf ''error changing admin password of server (%s): %s''
                                  [AStr (rd_Id d), AErr (GoErr e)])
              | None \<Rightarrow> ret ())
       else ret ())"

text \<open>The body of the resize answer is the job id.\<close>

definition Update_flavor :: "env \<Rightarrow> unit io" where
  "Update_flavor E =
     bind get_d (\<lambda>d.
       if d_HasChange d ''flavor_id'' \<or> d_HasChange d ''flavor_name''
       then (case getFlavorID d of
               Inl e \<Rightarrow> fail e
             | Inr newFlavorId \<Rightarrow>
                 bind (remote E (Resize (rd_Id d) newFlavorId)) (\<lambda>r.
                   case ExtractString r of
                     Inl e \<Rightarrow> fail (Errorf ''error resizing server: %s'' [AErr (GoErr e)])
                   | Inr jobID \<Rightarrow>
                       bind (remote E (WaitForJobSuccess jobID)) (\<lambda>w.
                         case ExtractErr w of
                           Some e \<Rightarrow> fail (Errorf ''error waiting for instance (%s) to be resized: %s''
                                             [AStr (rd_Id d), AErr (GoErr e)])
                         | None \<Rightarrow> ret ())))
       else ret ())"

definition Update_network :: "env \<Rightarrow> unit io" where
  "Update_network E =
     bind get_d (\<lambda>d.
       if d_HasChange d ''network''
       then bind (client E ''NetworkingV2Client'' ''error creating networking client: %s'') (\<lambda>_.
            updateSourceDestCheck E)
       else ret ())"

text \<open>
  The block for \<^verbatim>\<open>tags\<close> formats its message with \<^verbatim>\<open>err\<close>, the result of the client
  constructor just above, which is nil there; the error of
  \<^verbatim>\<open>utils.UpdateResourceTags\<close> is held by \<^verbatim>\<open>tagErr\<close>.
\<close>

definition Update_tags :: "env \<Rightarrow> unit io" where
  "Update_tags E =
     bind get_d (\<lambda>d.
       if d_HasChange d ''tags''
       then bind (client E ''ComputeV1Client'' ''error creating compute v1 client: %s'') (\<lambda>_.
            bind (remote E (UpdateResourceTags (rd_Id d))) (\<lambda>r.
              case ExtractErr r of
                Some tagErr \<Rightarrow> fail (Errorf ''error updating tags of instance:%s, err:%s''
                                       [AStr (rd_Id d), ANil])
              | None \<Rightarrow> ret ()))
       else ret ())"

text \<open>
  \<^verbatim>\<open>evs.CloudVolumeRefreshFunc\<close>, whose source is not available: one status fetch for the
  volume, the body of the answer being the status.
\<close>

definition CloudVolumeRefreshFunc :: "env \<Rightarrow> string \<Rightarrow> (unit \<times> string \<times> err option) io" where
  "CloudVolumeRefreshFunc E volumeID =
     bind (remote E (CloudVolumeRefresh volumeID)) (\<lambda>r.
       case ExtractString r of
         Inl e \<Rightarrow> ret ((), [], Some (GoErr e))
       | Inr status \<Rightarrow> ret ((), status, None))"

text \<open>The body of the extend answer is the order id.\<close>

definition Update_systemDisk :: "env \<Rightarrow> unit io" where
  "Update_systemDisk E =
     bind get_d (\<lambda>d.
       if d_HasChange d ''system_disk_size''
       then
         bind (client E ''BlockStorageV2Client'' ''error creating evs V2 client: %s'') (\<lambda>_.
         bind (client E ''BlockStorageV21Client'' ''error creating evs V2.1 client: %s'') (\<lambda>_.
         let systemDiskID = as_string (d_Get d ''system_disk_id'')
         in bind (remote E (ExtendSize systemDiskID (as_int (d_Get d ''system_disk_size'')))) (\<lambda>r.
              case ExtractString r of
                Inl e \<Rightarrow> fail (Errorf ''error extending EVS volume (%s) size: %s''
                                 [AStr systemDiskID, AErr (GoErr e)])
              | Inr orderID \<Rightarrow>
                  bind (if strings_EqualFold (as_string (d_Get d ''charging_mode'')) ''prePaid''
                        then bind (client E ''BssV2Client'' ''error creating BSS v2 client: %s'') (\<lambda>_.
                             bind (remote E (WaitOrderComplete orderID)) (\<lambda>w.
                               case ExtractErr w of
                                 Some e \<Rightarrow>
                                   fail (Errorf ''The order (%s) is not completed while extending system disk (%s) size: %#v''
                                           [AStr orderID, AStr (rd_Id d), AErr (GoErr e)])
                               | None \<Rightarrow> ret ()))
                        else ret ()) (\<lambda>_.
                  bind (attempt (WaitForStateContext (polls_within E ''update'') [''extending'']
                                   [''available'', ''in-use'']
                                   (CloudVolumeRefreshFunc E systemDiskID))) (\<lambda>w.
                    case w of
                      Inl e \<Rightarrow>
                        fail (Errorf ''error waiting for huaweicloud_compute_instance system disk %s to become ready: %s''
                                [AStr systemDiskID, AErr e])
                    | Inr _ \<Rightarrow> ret ())))))
       else ret ())"

definition Update_keyPair :: "env \<Rightarrow> unit io" where
  "Update_keyPair E =
     bind get_d (\<lambda>d.
       if d_HasChange d ''key_pair''
       then bind (client E ''KmsV3Client'' ''error creating KMS v3 client: %s'') (\<lambda>_.
            bind (remote E (UpdateEcsInstanceKeyPair (rd_Id d) (as_string (rd_old d ''key_pair''))
                              (as_string (rd_attrs d ''key_pair'')))) (\<lambda>r.
              case ExtractErr r of
                Some e \<Rightarrow> fail (GoErr e)
              | None \<Rightarrow> ret ()))
       else ret ())"

definition Update_powerAction :: "env \<Rightarrow> unit io" where
  "Update_powerAction E =
     bind get_d (\<lambda>d.
       if d_HasChange d ''power_action''
       then (let action = as_string (d_Get d ''power_action'')
             in bind (attempt (doPowerAction E action)) (\<lambda>r.
                  case r of
                    Inl e \<Rightarrow> fail (Errorf ''Doing power action (%s) for instance (%s) failed: %s''
                                     [AStr action, AStr (rd_Id d), AErr e])
                  | Inr _ \<Rightarrow> ret ()))
       else ret ())"

definition Update_autoRenew :: "env \<Rightarrow> unit io" where
  "Update_autoRenew E =
     bind get_d (\<lambda>d.
       if d_HasChange d ''auto_renew''
       then bind (client E ''BssV2Client'' ''error creating BSS V2 client: %s'') (\<lambda>_.
            bind (remote E (UpdateAutoRenew (as_string (d_Get d ''auto_renew'')) (rd_Id d))) (\<lambda>r.
              case ExtractErr r of
                Some e \<Rightarrow> fail (Errorf ''error updating the auto-renew of the instance (%s): %s''
                                  [AStr (rd_Id d), AErr (GoErr e)])
              | None \<Rightarrow> ret ()))
       else ret ())"

text \<open>The blocks in the order of the source, without the three client constructors before
  them and the final read.\<close>

definition Update_blocks :: "env \<Rightarrow> unit io" where
  "Update_blocks E =
     bind (Update_name E) (\<lambda>_.
     bind (Update_metadata E) (\<lambda>_.
     bind (Update_agency E) (\<lambda>_.
     bind (Update_secgroups E) (\<lambda>_.
     bind (Update_adminPass E) (\<lambda>_.
     bind (Update_flavor E) (\<lambda>_.
     bind (Update_network E) (\<lambda>_.
     bind (Update_tags E) (\<lambda>_.
     bind (Update_systemDisk E) (\<lambda>_.
     bind (Update_keyPair E) (\<lambda>_.
     bind (Update_powerAction E) (\<lambda>_.
     Update_autoRenew E)))))))))))"

text \<open>\<^verbatim>\<open>resourceComputeInstanceUpdate\<close>.\<close>

definition resourceComputeInstanceUpdate :: "env \<Rightarrow> unit io" where
  "resourceComputeInstanceUpdate E =
     bind (client E ''ComputeV2Client'' ''error creating compute V2 client: %s'') (\<lambda>_.
     bind (client E ''ComputeV1Client'' ''error creating compute V1 client: %s'') (\<lambda>_.
     bind (client E ''ComputeV11Client'' ''error creating compute V1.1 client: %s'') (\<lambda>_.
     bind (Update_blocks E) (\<lambda>_.
     resourceComputeInstanceRead E))))"

subsection \<open>Delete\<close>

text \<open>\<^verbatim>\<open>resourceComputeInstanceDelete\<close>. The body of the delete answer is the job id.\<close>

definition Delete_stop :: "env \<Rightarrow> unit io" where
  "Delete_stop E =
     bind get_d (\<lambda>d.
       if as_bool (d_Get d ''stop_before_destroy'')
       then bind (attempt (doPowerAction E ''FORCE-OFF'')) (\<lambda>r.
              case r of
                Inl e \<Rightarrow> ret ()
              | Inr _ \<Rightarrow>
                  bind (attempt (waitForServerTargetState E (rd_Id d) [''ACTIVE''] [''SHUTOFF'']
                                   (polls_within E ''delete''))) (\<lambda>w.
                    case w of
                      Inl e \<Rightarrow> fail (Errorf ''State waiting timeout: %s'' [AErr e])
                    | Inr _ \<Rightarrow> ret ()))
       else ret ())"

definition Delete_remove :: "env \<Rightarrow> unit io" where
  "Delete_remove E =
     bind get_d (\<lambda>d.
       if d_Get d ''charging_mode'' = VStr ''prePaid''
       then bind (attempt (calcUnsubscribeResources E)) (\<lambda>r.
              case r of
                Inl e \<Rightarrow> fail (Errorf ''error unsubscribe ECS server: %s'' [AErr e])
              | Inr resources \<Rightarrow>
                  bind (remote E (UnsubscribePrePaidResource resources)) (\<lambda>u.
                    case ExtractErr u of
                      Some e \<Rightarrow> fail (Errorf ''error unsubscribe ECS server: %s'' [AErr (GoErr e)])
                    | None \<Rightarrow> ret ()))
       else bind (remote E (CloudserversDelete (rd_Id d)
                              (as_bool (d_Get d ''delete_disks_on_termination''))
                              (as_bool (d_Get d ''delete_eip_on_termination'')))) (\<lambda>n.
              case ExtractString n of
                Inl e \<Rightarrow> fail (Errorf ''error deleting server: %s'' [AErr (GoErr e)])
              | Inr jobID \<Rightarrow>
                  bind (remote E (WaitForJobSuccess jobID)) (\<lambda>w.
                    case ExtractErr w of
                      Some e \<Rightarrow> fail (GoErr e)
                    | None \<Rightarrow> ret ())))"

definition resourceComputeInstanceDelete :: "env \<Rightarrow> unit io" where
  "resourceComputeInstanceDelete E =
     bind (client E ''ComputeV1Client'' ''error creating compute client: %s'') (\<lambda>_.
     bind (Delete_stop E) (\<lambda>_.
     bind (Delete_remove E) (\<lambda>_.
     bind get_d (\<lambda>d.
     bind (attempt (waitForServerTargetState E (rd_Id d) [''ACTIVE'', ''SHUTOFF'']
                      [''DELETED'', ''SOFT_DELETED''] (polls_within E ''delete''))) (\<lambda>w.
       case w of
         Inl e \<Rightarrow> fail (Errorf ''State waiting timeout: %s'' [AErr e])
       | Inr _ \<Rightarrow> update_d (d_SetId []))))))"

section \<open>Vocabulary of the properties\<close>

subsection \<open>Concrete inputs\<close>

text \<open>
  An environment in which every client can be built and the helpers accept everything;
  the remote side is the argument. A resource data value from two attribute bags, the
  configured values and the prior state. A server with a status and a billing mode.
\<close>

definition env_of :: "(nat \<Rightarrow> call \<Rightarrow> goerr + response) \<Rightarrow> string \<Rightarrow> env" where
  "env_of f uid =
     \<lparr>respond = f, cfg_client = (\<lambda>n. None), cfg_UserID = uid,
      GetRegion = (\<lambda>d. ''region-1''), DataGetEnterpriseProjectID = (\<lambda>d. ''0''), polls_within = (\<lambda>k. 3), hashcode_Strings = concat,
      ValidatePrePaidChargeInfo = (\<lambda>d. None), expandInstanceNetworks = (\<lambda>d. None),
      getInstanceAccessAddresses = (\<lambda>networks. ([], []))\<rparr>"

definition rd_of ::
  "string \<Rightarrow> (string \<times> tfvalue) list \<Rightarrow> (string \<times> tfvalue) list \<Rightarrow> ResourceData" where
  "rd_of i new old =
     \<lparr>rd_Id = i, rd_attrs = (\<lambda>k. field new k), rd_old = (\<lambda>k. field old k), rd_connInfo = []\<rparr>"

definition start :: "ResourceData \<Rightarrow> st" where
  "start d = \<lparr>st_d = d, st_trace = []\<rparr>"

definition server_of :: "string \<Rightarrow> string \<Rightarrow> CloudServer" where
  "server_of status mode =
     \<lparr>cs_Status = status, cs_Name = ''ecs-1'', cs_Description = [], cs_AvailabilityZone = [],
      cs_AgencyName = [], cs_AgentList = [], cs_ChargingMode = mode, cs_Created = [],
      cs_Updated = [], cs_FlavorID = [], cs_FlavorName = [], cs_ImageID = [], cs_KeyName = [],
      cs_Addresses = [], cs_AccessIPv4 = [], cs_AccessIPv6 = [], cs_SecurityGroups = [],
      cs_VolumeAttached = [], cs_SchedulerGroups = [], cs_Tags = [],
      cs_FaultCode = 500, cs_FaultMessage = ''no valid host''\<rparr>"

text \<open>
  A remote side on which the v3 listing is not published and the v1 listing knows two
  security groups.
\<close>

definition two_groups :: "v1Group list" where
  "two_groups =
     [\<lparr>v1_ID = ''sg-1'', v1_Name = ''web'', v1_EnterpriseProjectId = ''0'',
       v1_Description = ''front''\<rparr>,
      \<lparr>v1_ID = ''sg-2'', v1_Name = ''db'', v1_EnterpriseProjectId = ''0'',
       v1_Description = ''back''\<rparr>]"

fun remote_without_v3 :: "nat \<Rightarrow> call \<Rightarrow> goerr + response" where
  "remote_without_v3 n (V3GroupsList i name eps) = Inl (ErrDefault404 ''API not found'')"
| "remote_without_v3 n (V1GroupsList eps) = Inr (RV1Groups two_groups)"
| "remote_without_v3 n c = Inl (ErrGeneric ''unexpected call'')"

text \<open>
  A spot instance configured without \<open>spot_maximum_price\<close>, and a remote side that knows
  the subnet and rejects the create request. A pre-paid instance with a key pair and no
  \<open>user_id\<close>.
\<close>

definition spot_config :: "(string \<times> tfvalue) list" where
  "spot_config =
     [(''name'', VStr ''ecs-1''), (''image_id'', VStr ''img-1''), (''flavor_id'', VStr ''s6.small''),
      (''charging_mode'', VStr ''spot''), (''security_group_ids'', VList [VStr ''sg-1'']),
      (''network'', VList [VMap [(''uuid'', VStr ''subnet-1''), (''source_dest_check'', VBool True)]])]"

fun remote_rejecting_create :: "nat \<Rightarrow> call \<Rightarrow> goerr + response" where
  "remote_rejecting_create n (SubnetsGet i) = Inr (RString ''vpc-1'')"
| "remote_rejecting_create n c = Inl (ErrGeneric ''rejected'')"

definition prepaid_config :: "(string \<times> tfvalue) list" where
  "prepaid_config =
     [(''name'', VStr ''ecs-1''), (''image_id'', VStr ''img-1''), (''flavor_id'', VStr ''s6.small''),
      (''charging_mode'', VStr ''prePaid''), (''key_pair'', VStr ''key-1''),
      (''security_group_ids'', VList [VStr ''sg-1'']),
      (''network'', VList [VMap [(''uuid'', VStr ''subnet-1''), (''source_dest_check'', VBool True)]])]"

text \<open>
  The same spot instance with a maximum price. The operations that create a server, and
  what a create request of a spot instance is to carry: \<open>dep\<close> says whether the OpenStack
  request, which has no price, is admitted.
\<close>

definition spot_priced_config :: "(string \<times> tfvalue) list" where
  "spot_priced_config = (''spot_maximum_price'', VStr ''0.5'') # spot_config"

fun is_create_call :: "call \<Rightarrow> bool" where
  "is_create_call (CloudserversCreate opts) = True"
| "is_create_call (CloudserversCreatePrePaid opts) = True"
| "is_create_call (ServersCreate opts) = True"
| "is_create_call c = False"

fun spot_create_request :: "bool \<Rightarrow> string \<Rightarrow> call \<Rightarrow> bool" where
  "spot_create_request dep price (CloudserversCreate opts) =
     (co_MarketType opts = ''spot'' \<and> co_SpotPrice opts = price)"
| "spot_create_request dep price (CloudserversCreatePrePaid opts) = False"
| "spot_create_request dep price (ServersCreate opts) = dep"
| "spot_create_request dep price c = True"

text \<open>
  A pre-paid instance with an elastic IP that is to be deleted with it, the same instance
  without the deletion flag, and a remote side that resolves the address, accepts the
  unsubscription and no longer knows the server.
\<close>

definition prepaid_with_eip :: "(string \<times> tfvalue) list" where
  "prepaid_with_eip =
     [(''charging_mode'', VStr ''prePaid''), (''delete_eip_on_termination'', VBool True),
      (''public_ip'', VStr ''1.2.3.4''), (''eip_type'', VStr ''5_bgp'')]"

definition prepaid_keeping_eip :: "(string \<times> tfvalue) list" where
  "prepaid_keeping_eip =
     [(''charging_mode'', VStr ''prePaid''), (''delete_eip_on_termination'', VBool False),
      (''public_ip'', VStr ''1.2.3.4''), (''eip_type'', VStr ''5_bgp'')]"

fun remote_unsubscribing :: "nat \<Rightarrow> call \<Rightarrow> goerr + response" where
  "remote_unsubscribing n (GetEipIDbyAddress a eps) = Inr (RString ''eip-1'')"
| "remote_unsubscribing n (UnsubscribePrePaidResource rs) = Inr RUnit"
| "remote_unsubscribing n (CloudserversGet i) = Inl (ErrDefault404 ''gone'')"
| "remote_unsubscribing n c = Inl (ErrGeneric ''unexpected call'')"

text \<open>
  A post-paid instance with two networks, the first with its source/destination check
  switched off, and a remote side on which every step of the creation succeeds.
\<close>

definition two_network_config :: "(string \<times> tfvalue) list" where
  "two_network_config =
     [(''name'', VStr ''ecs-1''), (''image_id'', VStr ''img-1''), (''flavor_id'', VStr ''s6.small''),
      (''charging_mode'', VStr ''postPaid''), (''security_group_ids'', VList [VStr ''sg-1'']),
      (''network'',
       VList [VMap [(''uuid'', VStr ''subnet-1''), (''source_dest_check'', VBool False)],
              VMap [(''uuid'', VStr ''subnet-2''), (''source_dest_check'', VBool True)]])]"

definition two_nics :: "(string \<times> tfvalue) list list" where
  "two_nics =
     [[(''uuid'', VStr ''subnet-1''), (''port'', VStr ''port-1'')],
      [(''uuid'', VStr ''subnet-2''), (''port'', VStr ''port-2'')]]"

fun remote_creating :: "nat \<Rightarrow> call \<Rightarrow> goerr + response" where
  "remote_creating n (SubnetsGet i) = Inr (RString ''vpc-1'')"
| "remote_creating n (CloudserversCreate opts) = Inr (RString ''job-1'')"
| "remote_creating n (WaitForJobSuccess j) = Inr RUnit"
| "remote_creating n (GetJobEntity j k) = Inr (RString ''i-1'')"
| "remote_creating n (CloudserversGet i) = Inr (RServer (server_of ''ACTIVE'' ''0''))"
| "remote_creating n (FlattenInstanceNetworks i) = Inr (RNetworks two_nics)"
| "remote_creating n (PortsUpdate p pairs) = Inr RUnit"
| "remote_creating n c = Inl (ErrGeneric ''unexpected call'')"

subsection \<open>Predicates on computations\<close>

text \<open>Running a computation from a state; used to evaluate handlers on concrete inputs.\<close>

definition run :: "'a io \<Rightarrow> st \<Rightarrow> (err + 'a) \<times> st" where
  "run m s = m s"

text \<open>A computation that leaves attribute \<open>k\<close> of the resource data as it found it.\<close>

definition keeps :: "string \<Rightarrow> 'a io \<Rightarrow> bool" where
  "keeps k m \<longleftrightarrow> (\<forall>s. rd_attrs (st_d (snd (m s))) k = rd_attrs (st_d s) k)"

text \<open>
  A computation that leaves the resource data as it found it, and a computation that only
  appends to the log, and only operations for which \<open>P\<close> holds.
\<close>

definition keeps_d :: "'a io \<Rightarrow> bool" where
  "keeps_d m \<longleftrightarrow> (\<forall>s. st_d (snd (m s)) = st_d s)"

definition issues :: "(call \<Rightarrow> bool) \<Rightarrow> 'a io \<Rightarrow> bool" where
  "issues P m \<longleftrightarrow>
     (\<forall>s. \<exists>new. st_trace (snd (m s)) = st_trace s @ new \<and> (\<forall>x \<in> set new. P (fst x)))"

text \<open>
  A computation that, started with resource data \<open>d\<close>, only appends to the log, and only
  operations for which \<open>P\<close> holds.
\<close>

definition issues_at :: "ResourceData \<Rightarrow> (call \<Rightarrow> bool) \<Rightarrow> 'a io \<Rightarrow> bool" where
  "issues_at d P m \<longleftrightarrow>
     (\<forall>s. st_d s = d \<longrightarrow>
        (\<exists>new. st_trace (snd (m s)) = st_trace s @ new \<and> (\<forall>x \<in> set new. P (fst x))))"

fun is_unsubscribe :: "call \<Rightarrow> bool" where
  "is_unsubscribe (UnsubscribePrePaidResource rs) = True"
| "is_unsubscribe c = False"

fun is_ports_update :: "call \<Rightarrow> bool" where
  "is_ports_update (PortsUpdate p pairs) = True"
| "is_ports_update c = False"

text \<open>The port updates of a log, in the order in which they were issued.\<close>

definition port_updates :: "trace \<Rightarrow> call list" where
  "port_updates tr = map fst (filter (\<lambda>x. is_ports_update (fst x)) tr)"

text \<open>The operations of the read handler.\<close>

fun is_read_call :: "call \<Rightarrow> bool" where
  "is_read_call (CloudserversGet i) = True"
| "is_read_call (ImagesList i n) = True"
| "is_read_call (FlattenInstanceNetworks i) = True"
| "is_read_call (CloudvolumesGet v) = True"
| "is_read_call (BlockDevicesGet i v) = True"
| "is_read_call c = False"

text \<open>
  The create handler up to and including the initial power action, that is, all of it
  before the source/destination checks are looked at.
\<close>

definition Create_provision :: "env \<Rightarrow> unit io" where
  "Create_provision E =
     bind (client E ''ComputeV2Client'' ''error creating compute V2 client: %s'') (\<lambda>_.
     bind (client E ''ComputeV1Client'' ''error creating compute V1 client: %s'') (\<lambda>_.
     bind (client E ''ImageV2Client'' ''error creating image client: %s'') (\<lambda>_.
     bind (client E ''NetworkingV2Client'' ''error creating networking client: %s'') (\<lambda>_.
     bind get_d (\<lambda>d.
     bind (case validateComputeInstanceConfig d E of
             Some e \<Rightarrow> fail e
           | None \<Rightarrow> ret ()) (\<lambda>_.
     bind (getImageIDFromConfig E) (\<lambda>imageId.
     bind (case getFlavorID d of Inl e \<Rightarrow> fail e | Inr flavorId \<Rightarrow> ret flavorId) (\<lambda>flavorId.
     bind (case checkBlockDeviceConfig d of
             Some e \<Rightarrow> fail e
           | None \<Rightarrow> ret ()) (\<lambda>_.
     bind (if \<not> hasDeprecatedConfig d then Create_ecs E imageId flavorId
           else Create_nova E imageId flavorId) (\<lambda>_.
     Create_powerAction E))))))))))"

text \<open>
  The ports whose check the create handler is to disable: those of the NICs that have a
  port and stand, in the flattened list, at the index of a configured network whose
  \<open>source_dest_check\<close> is false.
\<close>

definition wanted_ports :: "bool list \<Rightarrow> (string \<times> tfvalue) list list \<Rightarrow> string list" where
  "wanted_ports sourceDestChecks networks =
     map (\<lambda>(nic, c). as_string (field nic ''port''))
       (filter (\<lambda>(nic, c). as_string (field nic ''port'') \<noteq> [] \<and> \<not> c)
          (zip networks sourceDestChecks))"

subsection \<open>Errors of sub-updates\<close>

text \<open>
  The operations that the blocks of the update handler issue; the read handler issues
  none of them.
\<close>

fun is_update_call :: "call \<Rightarrow> bool" where
  "is_update_call (CloudserversUpdate i n d) = True"
| "is_update_call (DeleteMetadatum i k) = True"
| "is_update_call (UpdateMetadata i m) = True"
| "is_update_call (RemoveServer i g) = True"
| "is_update_call (AddServer i g) = True"
| "is_update_call (ChangeAdminPassword i p) = True"
| "is_update_call (Resize i f) = True"
| "is_update_call (WaitForJobSuccess j) = True"
| "is_update_call (PortsUpdate p pairs) = True"
| "is_update_call (UpdateResourceTags i) = True"
| "is_update_call (ExtendSize v n) = True"
| "is_update_call (WaitOrderComplete ord) = True"
| "is_update_call (CloudVolumeRefresh v) = True"
| "is_update_call (UpdateEcsInstanceKeyPair i old new) = True"
| "is_update_call (PowerAction t opn i) = True"
| "is_update_call (UpdateAutoRenew a i) = True"
| "is_update_call c = False"

fun is_tags_call :: "call \<Rightarrow> bool" where
  "is_tags_call (UpdateResourceTags i) = True"
| "is_tags_call c = False"

text \<open>
  The errors that a block of the update handler passes over: an error whose text is
  \<open>EOF\<close> when a security group is removed or added, and a 404 error when one is removed.
\<close>

fun tolerated :: "call \<Rightarrow> goerr \<Rightarrow> bool" where
  "tolerated (RemoveServer i g) e = (goerr_Error e = ''EOF'' \<or> is_ErrDefault404 e)"
| "tolerated (AddServer i g) e = (goerr_Error e = ''EOF'')"
| "tolerated c e = False"

definition fatal :: "call \<times> (goerr + response) \<Rightarrow> bool" where
  "fatal x \<longleftrightarrow>
     is_update_call (fst x) \<and> (case snd x of Inl e \<Rightarrow> \<not> tolerated (fst x) e | Inr b \<Rightarrow> False)"

text \<open>An error value that wraps, at some depth, the SDK error \<open>e\<close>.\<close>

fun mentions :: "err \<Rightarrow> goerr \<Rightarrow> bool" and mentions_arg :: "fmtarg \<Rightarrow> goerr \<Rightarrow> bool" where
  "mentions (GoErr g) e = (g = e)"
| "mentions (Errorf f args) e = (\<exists>a \<in> set args. mentions_arg a e)"
| "mentions TimeoutError e = False"
| "mentions (UnexpectedStateError st target) e = False"
| "mentions (Panic m) e = False"
| "mentions_arg (AErr x) e = mentions x e"
| "mentions_arg (AStr x) e = False"
| "mentions_arg (AInt n) e = False"
| "mentions_arg (AStrs xs) e = False"
| "mentions_arg ANil e = False"

text \<open>
  A computation that stops at the first fatal answer: in what it appends to the log only
  the last entry can be fatal, and then the computation returns an error, which wraps the
  error of that entry unless the entry is the tags operation.
\<close>

definition good :: "'a io \<Rightarrow> bool" where
  "good m \<longleftrightarrow>
     (\<forall>s. \<exists>new. st_trace (snd (m s)) = st_trace s @ new
         \<and> (\<forall>x \<in> set (butlast new). \<not> fatal x)
         \<and> (new \<noteq> [] \<and> fatal (last new) \<longrightarrow>
              (\<exists>err. fst (m s) = Inl err
                 \<and> (\<forall>e. snd (last new) = Inl e \<longrightarrow> \<not> is_tags_call (fst (last new)) \<longrightarrow>
                        mentions err e))))"

text \<open>
  An instance whose security group is to be replaced, and a remote side on which the old
  group is no longer attached.
\<close>

fun remote_secgroup_gone :: "nat \<Rightarrow> call \<Rightarrow> goerr + response" where
  "remote_secgroup_gone n (RemoveServer i g) = Inl (ErrDefault404 ''not attached'')"
| "remote_secgroup_gone n (AddServer i g) = Inr RUnit"
| "remote_secgroup_gone n (CloudserversGet i) = Inr (RServer (server_of ''ACTIVE'' ''0''))"
| "remote_secgroup_gone n (FlattenInstanceNetworks i) = Inr (RNetworks [])"
| "remote_secgroup_gone n c = Inl (ErrGeneric ''unexpected call'')"

text \<open>An instance to be renamed, and a remote side that refuses.\<close>

fun remote_refusing :: "nat \<Rightarrow> call \<Rightarrow> goerr + response" where
  "remote_refusing n c = Inl (ErrGeneric ''refused'')"

section \<open>Properties\<close>

subsection \<open>Substring test\<close>

lemma has_prefix_iff_prefix: "has_prefix s p \<longleftrightarrow> prefix p s"
  by (induction s p rule: has_prefix.induct) auto

lemma strings_Contains_iff_sublist: "strings_Contains s substr \<longleftrightarrow> sublist substr s"
proof (induction s)
  case Nil
  then show ?case by auto
next
  case (Cons a s)
  show ?case
  proof (cases substr)
    case Nil
    then show ?thesis by simp
  next
    case (Cons c p)
    then show ?thesis
      using Cons.IH by (simp add: has_prefix_iff_prefix sublist_code(3) del: has_prefix.simps)
  qed
qed

subsection \<open>Name and description filters of the legacy listing\<close>

text \<open>
  What \<^verbatim>\<open>filterAvailableSecGroupsV1\<close> computes when a description key is given: the second
  loop starts again from the parameter \<^verbatim>\<open>secGroups\<close>, so the selection made by the name
  loop is overwritten.
\<close>

lemma filterAvailableSecGroupsV1_descKey:
  "descKey \<noteq> [] \<Longrightarrow>
   snd (filterAvailableSecGroupsV1 secGroups name descKey) =
     map v1_ID (filter (\<lambda>g. strings_Contains (v1_Description g) descKey) secGroups)"
  by (simp add: filterAvailableSecGroupsV1_def Let_def)

lemma filterAvailableSecGroupsV1_name_only:
  "name \<noteq> [] \<Longrightarrow>
   snd (filterAvailableSecGroupsV1 secGroups name []) =
     map v1_ID (filter (\<lambda>g. v1_Name g = name) secGroups)"
  by (simp add: filterAvailableSecGroupsV1_def Let_def eq_commute)

text \<open>
  Claim C1. With a non-empty name filter and a non-empty description filter,
  \<^verbatim>\<open>filterAvailableSecGroupsV1\<close> should return exactly the groups whose name equals the
  name filter and whose description contains the key. On the one-element list below the
  group is named \<open>web\<close>, the name filter is \<open>db\<close>, and the group is returned all the same,
  because its description contains the key.
\<close>

theorem filterAvailableSecGroupsV1_ignores_name:
  "filterAvailableSecGroupsV1
     [\<lparr>v1_ID = ''sg-1'', v1_Name = ''web'', v1_EnterpriseProjectId = ''0'',
       v1_Description = ''database tier''\<rparr>] ''db'' ''tier''
   = ([[(''id'', ''sg-1''), (''name'', ''web''), (''enterprise_project_id'', ''0''),
        (''description'', ''database tier'')]], [''sg-1''])"
  by (simp add: filterAvailableSecGroupsV1_def flattenSecGroupDetail_v1_def)

subsection \<open>Laws of the state transformers\<close>

lemma bind_ret [simp]: "bind (ret x) f = f x"
  by (simp add: bind_def ret_def)

lemma bind_fail [simp]: "bind (fail e) f = fail e"
  by (simp add: bind_def fail_def)

lemma bind_assoc: "bind (bind m f) g = bind m (\<lambda>x. bind (f x) g)"
  by (auto simp: bind_def fun_eq_iff split: prod.splits sum.splits)

lemma bind_get_d: "bind get_d f s = f (st_d s) s"
  by (simp add: bind_def get_d_def)

lemma bind_update_d: "bind (update_d g) f s = f () (s\<lparr>st_d := g (st_d s)\<rparr>)"
  by (simp add: bind_def update_d_def)

lemma bind_remote:
  "bind (remote E c) f s =
     f (respond E (length (st_trace s)) c)
       (s\<lparr>st_trace := st_trace s @ [(c, respond E (length (st_trace s)) c)]\<rparr>)"
  by (simp add: bind_def remote_def Let_def)

lemma bind_client_ok: "cfg_client E n = None \<Longrightarrow> bind (client E n msg) f = f ()"
  by (simp add: client_def)

lemma bind_client_err:
  "cfg_client E n = Some e \<Longrightarrow> bind (client E n msg) f = fail (Errorf msg [AErr (GoErr e)])"
  by (simp add: client_def)

lemma bind_attempt: "bind (attempt m) f s = f (fst (m s)) (snd (m s))"
  by (simp add: bind_def attempt_def split: prod.splits)

subsection \<open>Attributes that a computation leaves alone\<close>

lemma keeps_ret: "keeps k (ret x)"
  by (simp add: keeps_def ret_def)

lemma keeps_fail: "keeps k (fail e)"
  by (simp add: keeps_def fail_def)

lemma keeps_get_d: "keeps k get_d"
  by (simp add: keeps_def get_d_def)

lemma keeps_remote: "keeps k (remote E c)"
  by (simp add: keeps_def remote_def Let_def)

lemma keeps_client: "keeps k (client E n msg)"
  by (simp add: client_def keeps_ret keeps_fail split: option.splits)

lemma keeps_bind: "keeps k m \<Longrightarrow> (\<And>x. keeps k (f x)) \<Longrightarrow> keeps k (bind m f)"
  by (auto simp: keeps_def bind_def split: prod.splits sum.splits) (metis snd_conv)+

lemma keeps_update_d: "(\<And>d. rd_attrs (g d) k = rd_attrs d k) \<Longrightarrow> keeps k (update_d g)"
  by (simp add: keeps_def update_d_def)

lemma keeps_Set: "k' \<noteq> k \<Longrightarrow> keeps k (update_d (d_Set k' v))"
  by (rule keeps_update_d) (simp add: d_Set_def)

lemma rd_attrs_d_SetAll: "k \<notin> fst ` set kvs \<Longrightarrow> rd_attrs (d_SetAll kvs d) k = rd_attrs d k"
  unfolding d_SetAll_def by (induction kvs arbitrary: d) (auto simp: d_Set_def)

lemma keeps_connInfo: "keeps k (update_d (\<lambda>d. d\<lparr>rd_connInfo := c\<rparr>))"
  by (rule keeps_update_d) simp

lemmas keeps_intros =
  keeps_ret keeps_fail keeps_get_d keeps_remote keeps_client keeps_bind keeps_connInfo

lemma keeps_getImage: "keeps k (getImage E i n)"
  unfolding getImage_def
  by (auto intro!: keeps_intros split: sum.splits list.splits)

lemma keeps_setImageInformation: "keeps ''charging_mode'' (setImageInformation E i)"
  unfolding setImageInformation_def
  by (auto intro!: keeps_intros keeps_Set keeps_getImage split: sum.splits)

lemma keeps_Read_setNetworks: "keeps ''charging_mode'' (Read_setNetworks E server)"
  unfolding Read_setNetworks_def Let_def
  by (auto intro!: keeps_intros keeps_Set split: sum.splits)

lemma keeps_Read_volumes: "keeps ''charging_mode'' (Read_volumes E bs bds)"
proof (induction bs arbitrary: bds)
  case Nil
  show ?case by (simp add: keeps_ret)
next
  case (Cons b bs)
  show ?case
    by (auto intro!: keeps_intros keeps_update_d Cons.IH simp: rd_attrs_d_SetAll
        split: sum.splits)
qed

lemma keeps_Read_setVolumes: "keeps ''charging_mode'' (Read_setVolumes E server)"
  unfolding Read_setVolumes_def
  by (auto intro!: keeps_intros keeps_Set keeps_Read_volumes)

lemma Read_setBasic_charging_mode:
  "rd_attrs (Read_setBasic region server d) ''charging_mode'' =
     VStr (normalizeChargingMode (cs_ChargingMode server))"
  by (simp add: Read_setBasic_def d_SetAll_def d_Set_def)

lemma Read_live:
  assumes "cfg_client E ''ComputeV1Client'' = None"
      and "cfg_client E ''BlockStorageV2Client'' = None"
      and "cfg_client E ''ImageV2Client'' = None"
      and "respond E (length (st_trace s)) (CloudserversGet (rd_Id (st_d s))) = Inr (RServer server)"
      and "cs_Status server \<noteq> ''DELETED''"
  shows "resourceComputeInstanceRead E s =
           bind (setImageInformation E (cs_ImageID server)) (\<lambda>_.
           bind (Read_setNetworks E server) (\<lambda>_. Read_setVolumes E server))
             (s\<lparr>st_trace := st_trace s @
                    [(CloudserversGet (rd_Id (st_d s)), Inr (RServer server))],
                st_d := Read_setBasic (GetRegion E (st_d s)) server (st_d s)\<rparr>)"
  using assms
  by (simp add: resourceComputeInstanceRead_def bind_client_ok bind_get_d bind_remote
      bind_update_d)

subsection \<open>Billing mode reported by Read\<close>

text \<open>
  Claim C9. \<^verbatim>\<open>normalizeChargingMode\<close> maps \<open>1\<close> to \<open>prePaid\<close>, \<open>2\<close> to \<open>spot\<close> and every
  other string, the empty one included, to \<open>postPaid\<close>; and a Read that fetches a server
  which is not deleted stores the normalised billing mode of the server's metadata in
  \<open>charging_mode\<close>, whatever happens in the rest of the handler.
\<close>

theorem normalizeChargingMode_reported_by_Read:
  assumes "cfg_client E ''ComputeV1Client'' = None"
      and "cfg_client E ''BlockStorageV2Client'' = None"
      and "cfg_client E ''ImageV2Client'' = None"
      and "respond E (length (st_trace s)) (CloudserversGet (rd_Id (st_d s))) = Inr (RServer server)"
      and "cs_Status server \<noteq> ''DELETED''"
  shows "normalizeChargingMode ''1'' = ''prePaid''
       \<and> normalizeChargingMode ''2'' = ''spot''
       \<and> normalizeChargingMode [] = ''postPaid''
       \<and> (mode \<noteq> ''1'' \<and> mode \<noteq> ''2'' \<longrightarrow> normalizeChargingMode mode = ''postPaid'')
       \<and> d_Get (st_d (snd (resourceComputeInstanceRead E s))) ''charging_mode'' =
           VStr (normalizeChargingMode (cs_ChargingMode server))"
proof -
  let ?rest = "bind (setImageInformation E (cs_ImageID server)) (\<lambda>_.
               bind (Read_setNetworks E server) (\<lambda>_. Read_setVolumes E server))"
  let ?s1 = "s\<lparr>st_trace := st_trace s @
                   [(CloudserversGet (rd_Id (st_d s)), Inr (RServer server))],
               st_d := Read_setBasic (GetRegion E (st_d s)) server (st_d s)\<rparr>"
  have "keeps ''charging_mode'' ?rest"
    by (intro keeps_bind keeps_setImageInformation keeps_Read_setNetworks keeps_Read_setVolumes)
  then have "rd_attrs (st_d (snd (?rest ?s1))) ''charging_mode'' =
             rd_attrs (st_d ?s1) ''charging_mode''"
    unfolding keeps_def by blast
  then have "d_Get (st_d (snd (resourceComputeInstanceRead E s))) ''charging_mode'' =
             VStr (normalizeChargingMode (cs_ChargingMode server))"
    by (simp add: Read_live[OF assms] d_Get_def Read_setBasic_charging_mode)
  then show ?thesis
    by (simp add: normalizeChargingMode_def)
qed

theorem normalizeChargingMode_reported_by_Read_witness:
  "cfg_client (env_of (\<lambda>n c. Inr (RServer (server_of ''ACTIVE'' ''7''))) []) ''ComputeV1Client'' = None
   \<and> cs_Status (server_of ''ACTIVE'' ''7'') \<noteq> ''DELETED''
   \<and> ''7'' \<noteq> ''1'' \<and> ''7'' \<noteq> ''2''
   \<and> normalizeChargingMode ''7'' = ''postPaid''
   \<and> d_Get (st_d (snd (resourceComputeInstanceRead
                          (env_of (\<lambda>n c. Inr (RServer (server_of ''ACTIVE'' ''7''))) [])
                          (start (rd_of ''i-1'' [] []))))) ''charging_mode'' = VStr ''postPaid''"
  using normalizeChargingMode_reported_by_Read
          [of "env_of (\<lambda>n c. Inr (RServer (server_of ''ACTIVE'' ''7''))) []"
              "start (rd_of ''i-1'' [] [])" "server_of ''ACTIVE'' ''7''" "''7''"]
  by (simp add: env_of_def server_of_def)

subsection \<open>Read of a deleted instance\<close>

text \<open>
  Claim C5. When the three service clients can be built and the fetch of the instance
  answers with a 404 error, or with a server whose status is \<open>DELETED\<close>, the Read handler
  returns without error; it has issued that one fetch and has cleared the resource id.
\<close>

theorem Read_of_deleted_instance_clears_id:
  assumes "cfg_client E ''ComputeV1Client'' = None"
      and "cfg_client E ''BlockStorageV2Client'' = None"
      and "cfg_client E ''ImageV2Client'' = None"
      and "r = respond E (length (st_trace s)) (CloudserversGet (rd_Id (st_d s)))"
      and "(\<exists>m. r = Inl (ErrDefault404 m))
           \<or> (\<exists>server. r = Inr (RServer server) \<and> cs_Status server = ''DELETED'')"
  shows "resourceComputeInstanceRead E s =
           (Inr (), s\<lparr>st_trace := st_trace s @ [(CloudserversGet (rd_Id (st_d s)), r)],
                      st_d := d_SetId [] (st_d s)\<rparr>)
         \<and> rd_Id (st_d (snd (resourceComputeInstanceRead E s))) = []"
  using assms
  by (auto simp: resourceComputeInstanceRead_def bind_client_ok bind_get_d bind_remote
      CheckDeletedDiag_def update_d_def d_SetId_def)

theorem Read_of_deleted_instance_clears_id_witness:
  "fst (resourceComputeInstanceRead (env_of (\<lambda>n c. Inl (ErrDefault404 ''not found'')) [])
          (start (rd_of ''i-1'' [] []))) = Inr ()
   \<and> rd_Id (st_d (snd (resourceComputeInstanceRead
                          (env_of (\<lambda>n c. Inl (ErrDefault404 ''not found'')) [])
                          (start (rd_of ''i-1'' [] []))))) = []
   \<and> fst (resourceComputeInstanceRead
            (env_of (\<lambda>n c. Inr (RServer (server_of ''DELETED'' ''0''))) [])
            (start (rd_of ''i-1'' [] []))) = Inr ()
   \<and> rd_Id (st_d (snd (resourceComputeInstanceRead
                          (env_of (\<lambda>n c. Inr (RServer (server_of ''DELETED'' ''0''))) [])
                          (start (rd_of ''i-1'' [] []))))) = []"
proof -
  let ?E1 = "env_of (\<lambda>n c. Inl (ErrDefault404 ''not found'')) []"
  let ?E2 = "env_of (\<lambda>n c. Inr (RServer (server_of ''DELETED'' ''0''))) []"
  let ?s = "start (rd_of ''i-1'' [] [])"
  have c1: "cfg_client ?E1 n = None" and c2: "cfg_client ?E2 n = None" for n
    by (simp_all add: env_of_def)
  have r1: "Inl (ErrDefault404 ''not found'') =
              respond ?E1 (length (st_trace ?s)) (CloudserversGet (rd_Id (st_d ?s)))"
    by (simp add: env_of_def)
  have r2: "Inr (RServer (server_of ''DELETED'' ''0'')) =
              respond ?E2 (length (st_trace ?s)) (CloudserversGet (rd_Id (st_d ?s)))"
    by (simp add: env_of_def)
  have d1: "(\<exists>m. (Inl (ErrDefault404 ''not found'') :: goerr + response) = Inl (ErrDefault404 m))
            \<or> (\<exists>server. (Inl (ErrDefault404 ''not found'') :: goerr + response) = Inr (RServer server)
                  \<and> cs_Status server = ''DELETED'')"
    by simp
  have d2: "(\<exists>m. (Inr (RServer (server_of ''DELETED'' ''0'')) :: goerr + response) = Inl (ErrDefault404 m))
            \<or> (\<exists>server. (Inr (RServer (server_of ''DELETED'' ''0'')) :: goerr + response) = Inr (RServer server)
                  \<and> cs_Status server = ''DELETED'')"
    by (simp add: server_of_def)
  show ?thesis
    using Read_of_deleted_instance_clears_id[OF c1 c1 c1 r1 d1]
          Read_of_deleted_instance_clears_id[OF c2 c2 c2 r2 d2]
    by (simp add: d_SetId_def)
qed

lemma ret_apply: "ret x s = (Inr x, s)"
  by (simp add: ret_def)

lemma fail_apply: "fail e s = (Inl e, s)"
  by (simp add: fail_def)

lemma update_d_apply: "update_d g s = (Inr (), s\<lparr>st_d := g (st_d s)\<rparr>)"
  by (simp add: update_d_def)

subsection \<open>The state refresh function and the poller\<close>

lemma refresh_apply:
  "ServerV1StateRefreshFunc E i s =
     (let r = respond E (length (st_trace s)) (CloudserversGet i);
          s' = s\<lparr>st_trace := st_trace s @ [(CloudserversGet i, r)]\<rparr>
      in case ExtractServer r of
           Inl e \<Rightarrow> if is_ErrDefault404 e then (Inr (None, ''DELETED'', None), s')
                    else (Inr (None, [], Some (GoErr e)), s')
         | Inr srv \<Rightarrow>
             if cs_Status srv = ''ERROR''
             then (Inr (Some srv, ''ERROR'',
                     Some (Errorf ''error code: %d, message: %s''
                             [AInt (cs_FaultCode srv), AStr (cs_FaultMessage srv)])), s')
             else (Inr (Some srv, cs_Status srv, None), s'))"
  by (simp add: ServerV1StateRefreshFunc_def bind_remote Let_def ret_def split: sum.splits)

lemma wait_apply:
  "waitForServerTargetState E i pending target n s =
     (case WaitForStateContext n pending target (ServerV1StateRefreshFunc E i) s of
        (Inl e, s') \<Rightarrow>
          (Inl (Errorf ''error waiting for instance (%s) to become target state (%v): %s''
                  [AStr i, AStrs target, AErr e]), s')
      | (Inr x, s') \<Rightarrow> (Inr (), s'))"
  by (simp add: waitForServerTargetState_def bind_attempt fail_def ret_def
      split: prod.splits sum.splits)

lemma poll_timeout:
  "(\<forall>i<n. \<exists>srv. respond E (length (st_trace s) + i) (CloudserversGet ident) = Inr (RServer srv)
          \<and> cs_Status srv \<noteq> ''ERROR'' \<and> cs_Status srv \<notin> set target
          \<and> cs_Status srv \<in> set pending)
   \<Longrightarrow> fst (WaitForStateContext n pending target (ServerV1StateRefreshFunc E ident) s) =
         Inl TimeoutError"
proof (induction n arbitrary: s)
  case 0
  show ?case by simp
next
  case (Suc n)
  from Suc.prems obtain srv where
    srv: "respond E (length (st_trace s)) (CloudserversGet ident) = Inr (RServer srv)"
         "cs_Status srv \<noteq> ''ERROR''" "cs_Status srv \<notin> set target" "cs_Status srv \<in> set pending"
    by force
  let ?s' = "s\<lparr>st_trace := st_trace s @ [(CloudserversGet ident, Inr (RServer srv))]\<rparr>"
  have "\<exists>srv. respond E (length (st_trace ?s') + i) (CloudserversGet ident) = Inr (RServer srv)
          \<and> cs_Status srv \<noteq> ''ERROR'' \<and> cs_Status srv \<notin> set target
          \<and> cs_Status srv \<in> set pending" if "i < n" for i
    using Suc.prems[rule_format, of "Suc i"] that by simp
  then have "fst (WaitForStateContext n pending target (ServerV1StateRefreshFunc E ident) ?s') =
             Inl TimeoutError"
    by (intro Suc.IH) blast
  moreover have "ServerV1StateRefreshFunc E ident s = (Inr (Some srv, cs_Status srv, None), ?s')"
    using srv by (simp add: refresh_apply Let_def)
  ultimately show ?case
    using srv by simp
qed

text \<open>
  Claim C10. When the fetch of the instance fails with a 404 error, the state refresh
  function reports the status \<open>DELETED\<close> with no server and no error; a wait whose target
  set contains \<open>DELETED\<close> and whose timeout admits at least one poll therefore succeeds on
  that poll.
\<close>

theorem refresh_reports_DELETED_on_404:
  assumes "respond E (length (st_trace s)) (CloudserversGet instanceID) = Inl (ErrDefault404 m)"
  shows "ServerV1StateRefreshFunc E instanceID s =
           (Inr (None, ''DELETED'', None),
            s\<lparr>st_trace := st_trace s @ [(CloudserversGet instanceID, Inl (ErrDefault404 m))]\<rparr>)
       \<and> (''DELETED'' \<in> set target \<longrightarrow>
            waitForServerTargetState E instanceID pending target (Suc n) s =
              (Inr (), s\<lparr>st_trace := st_trace s @
                           [(CloudserversGet instanceID, Inl (ErrDefault404 m))]\<rparr>))"
  using assms by (simp add: wait_apply refresh_apply)

theorem refresh_reports_DELETED_on_404_witness:
  "ServerV1StateRefreshFunc (env_of (\<lambda>n c. Inl (ErrDefault404 ''gone'')) []) ''i-1''
       (start (rd_of ''i-1'' [] [])) =
     (Inr (None, ''DELETED'', None),
      \<lparr>st_d = rd_of ''i-1'' [] [],
       st_trace = [(CloudserversGet ''i-1'', Inl (ErrDefault404 ''gone''))]\<rparr>)
   \<and> fst (waitForServerTargetState (env_of (\<lambda>n c. Inl (ErrDefault404 ''gone'')) []) ''i-1''
            [''ACTIVE'', ''SHUTOFF''] [''DELETED'', ''SOFT_DELETED''] (Suc 0)
            (start (rd_of ''i-1'' [] []))) = Inr ()"
proof -
  let ?E = "env_of (\<lambda>n c. Inl (ErrDefault404 ''gone'')) []"
  let ?s = "start (rd_of ''i-1'' [] [])"
  have r: "respond ?E (length (st_trace ?s)) (CloudserversGet ''i-1'') = Inl (ErrDefault404 ''gone'')"
    by (simp add: env_of_def)
  show ?thesis
    using refresh_reports_DELETED_on_404[OF r, of "[''DELETED'', ''SOFT_DELETED'']"
            "[''ACTIVE'', ''SHUTOFF'']" 0]
    by (simp add: start_def)
qed

text \<open>
  Claim C8. One poll of the server state poller, with the refresh function of the source
  and the polling loop as the specification describes it. A fetched status \<open>ERROR\<close> ends
  the wait with an error that wraps the error built from the fault code and the fault
  message of the server. A fetched status other than \<open>ERROR\<close> that is in the target set
  ends the wait with success. A wait in which every poll that fits into the timeout
  fetches a pending status that is not a target ends with an error that wraps the timeout
  error.
\<close>

theorem poller_terminal_outcomes:
  assumes "respond E (length (st_trace s)) (CloudserversGet instanceID) = Inr (RServer srv)"
      and "s' = s\<lparr>st_trace := st_trace s @ [(CloudserversGet instanceID, Inr (RServer srv))]\<rparr>"
  shows "(cs_Status srv = ''ERROR'' \<longrightarrow>
            waitForServerTargetState E instanceID pending target (Suc n) s =
              (Inl (Errorf ''error waiting for instance (%s) to become target state (%v): %s''
                      [AStr instanceID, AStrs target,
                       AErr (Errorf ''error code: %d, message: %s''
                               [AInt (cs_FaultCode srv), AStr (cs_FaultMessage srv)])]), s'))
       \<and> (cs_Status srv \<noteq> ''ERROR'' \<and> cs_Status srv \<in> set target \<longrightarrow>
            waitForServerTargetState E instanceID pending target (Suc n) s = (Inr (), s'))
       \<and> ((\<forall>i<k. \<exists>srv'. respond E (length (st_trace s) + i) (CloudserversGet instanceID) =
                            Inr (RServer srv')
                   \<and> cs_Status srv' \<noteq> ''ERROR'' \<and> cs_Status srv' \<notin> set target
                   \<and> cs_Status srv' \<in> set pending) \<longrightarrow>
            fst (waitForServerTargetState E instanceID pending target k s) =
              Inl (Errorf ''error waiting for instance (%s) to become target state (%v): %s''
                     [AStr instanceID, AStrs target, AErr TimeoutError]))"
proof (intro conjI impI)
  assume "cs_Status srv = ''ERROR''"
  with assms show "waitForServerTargetState E instanceID pending target (Suc n) s =
      (Inl (Errorf ''error waiting for instance (%s) to become target state (%v): %s''
              [AStr instanceID, AStrs target,
               AErr (Errorf ''error code: %d, message: %s''
                       [AInt (cs_FaultCode srv), AStr (cs_FaultMessage srv)])]), s')"
    by (simp add: wait_apply refresh_apply)
next
  assume "cs_Status srv \<noteq> ''ERROR'' \<and> cs_Status srv \<in> set target"
  with assms show "waitForServerTargetState E instanceID pending target (Suc n) s = (Inr (), s')"
    by (simp add: wait_apply refresh_apply)
next
  assume "\<forall>i<k. \<exists>srv'. respond E (length (st_trace s) + i) (CloudserversGet instanceID) =
                            Inr (RServer srv')
                   \<and> cs_Status srv' \<noteq> ''ERROR'' \<and> cs_Status srv' \<notin> set target
                   \<and> cs_Status srv' \<in> set pending"
  then have "fst (WaitForStateContext k pending target (ServerV1StateRefreshFunc E instanceID) s) =
             Inl TimeoutError"
    by (rule poll_timeout)
  then show "fst (waitForServerTargetState E instanceID pending target k s) =
      Inl (Errorf ''error waiting for instance (%s) to become target state (%v): %s''
             [AStr instanceID, AStrs target, AErr TimeoutError])"
    by (cases "WaitForStateContext k pending target (ServerV1StateRefreshFunc E instanceID) s")
       (auto simp: wait_apply)
qed

theorem poller_terminal_outcomes_witness:
  "fst (waitForServerTargetState (env_of (\<lambda>n c. Inr (RServer (server_of ''ERROR'' ''0''))) [])
          ''i-1'' [''BUILD''] [''ACTIVE''] (Suc 2) (start (rd_of ''i-1'' [] []))) =
     Inl (Errorf ''error waiting for instance (%s) to become target state (%v): %s''
            [AStr ''i-1'', AStrs [''ACTIVE''],
             AErr (Errorf ''error code: %d, message: %s'' [AInt 500, AStr ''no valid host''])])
   \<and> fst (waitForServerTargetState (env_of (\<lambda>n c. Inr (RServer (server_of ''ACTIVE'' ''0''))) [])
            ''i-1'' [''BUILD''] [''ACTIVE''] (Suc 2) (start (rd_of ''i-1'' [] []))) = Inr ()
   \<and> fst (waitForServerTargetState (env_of (\<lambda>n c. Inr (RServer (server_of ''BUILD'' ''0''))) [])
            ''i-1'' [''BUILD''] [''ACTIVE''] 3 (start (rd_of ''i-1'' [] []))) =
       Inl (Errorf ''error waiting for instance (%s) to become target state (%v): %s''
              [AStr ''i-1'', AStrs [''ACTIVE''], AErr TimeoutError])"
proof -
  let ?s = "start (rd_of ''i-1'' [] [])"
  have r: "respond (env_of (\<lambda>n c. Inr (RServer (server_of st ''0''))) []) k (CloudserversGet ''i-1'') =
             Inr (RServer (server_of st ''0''))" for st k
    by (simp add: env_of_def)
  have st: "cs_Status (server_of x ''0'') = x" for x
    by (simp add: server_of_def)
  have fault: "cs_FaultCode (server_of x ''0'') = 500"
              "cs_FaultMessage (server_of x ''0'') = ''no valid host''" for x
    by (simp_all add: server_of_def)
  show ?thesis
    using poller_terminal_outcomes
            [of "env_of (\<lambda>n c. Inr (RServer (server_of ''ERROR'' ''0''))) []" ?s "''i-1''"
                "server_of ''ERROR'' ''0''" _ "[''BUILD'']" "[''ACTIVE'']" 2 0, OF r refl]
          poller_terminal_outcomes
            [of "env_of (\<lambda>n c. Inr (RServer (server_of ''ACTIVE'' ''0''))) []" ?s "''i-1''"
                "server_of ''ACTIVE'' ''0''" _ "[''BUILD'']" "[''ACTIVE'']" 2 0, OF r refl]
          poller_terminal_outcomes
            [of "env_of (\<lambda>n c. Inr (RServer (server_of ''BUILD'' ''0''))) []" ?s "''i-1''"
                "server_of ''BUILD'' ''0''" _ "[''BUILD'']" "[''ACTIVE'']" 0 3, OF r refl]
    by (simp add: r st fault)
qed

subsection \<open>Evaluation of computations\<close>

lemma run_ret: "run (ret x) s = (Inr x, s)"
  by (simp add: run_def ret_def)

lemma run_fail: "run (fail e) s = (Inl e, s)"
  by (simp add: run_def fail_def)

lemma run_bind:
  "run (bind m f) s = (case run m s of (Inl e, s') \<Rightarrow> (Inl e, s') | (Inr x, s') \<Rightarrow> run (f x) s')"
  unfolding run_def bind_def by (rule refl)

lemma run_get_d: "run get_d s = (Inr (st_d s), s)"
  by (simp add: run_def get_d_def)

lemma run_update_d: "run (update_d g) s = (Inr (), s\<lparr>st_d := g (st_d s)\<rparr>)"
  by (simp add: run_def update_d_def)

lemma run_remote:
  "run (remote E c) s =
     (Inr (respond E (length (st_trace s)) c),
      s\<lparr>st_trace := st_trace s @ [(c, respond E (length (st_trace s)) c)]\<rparr>)"
  by (simp add: run_def remote_def Let_def)

lemma run_client:
  "run (client E n msg) s =
     (case cfg_client E n of Some e \<Rightarrow> (Inl (Errorf msg [AErr (GoErr e)]), s) | None \<Rightarrow> (Inr (), s))"
  by (simp add: run_def client_def fail_def ret_def split: option.splits)

lemma run_attempt: "run (attempt m) s = (Inr (fst (run m s)), snd (run m s))"
  by (simp add: run_def attempt_def split: prod.splits)

lemma run_WaitForStateContext_0:
  "run (WaitForStateContext 0 pending target refresh) s = (Inl TimeoutError, s)"
  by (simp add: run_def)

lemma run_WaitForStateContext_Suc:
  "run (WaitForStateContext (Suc n) pending target refresh) s =
     (case run refresh s of
        (Inl e, s') \<Rightarrow> (Inl e, s')
      | (Inr (res, currentState, Some e), s') \<Rightarrow> (Inl e, s')
      | (Inr (res, currentState, None), s') \<Rightarrow>
          (if currentState \<in> set target then (Inr res, s')
           else if currentState \<in> set pending \<or> pending = []
           then run (WaitForStateContext n pending target refresh) s'
           else (Inl (UnexpectedStateError currentState target), s')))"
  unfolding run_def by simp

lemmas run_simps =
  run_ret run_fail run_bind run_get_d run_update_d run_remote run_client run_attempt
  run_WaitForStateContext_0 run_WaitForStateContext_Suc

lemmas input_simps =
  env_of_def start_def rd_of_def server_of_def field_def elem_def
  d_Get_def d_GetOk_def d_Set_def d_SetId_def d_SetAll_def d_HasChange_def values_differ_def

subsection \<open>Fallback of the security-group listing\<close>

lemma ReadV1_listed:
  assumes "cfg_client E ''NetworkingV1Client'' = None"
      and "respond E (length (st_trace s)) (V1GroupsList (DataGetEnterpriseProjectID E (st_d s))) =
             Inr (RV1Groups allSecGroups)"
  shows "dataSourceNetworkingSecGroupsReadV1 E s =
           (Inr (),
            s\<lparr>st_trace := st_trace s @
                  [(V1GroupsList (DataGetEnterpriseProjectID E (st_d s)),
                    Inr (RV1Groups allSecGroups))],
              st_d := d_Set ''security_groups''
                        (groupList_value (fst (filterAvailableSecGroupsV1 allSecGroups
                           (as_string (d_Get (st_d s) ''name''))
                           (as_string (d_Get (st_d s) ''description'')))))
                        (d_Set ''region''
                           (VStr (GetRegion E
                              (d_SetId (hashcode_Strings E (snd (filterAvailableSecGroupsV1
                                 allSecGroups (as_string (d_Get (st_d s) ''name''))
                                 (as_string (d_Get (st_d s) ''description'')))))
                                (st_d s))))
                          (d_SetId (hashcode_Strings E (snd (filterAvailableSecGroupsV1 allSecGroups
                             (as_string (d_Get (st_d s) ''name''))
                             (as_string (d_Get (st_d s) ''description'')))))
                            (st_d s)))\<rparr>)"
  using assms
  by (simp add: dataSourceNetworkingSecGroupsReadV1_def bind_client_ok bind_get_d bind_remote
      bind_update_d update_d_apply split: prod.splits)

text \<open>
  When the v3 client can be built and the v3 List call fails, the read handler of the data
  source continues as the legacy v1 handler if the error is a 404 error, and returns an
  error that wraps the failure otherwise.
\<close>

lemma Read_on_v3_List_failure:
  assumes "cfg_client E ''NetworkingV3Client'' = None"
      and "c = V3GroupsList (as_string (d_Get (st_d s) ''id'')) (as_string (d_Get (st_d s) ''name''))
                 (DataGetEnterpriseProjectID E (st_d s))"
      and "ExtractV3Groups (respond E (length (st_trace s)) c) = Inl e"
      and "s' = s\<lparr>st_trace := st_trace s @ [(c, respond E (length (st_trace s)) c)]\<rparr>"
  shows "(is_ErrDefault404 e \<longrightarrow>
            dataSourceNetworkingSecGroupsRead E s = dataSourceNetworkingSecGroupsReadV1 E s')
       \<and> (\<not> is_ErrDefault404 e \<longrightarrow>
            dataSourceNetworkingSecGroupsRead E s =
              (Inl (Errorf ''error getting security groups list: %s'' [AErr (GoErr e)]), s'))"
proof (intro conjI impI)
  assume "is_ErrDefault404 e"
  with assms show "dataSourceNetworkingSecGroupsRead E s = dataSourceNetworkingSecGroupsReadV1 E s'"
    by (simp add: dataSourceNetworkingSecGroupsRead_def bind_client_ok bind_get_d bind_remote)
next
  assume "\<not> is_ErrDefault404 e"
  with assms show "dataSourceNetworkingSecGroupsRead E s =
      (Inl (Errorf ''error getting security groups list: %s'' [AErr (GoErr e)]), s')"
    by (simp add: dataSourceNetworkingSecGroupsRead_def bind_client_ok bind_get_d bind_remote
        fail_def)
qed

text \<open>
  Claim C4. When the v3 List call fails with a 404 error, the read handler should run the
  legacy v1 listing, whose results are filtered by the fields that v1 supports, the name
  and the description. On the remote side below the v3 listing answers 404 and the v1
  listing knows the groups \<open>web\<close>, described as \<open>front\<close>, and \<open>db\<close>, described as \<open>back\<close>.
  The handler does run the v1 listing and returns no error. Asked for the name \<open>db\<close> and
  the description \<open>front\<close>, which no group has together, it stores the group \<open>web\<close>: the
  description loop of \<^verbatim>\<open>filterAvailableSecGroupsV1\<close> starts again from all the groups. Asked
  for the name \<open>db\<close> alone, it stores the group \<open>db\<close>.
\<close>

theorem secgroups_fallback_ignores_name:
  "fst (dataSourceNetworkingSecGroupsRead (env_of remote_without_v3 [])
          (start (rd_of [] [(''name'', VStr ''db''), (''description'', VStr ''front'')] []))) = Inr ()
   \<and> st_trace (snd (dataSourceNetworkingSecGroupsRead (env_of remote_without_v3 [])
          (start (rd_of [] [(''name'', VStr ''db''), (''description'', VStr ''front'')] [])))) =
       [(V3GroupsList [] ''db'' ''0'', Inl (ErrDefault404 ''API not found'')),
        (V1GroupsList ''0'', Inr (RV1Groups two_groups))]
   \<and> d_Get (st_d (snd (dataSourceNetworkingSecGroupsRead (env_of remote_without_v3 [])
          (start (rd_of [] [(''name'', VStr ''db''), (''description'', VStr ''front'')] [])))))
        ''security_groups'' =
       VList [VMap [(''id'', VStr ''sg-1''), (''name'', VStr ''web''),
                    (''enterprise_project_id'', VStr ''0''), (''description'', VStr ''front'')]]
   \<and> d_Get (st_d (snd (dataSourceNetworkingSecGroupsRead (env_of remote_without_v3 [])
          (start (rd_of [] [(''name'', VStr ''db'')] [])))))
        ''security_groups'' =
       VList [VMap [(''id'', VStr ''sg-2''), (''name'', VStr ''db''),
                    (''enterprise_project_id'', VStr ''0''), (''description'', VStr ''back'')]]"
proof -
  let ?E = "env_of remote_without_v3 []"
  let ?s = "start (rd_of [] [(''name'', VStr ''db''), (''description'', VStr ''front'')] [])"
  let ?t = "start (rd_of [] [(''name'', VStr ''db'')] [])"
  have "fst (run (dataSourceNetworkingSecGroupsRead ?E) ?s) = Inr ()"
    by (simp add: dataSourceNetworkingSecGroupsRead_def dataSourceNetworkingSecGroupsReadV1_def
        run_simps input_simps filterAvailableSecGroupsV1_def two_groups_def Let_def)
  moreover have "st_trace (snd (run (dataSourceNetworkingSecGroupsRead ?E) ?s)) =
       [(V3GroupsList [] ''db'' ''0'', Inl (ErrDefault404 ''API not found'')),
        (V1GroupsList ''0'', Inr (RV1Groups two_groups))]"
    by (simp add: dataSourceNetworkingSecGroupsRead_def dataSourceNetworkingSecGroupsReadV1_def
        run_simps input_simps filterAvailableSecGroupsV1_def two_groups_def Let_def)
  moreover have "d_Get (st_d (snd (run (dataSourceNetworkingSecGroupsRead ?E) ?s)))
        ''security_groups'' =
       VList [VMap [(''id'', VStr ''sg-1''), (''name'', VStr ''web''),
                    (''enterprise_project_id'', VStr ''0''), (''description'', VStr ''front'')]]"
    by (simp add: dataSourceNetworkingSecGroupsRead_def dataSourceNetworkingSecGroupsReadV1_def
        run_simps input_simps filterAvailableSecGroupsV1_def two_groups_def Let_def
        flattenSecGroupDetail_v1_def groupList_value_def)
  moreover have "d_Get (st_d (snd (run (dataSourceNetworkingSecGroupsRead ?E) ?t)))
        ''security_groups'' =
       VList [VMap [(''id'', VStr ''sg-2''), (''name'', VStr ''db''),
                    (''enterprise_project_id'', VStr ''0''), (''description'', VStr ''back'')]]"
    by (simp add: dataSourceNetworkingSecGroupsRead_def dataSourceNetworkingSecGroupsReadV1_def
        run_simps input_simps filterAvailableSecGroupsV1_def two_groups_def Let_def
        flattenSecGroupDetail_v1_def groupList_value_def)
  ultimately show ?thesis
    by (simp add: run_def)
qed

subsection \<open>Computations that leave the resource data alone\<close>

lemma keeps_d_ret: "keeps_d (ret x)"
  by (simp add: keeps_d_def ret_def)

lemma keeps_d_fail: "keeps_d (fail e)"
  by (simp add: keeps_d_def fail_def)

lemma keeps_d_get_d: "keeps_d get_d"
  by (simp add: keeps_d_def get_d_def)

lemma keeps_d_remote: "keeps_d (remote E c)"
  by (simp add: keeps_d_def remote_def Let_def)

lemma keeps_d_client: "keeps_d (client E n msg)"
  by (simp add: client_def keeps_d_ret keeps_d_fail split: option.splits)

lemma keeps_d_bind: "keeps_d m \<Longrightarrow> (\<And>x. keeps_d (f x)) \<Longrightarrow> keeps_d (bind m f)"
  by (auto simp: keeps_d_def bind_def split: prod.splits sum.splits) (metis snd_conv)+

lemma keeps_d_attempt: "keeps_d m \<Longrightarrow> keeps_d (attempt m)"
  by (auto simp: keeps_d_def attempt_def split: prod.splits) (metis snd_conv)

lemma WaitForStateContext_Suc:
  "WaitForStateContext (Suc n) pending target refresh =
     bind refresh (\<lambda>(res, currentState, e).
       case e of
         Some x \<Rightarrow> fail x
       | None \<Rightarrow>
           if currentState \<in> set target then ret res
           else if currentState \<in> set pending \<or> pending = []
           then WaitForStateContext n pending target refresh
           else fail (UnexpectedStateError currentState target))"
  by (rule ext) (simp add: bind_def fail_def ret_def split: prod.splits sum.splits option.splits)

lemma WaitForStateContext_0: "WaitForStateContext 0 pending target refresh = fail TimeoutError"
  by (rule ext) (simp add: fail_def)

lemmas keeps_d_intros =
  keeps_d_ret keeps_d_fail keeps_d_get_d keeps_d_remote keeps_d_client keeps_d_bind
  keeps_d_attempt

lemma keeps_d_WaitForStateContext:
  "keeps_d refresh \<Longrightarrow> keeps_d (WaitForStateContext n pending target refresh)"
proof (induction n)
  case 0
  show ?case by (simp add: WaitForStateContext_0 keeps_d_fail)
next
  case (Suc n)
  then show ?case
    unfolding WaitForStateContext_Suc
    by (auto intro!: keeps_d_intros split: option.splits)
qed

lemma keeps_d_refresh: "keeps_d (ServerV1StateRefreshFunc E i)"
  unfolding ServerV1StateRefreshFunc_def
  by (auto intro!: keeps_d_intros split: sum.splits)

lemma keeps_d_wait: "keeps_d (waitForServerTargetState E i pending target n)"
  unfolding waitForServerTargetState_def
  by (auto intro!: keeps_d_intros keeps_d_WaitForStateContext keeps_d_refresh split: sum.splits)

lemma keeps_d_doPowerAction: "keeps_d (doPowerAction E a)"
  unfolding doPowerAction_def Let_def
  by (auto intro!: keeps_d_intros split: sum.splits option.splits)

lemma keeps_d_Delete_stop: "keeps_d (Delete_stop E)"
  unfolding Delete_stop_def
  by (auto intro!: keeps_d_intros keeps_d_doPowerAction keeps_d_wait split: sum.splits)

subsection \<open>Operations that a computation issues\<close>

lemma issues_ret: "issues P (ret x)"
  by (simp add: issues_def ret_def)

lemma issues_fail: "issues P (fail e)"
  by (simp add: issues_def fail_def)

lemma issues_get_d: "issues P get_d"
  by (simp add: issues_def get_d_def)

lemma issues_update_d: "issues P (update_d g)"
  by (simp add: issues_def update_d_def)

lemma issues_remote: "P c \<Longrightarrow> issues P (remote E c)"
  by (simp add: issues_def remote_def Let_def)

lemma issues_client: "issues P (client E n msg)"
  by (simp add: client_def issues_ret issues_fail split: option.splits)

lemma issues_bind:
  assumes "issues P m" and "\<And>x. issues P (f x)"
  shows "issues P (bind m f)"
  unfolding issues_def
proof
  fix s
  obtain r s1 where m: "m s = (r, s1)"
    by (cases "m s")
  from assms(1) m obtain n1 where n1: "st_trace s1 = st_trace s @ n1" "\<forall>x\<in>set n1. P (fst x)"
    unfolding issues_def by (metis snd_conv)
  show "\<exists>new. st_trace (snd (bind m f s)) = st_trace s @ new \<and> (\<forall>x\<in>set new. P (fst x))"
  proof (cases r)
    case (Inl e)
    with m n1 show ?thesis
      by (simp add: bind_def)
  next
    case (Inr x)
    from assms(2)[of x] obtain n2 where
      "st_trace (snd (f x s1)) = st_trace s1 @ n2" "\<forall>x\<in>set n2. P (fst x)"
      unfolding issues_def by blast
    with m n1 Inr show ?thesis
      by (auto simp: bind_def intro!: exI[of _ "n1 @ n2"])
  qed
qed

lemma issues_attempt: "issues P m \<Longrightarrow> issues P (attempt m)"
  by (auto simp: issues_def attempt_def split: prod.splits) (metis snd_conv)

lemmas issues_intros =
  issues_ret issues_fail issues_get_d issues_update_d issues_remote issues_client issues_bind
  issues_attempt

lemma issues_WaitForStateContext:
  "issues P refresh \<Longrightarrow> issues P (WaitForStateContext n pending target refresh)"
proof (induction n)
  case 0
  show ?case by (simp add: WaitForStateContext_0 issues_fail)
next
  case (Suc n)
  then show ?case
    unfolding WaitForStateContext_Suc
    by (auto intro!: issues_intros split: option.splits)
qed

lemma issues_refresh: "P (CloudserversGet i) \<Longrightarrow> issues P (ServerV1StateRefreshFunc E i)"
  unfolding ServerV1StateRefreshFunc_def
  by (auto intro!: issues_intros split: sum.splits)

lemma issues_wait:
  "P (CloudserversGet i) \<Longrightarrow> issues P (waitForServerTargetState E i pending target n)"
  unfolding waitForServerTargetState_def
  by (auto intro!: issues_intros issues_WaitForStateContext issues_refresh split: sum.splits)

lemma issues_doPowerAction:
  "(\<And>t opn i. P (PowerAction t opn i)) \<Longrightarrow> (\<And>j. P (WaitForJobSuccess j)) \<Longrightarrow>
   issues P (doPowerAction E a)"
  unfolding doPowerAction_def Let_def
  by (auto intro!: issues_intros split: sum.splits option.splits)

lemma issues_Delete_stop: "issues (\<lambda>c. \<not> is_unsubscribe c) (Delete_stop E)"
  unfolding Delete_stop_def
  by (auto intro!: issues_intros issues_doPowerAction issues_wait split: sum.splits)

subsection \<open>Resources unsubscribed by the delete handler\<close>

lemma ExtractString_Inr_iff: "ExtractString r = Inr x \<longleftrightarrow> r = Inr (RString x)"
  by (induction r rule: ExtractString.induct) auto

lemma Delete_remove_prepaid:
  assumes "d_Get (st_d s) ''charging_mode'' = VStr ''prePaid''"
  shows "st_d (snd (Delete_remove E s)) = st_d s
       \<and> (\<exists>new. st_trace (snd (Delete_remove E s)) = st_trace s @ new
            \<and> (\<forall>rs r. (UnsubscribePrePaidResource rs, r) \<in> set new \<longrightarrow>
                 (if shouldUnsubscribeEIP (st_d s)
                  then \<exists>eipID. (GetEipIDbyAddress (as_string (d_Get (st_d s) ''public_ip''))
                                   ''all_granted_eps'', Inr (RString eipID)) \<in> set new
                               \<and> rs = [rd_Id (st_d s), eipID]
                  else rs = [rd_Id (st_d s)])))"
proof -
  have "st_d (snd (run (Delete_remove E) s)) = st_d s
       \<and> (\<exists>new. st_trace (snd (run (Delete_remove E) s)) = st_trace s @ new
            \<and> (\<forall>rs r. (UnsubscribePrePaidResource rs, r) \<in> set new \<longrightarrow>
                 (if shouldUnsubscribeEIP (st_d s)
                  then \<exists>eipID. (GetEipIDbyAddress (as_string (d_Get (st_d s) ''public_ip''))
                                   ''all_granted_eps'', Inr (RString eipID)) \<in> set new
                               \<and> rs = [rd_Id (st_d s), eipID]
                  else rs = [rd_Id (st_d s)])))"
    using assms
    by (auto simp: Delete_remove_def calcUnsubscribeResources_def run_simps Let_def
        ExtractString_Inr_iff
        split: option.splits sum.splits)
  then show ?thesis
    by (simp add: run_def)
qed

lemma Delete_steps:
  assumes "cfg_client E ''ComputeV1Client'' = None"
  shows "resourceComputeInstanceDelete E s =
     (case Delete_stop E s of
        (Inl e, s1) \<Rightarrow> (Inl e, s1)
      | (Inr u, s1) \<Rightarrow>
         (case Delete_remove E s1 of
            (Inl e, s2) \<Rightarrow> (Inl e, s2)
          | (Inr v, s2) \<Rightarrow>
              bind get_d (\<lambda>d.
              bind (attempt (waitForServerTargetState E (rd_Id d) [''ACTIVE'', ''SHUTOFF'']
                               [''DELETED'', ''SOFT_DELETED''] (polls_within E ''delete''))) (\<lambda>w.
                case w of
                  Inl e \<Rightarrow> fail (Errorf ''State waiting timeout: %s'' [AErr e])
                | Inr _ \<Rightarrow> update_d (d_SetId []))) s2))"
  unfolding resourceComputeInstanceDelete_def bind_def
  using assms by (simp add: client_def ret_def)

text \<open>
  Claim C3. In a delete of an instance whose \<open>charging_mode\<close> is \<open>prePaid\<close>, every
  unsubscribe call that the handler issues carries the instance id, followed by the id
  that \<^verbatim>\<open>GetEipIDbyAddress\<close> returned for \<open>public_ip\<close> exactly when
  \<open>delete_eip_on_termination\<close> is true, \<open>public_ip\<close> and \<open>eip_type\<close> are non-empty and
  \<open>bandwidth.0.id\<close> is not set.
\<close>

theorem delete_prepaid_unsubscribes_instance_and_eip:
  assumes "d_Get (st_d s) ''charging_mode'' = VStr ''prePaid''"
      and "st_trace (snd (resourceComputeInstanceDelete E s)) = st_trace s @ new"
      and "(UnsubscribePrePaidResource rs, r) \<in> set new"
      and "d = st_d s"
  shows "(shouldUnsubscribeEIP d \<longleftrightarrow>
            as_bool (d_Get d ''delete_eip_on_termination'')
            \<and> as_string (d_Get d ''public_ip'') \<noteq> []
            \<and> as_string (d_Get d ''eip_type'') \<noteq> []
            \<and> is_zero (field (as_map (elem (as_list (d_Get d ''bandwidth'')) 0)) ''id''))
       \<and> (shouldUnsubscribeEIP d \<longrightarrow>
            (\<exists>eipID. (GetEipIDbyAddress (as_string (d_Get d ''public_ip'')) ''all_granted_eps'',
                       Inr (RString eipID)) \<in> set new
                    \<and> rs = [rd_Id d, eipID] \<and> set rs = {rd_Id d} \<union> {eipID}))
       \<and> (\<not> shouldUnsubscribeEIP d \<longrightarrow> rs = [rd_Id d] \<and> set rs = {rd_Id d})"
proof -
  let ?U = "\<lambda>c. \<not> is_unsubscribe c"
  let ?goal = "if shouldUnsubscribeEIP d
               then \<exists>eipID. (GetEipIDbyAddress (as_string (d_Get d ''public_ip''))
                                ''all_granted_eps'', Inr (RString eipID)) \<in> set new
                            \<and> rs = [rd_Id d, eipID]
               else rs = [rd_Id d]"
  have not_in: False if "\<forall>x\<in>set new. ?U (fst x)"
    using that assms(3) by force
  have ?goal
  proof (cases "cfg_client E ''ComputeV1Client''")
    case (Some e)
    then have "resourceComputeInstanceDelete E s = (Inl (Errorf ''error creating compute client: %s'' [AErr (GoErr e)]), s)"
      by (simp add: resourceComputeInstanceDelete_def bind_client_err fail_apply)
    with assms(2) have "new = []" by simp
    with assms(3) show ?thesis by simp
  next
    case None
    obtain r1 s1 where stop: "Delete_stop E s = (r1, s1)"
      by (cases "Delete_stop E s")
    have d1: "st_d s1 = d"
      using keeps_d_Delete_stop[of E] stop assms(4) unfolding keeps_d_def by (metis snd_conv)
    obtain n1 where n1: "st_trace s1 = st_trace s @ n1" "\<forall>x\<in>set n1. ?U (fst x)"
      using issues_Delete_stop[of E] stop unfolding issues_def by (metis snd_conv)
    show ?thesis
    proof (cases r1)
      case (Inl e)
      with stop have "resourceComputeInstanceDelete E s = (Inl e, s1)"
        by (simp add: Delete_steps[OF None])
      with assms(2) n1 have "new = n1" by simp
      with n1 not_in show ?thesis by blast
    next
      case (Inr u1)
      obtain r2 s2 where rem: "Delete_remove E s1 = (r2, s2)"
        by (cases "Delete_remove E s1")
      have pre: "d_Get (st_d s1) ''charging_mode'' = VStr ''prePaid''"
        using d1 assms(1,4) by simp
      from Delete_remove_prepaid[OF pre, of E] rem d1 obtain n2 where
        d2: "st_d s2 = d" and
        n2: "st_trace s2 = st_trace s1 @ n2"
            "\<forall>rs r. (UnsubscribePrePaidResource rs, r) \<in> set n2 \<longrightarrow>
               (if shouldUnsubscribeEIP d
                then \<exists>eipID. (GetEipIDbyAddress (as_string (d_Get d ''public_ip''))
                                 ''all_granted_eps'', Inr (RString eipID)) \<in> set n2
                             \<and> rs = [rd_Id d, eipID]
                else rs = [rd_Id d])"
        by auto
      let ?rest = "bind get_d (\<lambda>d.
         bind (attempt (waitForServerTargetState E (rd_Id d) [''ACTIVE'', ''SHUTOFF'']
                          [''DELETED'', ''SOFT_DELETED''] (polls_within E ''delete''))) (\<lambda>w.
           case w of
             Inl e \<Rightarrow> fail (Errorf ''State waiting timeout: %s'' [AErr e])
           | Inr _ \<Rightarrow> update_d (d_SetId [])))"
      have "issues ?U ?rest"
        by (auto intro!: issues_intros issues_wait split: sum.splits)
      then obtain n3 where n3: "st_trace (snd (?rest s2)) = st_trace s2 @ n3" "\<forall>x\<in>set n3. ?U (fst x)"
        unfolding issues_def by blast
      have "\<exists>n3. new = n1 @ n2 @ n3 \<and> (\<forall>x\<in>set n3. ?U (fst x))"
      proof (cases r2)
        case (Inl e)
        with stop \<open>r1 = Inr u1\<close> rem
        have "resourceComputeInstanceDelete E s = (Inl e, s2)"
          by (simp add: Delete_steps[OF None])
        with assms(2) n1 n2 have "new = n1 @ n2 @ []" by simp
        then show ?thesis by (intro exI[of _ "[]"]) simp
      next
        case (Inr u2)
        with stop \<open>r1 = Inr u1\<close> rem
        have "resourceComputeInstanceDelete E s = ?rest s2"
          by (simp add: Delete_steps[OF None])
        with assms(2) n1 n2 n3 have "new = n1 @ n2 @ n3" by simp
        with n3 show ?thesis by blast
      qed
      then obtain n3' where new: "new = n1 @ n2 @ n3'" and u3: "\<forall>x\<in>set n3'. ?U (fst x)"
        by blast
      from assms(3) new n1(2) u3 have mem: "(UnsubscribePrePaidResource rs, r) \<in> set n2"
        by force
      from n2(2)[rule_format, OF mem] new show ?thesis
        by (auto split: if_splits)
    qed
  qed
  moreover have "shouldUnsubscribeEIP d \<longleftrightarrow>
            as_bool (d_Get d ''delete_eip_on_termination'')
            \<and> as_string (d_Get d ''public_ip'') \<noteq> []
            \<and> as_string (d_Get d ''eip_type'') \<noteq> []
            \<and> is_zero (field (as_map (elem (as_list (d_Get d ''bandwidth'')) 0)) ''id'')"
    by (simp add: shouldUnsubscribeEIP_def Let_def)
  ultimately show ?thesis
    by (auto split: if_splits)
qed


lemma start_sel: "st_trace (start d) = []" "st_d (start d) = d"
  by (simp_all add: start_def)

lemma Delete_with_eip_run:
  "resourceComputeInstanceDelete (env_of remote_unsubscribing [])
       (start (rd_of ''i-1'' prepaid_with_eip [])) =
     (Inr (),
      \<lparr>st_d = d_SetId [] (rd_of ''i-1'' prepaid_with_eip []),
       st_trace =
         [(GetEipIDbyAddress ''1.2.3.4'' ''all_granted_eps'', Inr (RString ''eip-1'')),
          (UnsubscribePrePaidResource [''i-1'', ''eip-1''], Inr RUnit),
          (CloudserversGet ''i-1'', Inl (ErrDefault404 ''gone''))]\<rparr>)"
proof -
  have "run (resourceComputeInstanceDelete (env_of remote_unsubscribing []))
          (start (rd_of ''i-1'' prepaid_with_eip [])) =
     (Inr (),
      \<lparr>st_d = d_SetId [] (rd_of ''i-1'' prepaid_with_eip []),
       st_trace =
         [(GetEipIDbyAddress ''1.2.3.4'' ''all_granted_eps'', Inr (RString ''eip-1'')),
          (UnsubscribePrePaidResource [''i-1'', ''eip-1''], Inr RUnit),
          (CloudserversGet ''i-1'', Inl (ErrDefault404 ''gone''))]\<rparr>)"
    by (simp add: resourceComputeInstanceDelete_def Delete_stop_def Delete_remove_def
        calcUnsubscribeResources_def shouldUnsubscribeEIP_def waitForServerTargetState_def
        ServerV1StateRefreshFunc_def run_simps env_of_def start_def rd_of_def field_def elem_def
        d_Get_def prepaid_with_eip_def numeral_3_eq_3 Let_def)
  then show ?thesis
    by (simp add: run_def)
qed

lemma Delete_keeping_eip_run:
  "resourceComputeInstanceDelete (env_of remote_unsubscribing [])
       (start (rd_of ''i-1'' prepaid_keeping_eip [])) =
     (Inr (),
      \<lparr>st_d = d_SetId [] (rd_of ''i-1'' prepaid_keeping_eip []),
       st_trace =
         [(UnsubscribePrePaidResource [''i-1''], Inr RUnit),
          (CloudserversGet ''i-1'', Inl (ErrDefault404 ''gone''))]\<rparr>)"
proof -
  have "run (resourceComputeInstanceDelete (env_of remote_unsubscribing []))
          (start (rd_of ''i-1'' prepaid_keeping_eip [])) =
     (Inr (),
      \<lparr>st_d = d_SetId [] (rd_of ''i-1'' prepaid_keeping_eip []),
       st_trace =
         [(UnsubscribePrePaidResource [''i-1''], Inr RUnit),
          (CloudserversGet ''i-1'', Inl (ErrDefault404 ''gone''))]\<rparr>)"
    by (simp add: resourceComputeInstanceDelete_def Delete_stop_def Delete_remove_def
        calcUnsubscribeResources_def shouldUnsubscribeEIP_def waitForServerTargetState_def
        ServerV1StateRefreshFunc_def run_simps env_of_def start_def rd_of_def field_def elem_def
        d_Get_def prepaid_keeping_eip_def numeral_3_eq_3 Let_def)
  then show ?thesis
    by (simp add: run_def)
qed

theorem delete_prepaid_unsubscribes_instance_and_eip_witness:
  "shouldUnsubscribeEIP (rd_of ''i-1'' prepaid_with_eip [])
   \<and> (UnsubscribePrePaidResource [''i-1'', ''eip-1''], Inr RUnit)
       \<in> set (st_trace (snd (resourceComputeInstanceDelete (env_of remote_unsubscribing [])
                               (start (rd_of ''i-1'' prepaid_with_eip [])))))
   \<and> set [''i-1'', ''eip-1''] = {''i-1''} \<union> {''eip-1''}
   \<and> \<not> shouldUnsubscribeEIP (rd_of ''i-1'' prepaid_keeping_eip [])
   \<and> (UnsubscribePrePaidResource [''i-1''], Inr RUnit)
       \<in> set (st_trace (snd (resourceComputeInstanceDelete (env_of remote_unsubscribing [])
                               (start (rd_of ''i-1'' prepaid_keeping_eip [])))))"
proof -
  let ?E = "env_of remote_unsubscribing []"
  let ?d1 = "rd_of ''i-1'' prepaid_with_eip []"
  let ?d2 = "rd_of ''i-1'' prepaid_keeping_eip []"
  let ?t1 = "[(GetEipIDbyAddress ''1.2.3.4'' ''all_granted_eps'', Inr (RString ''eip-1'')),
              (UnsubscribePrePaidResource [''i-1'', ''eip-1''], Inr RUnit),
              (CloudserversGet ''i-1'', Inl (ErrDefault404 ''gone''))]"
  let ?t2 = "[(UnsubscribePrePaidResource [''i-1''], Inr RUnit),
              (CloudserversGet ''i-1'', Inl (ErrDefault404 ''gone''))]"
  have p1: "d_Get (st_d (start ?d1)) ''charging_mode'' = VStr ''prePaid''"
    and p2: "d_Get (st_d (start ?d2)) ''charging_mode'' = VStr ''prePaid''"
    by (simp_all add: input_simps prepaid_with_eip_def prepaid_keeping_eip_def)
  have t1: "st_trace (snd (resourceComputeInstanceDelete ?E (start ?d1))) = st_trace (start ?d1) @ ?t1"
    by (simp add: Delete_with_eip_run start_sel)
  have t2: "st_trace (snd (resourceComputeInstanceDelete ?E (start ?d2))) = st_trace (start ?d2) @ ?t2"
    by (simp add: Delete_keeping_eip_run start_sel)
  have m1: "(UnsubscribePrePaidResource [''i-1'', ''eip-1''], Inr RUnit) \<in> set ?t1"
    and m2: "(UnsubscribePrePaidResource [''i-1''], Inr RUnit) \<in> set ?t2"
    by simp_all
  have s1: "shouldUnsubscribeEIP ?d1" and s2: "\<not> shouldUnsubscribeEIP ?d2"
    by (simp_all add: shouldUnsubscribeEIP_def input_simps prepaid_with_eip_def
        prepaid_keeping_eip_def)
  have d1: "?d1 = st_d (start ?d1)" and d2: "?d2 = st_d (start ?d2)"
    by (simp_all add: start_sel)
  show ?thesis
    using delete_prepaid_unsubscribes_instance_and_eip[OF p1 t1 m1 d1]
          delete_prepaid_unsubscribes_instance_and_eip[OF p2 t2 m2 d2]
          s1 s2
    by (simp add: Delete_with_eip_run Delete_keeping_eip_run)
qed

subsection \<open>Source/destination checks disabled by the create handler\<close>

lemma wanted_ports_Cons:
  "wanted_ports (drop i sdcs) (nic # nics) =
     (if i < length sdcs \<and> as_string (field nic ''port'') \<noteq> [] \<and> \<not> sdcs ! i
      then [as_string (field nic ''port'')] else [])
     @ wanted_ports (drop (Suc i) sdcs) nics"
proof (cases "i < length sdcs")
  case True
  then have "drop i sdcs = sdcs ! i # drop (Suc i) sdcs"
    by (simp add: Cons_nth_drop_Suc)
  then show ?thesis
    using True by (simp add: wanted_ports_def)
next
  case False
  then show ?thesis
    by (simp add: wanted_ports_def)
qed

lemma Create_disableChecks_ok:
  "fst (Create_disableChecks E d sdcs i nics s) = Inr () \<Longrightarrow>
   \<exists>rs. length rs = length (wanted_ports (drop i sdcs) nics)
      \<and> st_trace (snd (Create_disableChecks E d sdcs i nics s)) =
          st_trace s @ zip (map (\<lambda>p. PortsUpdate p [''1.1.1.1/0'']) (wanted_ports (drop i sdcs) nics)) rs"
proof (induction nics arbitrary: i s)
  case Nil
  then show ?case
    by (simp add: wanted_ports_def ret_def)
next
  case (Cons nic nics)
  let ?p = "as_string (field nic ''port'')"
  show ?case
  proof (cases "?p = []")
    case True
    with Cons.prems have "fst (Create_disableChecks E d sdcs (Suc i) nics s) = Inr ()"
      by (simp add: Let_def)
    from Cons.IH[OF this] True show ?thesis
      by (simp add: Let_def wanted_ports_Cons)
  next
    case port: False
    show ?thesis
    proof (cases "i < length sdcs")
      case False
      with port Cons.prems show ?thesis
        by (simp add: Let_def fail_def)
    next
      case inb: True
      show ?thesis
      proof (cases "sdcs ! i")
        case True
        with port inb Cons.prems have "fst (Create_disableChecks E d sdcs (Suc i) nics s) = Inr ()"
          by (simp add: Let_def)
        from Cons.IH[OF this] True port inb show ?thesis
          by (simp add: Let_def wanted_ports_Cons)
      next
        case False
        let ?c = "PortsUpdate ?p [''1.1.1.1/0'']"
        let ?r = "respond E (length (st_trace s)) ?c"
        let ?s' = "s\<lparr>st_trace := st_trace s @ [(?c, ?r)]\<rparr>"
        have step: "Create_disableChecks E d sdcs i (nic # nics) s =
              (case ExtractErr ?r of
                 Some e \<Rightarrow> (Inl (Errorf ''error disabling source dest check on port(%s) of instance(%s): %s''
                                   [AStr ?p, AStr (rd_Id d), AErr (GoErr e)]), ?s')
               | None \<Rightarrow> Create_disableChecks E d sdcs (Suc i) nics ?s')"
          using port inb False
          by (simp add: Let_def disableSourceDestCheck_def bind_assoc bind_remote fail_def
              split: option.splits)
        with Cons.prems have ok: "ExtractErr ?r = None"
          and rest: "fst (Create_disableChecks E d sdcs (Suc i) nics ?s') = Inr ()"
          by (auto split: option.splits)
        from Cons.IH[OF rest] obtain rs where
          rs: "length rs = length (wanted_ports (drop (Suc i) sdcs) nics)"
              "st_trace (snd (Create_disableChecks E d sdcs (Suc i) nics ?s')) =
                 st_trace ?s' @ zip (map (\<lambda>p. PortsUpdate p [''1.1.1.1/0''])
                                       (wanted_ports (drop (Suc i) sdcs) nics)) rs"
          by blast
        show ?thesis
          using rs ok port inb False
          by (intro exI[of _ "?r # rs"])
             (simp add: step wanted_ports_Cons del: Create_disableChecks.simps)
      qed
    qed
  qed
qed


lemma issues_mono: "issues P m \<Longrightarrow> (\<And>c. P c \<Longrightarrow> Q c) \<Longrightarrow> issues Q m"
  unfolding issues_def by (metis (no_types, lifting))

lemma issues_getImage: "P (ImagesList i n) \<Longrightarrow> issues P (getImage E i n)"
  unfolding getImage_def
  by (auto intro!: issues_intros split: sum.splits list.splits)

lemma issues_setImageInformation: "issues is_read_call (setImageInformation E i)"
  unfolding setImageInformation_def
  by (auto intro!: issues_intros issues_getImage split: sum.splits)

lemma issues_Read_setNetworks: "issues is_read_call (Read_setNetworks E server)"
  unfolding Read_setNetworks_def Let_def
  by (auto intro!: issues_intros split: sum.splits)

lemma issues_Read_volumes: "issues is_read_call (Read_volumes E bs bds)"
proof (induction bs arbitrary: bds)
  case Nil
  show ?case by (simp add: issues_ret)
next
  case (Cons b bs)
  show ?case
    by (auto intro!: issues_intros Cons.IH split: sum.splits)
qed

lemma issues_Read_setVolumes: "issues is_read_call (Read_setVolumes E server)"
  unfolding Read_setVolumes_def
  by (auto intro!: issues_intros issues_Read_volumes)

lemma issues_Read: "issues is_read_call (resourceComputeInstanceRead E)"
  unfolding resourceComputeInstanceRead_def CheckDeletedDiag_def
  by (auto intro!: issues_intros issues_setImageInformation issues_Read_setNetworks
      issues_Read_setVolumes split: sum.splits)

lemma issues_getImageIDFromConfig:
  "issues (\<lambda>c. \<not> is_ports_update c) (getImageIDFromConfig E)"
  unfolding getImageIDFromConfig_def
  by (auto intro!: issues_intros issues_getImage split: sum.splits)

lemma issues_getVpcID: "issues (\<lambda>c. \<not> is_ports_update c) (getVpcID E)"
  unfolding getVpcID_def Let_def
  by (auto intro!: issues_intros split: sum.splits)

lemma issues_resourceInstanceSecGroupIdsV1:
  "issues (\<lambda>c. \<not> is_ports_update c) (resourceInstanceSecGroupIdsV1 E)"
  unfolding resourceInstanceSecGroupIdsV1_def Let_def
  by (auto intro!: issues_intros split: sum.splits prod.splits)

lemma issues_Create_ecs: "issues (\<lambda>c. \<not> is_ports_update c) (Create_ecs E i f)"
  unfolding Create_ecs_def Let_def
  by (auto intro!: issues_intros issues_getVpcID issues_resourceInstanceSecGroupIdsV1
      split: sum.splits option.splits)

lemma issues_Create_nova: "issues (\<lambda>c. \<not> is_ports_update c) (Create_nova E i f)"
  unfolding Create_nova_def
  by (auto intro!: issues_intros issues_wait split: sum.splits option.splits prod.splits)

lemma issues_Create_powerAction: "issues (\<lambda>c. \<not> is_ports_update c) (Create_powerAction E)"
  unfolding Create_powerAction_def Let_def
  by (auto intro!: issues_intros issues_doPowerAction split: sum.splits prod.splits)

lemma issues_Create_provision: "issues (\<lambda>c. \<not> is_ports_update c) (Create_provision E)"
  unfolding Create_provision_def
  by (auto intro!: issues_intros issues_getImageIDFromConfig issues_Create_ecs
      issues_Create_nova issues_Create_powerAction split: sum.splits option.splits)

lemma keeps_attempt: "keeps k m \<Longrightarrow> keeps k (attempt m)"
  by (auto simp: keeps_def attempt_def split: prod.splits) (metis snd_conv)

lemma keeps_of_keeps_d: "keeps_d m \<Longrightarrow> keeps k m"
  by (simp add: keeps_d_def keeps_def)

lemma keeps_SetId: "keeps k (update_d (d_SetId i))"
  by (rule keeps_update_d) (simp add: d_SetId_def)

lemma keeps_d_getImage: "keeps_d (getImage E i n)"
  unfolding getImage_def
  by (auto intro!: keeps_d_intros split: sum.splits list.splits)

lemma keeps_d_getImageIDFromConfig: "keeps_d (getImageIDFromConfig E)"
  unfolding getImageIDFromConfig_def
  by (auto intro!: keeps_d_intros keeps_d_getImage split: sum.splits)

lemma keeps_d_getVpcID: "keeps_d (getVpcID E)"
  unfolding getVpcID_def Let_def
  by (auto intro!: keeps_d_intros split: sum.splits)

lemma keeps_d_resourceInstanceSecGroupIdsV1: "keeps_d (resourceInstanceSecGroupIdsV1 E)"
  unfolding resourceInstanceSecGroupIdsV1_def Let_def
  by (auto intro!: keeps_d_intros split: sum.splits prod.splits)

lemma keeps_Create_ecs: "keeps k (Create_ecs E i f)"
  unfolding Create_ecs_def Let_def
  by (auto intro!: keeps_intros keeps_SetId keeps_of_keeps_d[OF keeps_d_getVpcID]
      keeps_of_keeps_d[OF keeps_d_resourceInstanceSecGroupIdsV1]
      split: sum.splits option.splits)

lemma keeps_Create_nova: "keeps k (Create_nova E i f)"
  unfolding Create_nova_def
  by (auto intro!: keeps_intros keeps_SetId keeps_attempt keeps_of_keeps_d[OF keeps_d_wait]
      split: sum.splits option.splits prod.splits)

lemma keeps_Create_powerAction: "keeps k (Create_powerAction E)"
  unfolding Create_powerAction_def Let_def
  by (auto intro!: keeps_intros keeps_attempt keeps_of_keeps_d[OF keeps_d_doPowerAction]
      split: sum.splits prod.splits)

lemma keeps_Create_provision: "keeps k (Create_provision E)"
  unfolding Create_provision_def
  by (auto intro!: keeps_intros keeps_of_keeps_d[OF keeps_d_getImageIDFromConfig]
      keeps_Create_ecs keeps_Create_nova keeps_Create_powerAction
      split: sum.splits option.splits)

lemma Create_steps:
  "resourceComputeInstanceCreate E =
     bind (Create_provision E) (\<lambda>_.
     bind (Create_sourceDestCheck E) (\<lambda>_. resourceComputeInstanceRead E))"
  unfolding resourceComputeInstanceCreate_def Create_provision_def
  by (simp add: bind_assoc)

lemma port_updates_append: "port_updates (xs @ ys) = port_updates xs @ port_updates ys"
  by (simp add: port_updates_def)

lemma port_updates_Cons:
  "port_updates (x # xs) = (if is_ports_update (fst x) then [fst x] else []) @ port_updates xs"
  by (simp add: port_updates_def)

lemma port_updates_Nil: "port_updates [] = []"
  by (simp add: port_updates_def)

lemma port_updates_none: "\<forall>x\<in>set xs. \<not> is_ports_update (fst x) \<Longrightarrow> port_updates xs = []"
  by (induction xs) (auto simp: port_updates_def)

lemma port_updates_read: "\<forall>x\<in>set xs. is_read_call (fst x) \<Longrightarrow> port_updates xs = []"
proof (rule port_updates_none, rule ballI)
  fix x assume "\<forall>x\<in>set xs. is_read_call (fst x)" "x \<in> set xs"
  then have "is_read_call (fst x)" by blast
  then show "\<not> is_ports_update (fst x)"
    by (cases "fst x") auto
qed

lemma port_updates_zip:
  "length rs = length ps \<Longrightarrow>
   port_updates (zip (map (\<lambda>p. PortsUpdate p pairs) ps) rs) = map (\<lambda>p. PortsUpdate p pairs) ps"
  by (induction rs ps rule: list_induct2) (auto simp: port_updates_def)

lemma issues_Create_disableChecks: "issues (\<lambda>c. True) (Create_disableChecks E d sdcs i nics)"
proof (induction nics arbitrary: i)
  case Nil
  show ?case by (simp add: issues_ret)
next
  case (Cons nic nics)
  show ?case
    by (auto simp: Let_def disableSourceDestCheck_def intro!: issues_intros Cons.IH
        split: option.splits)
qed

lemma issues_Create_sourceDestCheck: "issues (\<lambda>c. True) (Create_sourceDestCheck E)"
  unfolding Create_sourceDestCheck_def Let_def
  by (auto intro!: issues_intros issues_Create_disableChecks split: sum.splits)

lemma ExtractNetworks_Inr_iff: "ExtractNetworks r = Inr x \<longleftrightarrow> r = Inr (RNetworks x)"
  by (induction r rule: ExtractNetworks.induct) auto

lemma Create_sourceDestCheck_ok:
  assumes ok: "fst (Create_sourceDestCheck E s) = Inr ()"
      and sdcs: "sdcs = map (\<lambda>v. as_bool (field (as_map v) ''source_dest_check''))
                          (as_list (d_Get (st_d s) ''network''))"
      and nets: "(\<exists>c\<in>set sdcs. \<not> c) \<Longrightarrow>
                   respond E (Suc (length (st_trace s))) (FlattenInstanceNetworks (rd_Id (st_d s))) =
                     Inr (RNetworks nets)"
  shows "port_updates (st_trace (snd (Create_sourceDestCheck E s))) =
           port_updates (st_trace s) @
           (if \<forall>c\<in>set sdcs. c then []
            else map (\<lambda>p. PortsUpdate p [''1.1.1.1/0'']) (wanted_ports sdcs nets))"
proof (cases "\<forall>c\<in>set sdcs. c")
  case True
  then have "Create_sourceDestCheck E s = (Inr (), s)"
    using sdcs by (simp add: Create_sourceDestCheck_def bind_get_d Let_def ret_def)
  with True show ?thesis by auto
next
  case False
  let ?i = "rd_Id (st_d s)"
  let ?r0 = "respond E (length (st_trace s)) (CloudserversGet ?i)"
  let ?s2 = "s\<lparr>st_trace := st_trace s @ [(CloudserversGet ?i, ?r0),
                (FlattenInstanceNetworks ?i, Inr (RNetworks nets))]\<rparr>"
  from False nets have fl: "respond E (Suc (length (st_trace s))) (FlattenInstanceNetworks ?i) =
      Inr (RNetworks nets)"
    by blast
  have step: "Create_sourceDestCheck E s =
        (case ExtractServer ?r0 of
           Inl e \<Rightarrow> (Inl (Errorf ''error retrieving compute instance: %s'' [AStr ?i]),
                     s\<lparr>st_trace := st_trace s @ [(CloudserversGet ?i, ?r0)]\<rparr>)
         | Inr server \<Rightarrow> Create_disableChecks E (st_d s) sdcs 0 nets ?s2)"
    using False sdcs fl
    by (simp add: Create_sourceDestCheck_def bind_get_d bind_remote Let_def fail_def
        split: sum.splits)
  with ok have loop: "fst (Create_disableChecks E (st_d s) sdcs 0 nets ?s2) = Inr ()"
    and run: "Create_sourceDestCheck E s = Create_disableChecks E (st_d s) sdcs 0 nets ?s2"
    by (auto split: sum.splits)
  from Create_disableChecks_ok[OF loop] obtain rs where
    rs: "length rs = length (wanted_ports sdcs nets)"
        "st_trace (snd (Create_disableChecks E (st_d s) sdcs 0 nets ?s2)) =
           st_trace ?s2 @ zip (map (\<lambda>p. PortsUpdate p [''1.1.1.1/0'']) (wanted_ports sdcs nets)) rs"
    by auto
  show ?thesis
    using False rs
    by (auto simp: run port_updates_append port_updates_zip port_updates_Cons)
qed

text \<open>
  Claim C7. Suppose the create handler gets through the provisioning of the instance
  (create call, wait for the job, the order or the state \<open>ACTIVE\<close>, initial power action)
  and through its source/destination-check section without error. Then the port updates
  in its log, the final read included, are those that were there before followed by one
  update with the single allowed address pair \<open>1.1.1.1/0\<close> for each NIC that has a port
  and stands at the index of a configured network whose \<open>source_dest_check\<close> is false, in
  order; the NICs are those that \<^verbatim>\<open>flattenInstanceNetworks\<close> answers after the server was
  fetched. No other port receives an update, the provisioning issues none, and all of the
  provisioning precedes the updates in the log.
\<close>

theorem create_disables_source_dest_check:
  assumes prov: "Create_provision E s = (Inr (), s1)"
      and sec: "fst (Create_sourceDestCheck E s1) = Inr ()"
      and sdcs: "sdcs = map (\<lambda>v. as_bool (field (as_map v) ''source_dest_check''))
                          (as_list (d_Get (st_d s) ''network''))"
      and nets: "(\<exists>c\<in>set sdcs. \<not> c) \<Longrightarrow>
                   respond E (Suc (length (st_trace s1)))
                     (FlattenInstanceNetworks (rd_Id (st_d s1))) = Inr (RNetworks nets)"
  shows "port_updates (st_trace (snd (resourceComputeInstanceCreate E s))) =
           port_updates (st_trace s) @
           (if \<forall>c\<in>set sdcs. c then []
            else map (\<lambda>p. PortsUpdate p [''1.1.1.1/0'']) (wanted_ports sdcs nets))
       \<and> port_updates (st_trace s1) = port_updates (st_trace s)
       \<and> take (length (st_trace s1)) (st_trace (snd (resourceComputeInstanceCreate E s))) =
           st_trace s1"
proof -
  obtain r2 s2 where s2: "Create_sourceDestCheck E s1 = (r2, s2)"
    by (cases "Create_sourceDestCheck E s1")
  with sec have r2: "r2 = Inr ()" by simp
  have run: "resourceComputeInstanceCreate E s = resourceComputeInstanceRead E s2"
    using prov s2 r2 by (simp add: Create_steps bind_def)
  have net: "d_Get (st_d s1) ''network'' = d_Get (st_d s) ''network''"
    using keeps_Create_provision[of "''network''" E] prov
    unfolding keeps_def d_Get_def by (metis snd_conv)
  obtain n1 where n1: "st_trace s1 = st_trace s @ n1" "\<forall>x\<in>set n1. \<not> is_ports_update (fst x)"
    using issues_Create_provision[of E] prov unfolding issues_def by (metis snd_conv)
  obtain n2 where n2: "st_trace s2 = st_trace s1 @ n2"
    using issues_Create_sourceDestCheck[of E] s2 unfolding issues_def by (metis snd_conv)
  obtain n3 where n3: "st_trace (snd (resourceComputeInstanceRead E s2)) = st_trace s2 @ n3"
      "\<forall>x\<in>set n3. is_read_call (fst x)"
    using issues_Read[of E] unfolding issues_def by blast
  have p1: "port_updates (st_trace s1) = port_updates (st_trace s)"
    using n1 by (simp add: port_updates_append port_updates_none)
  have "port_updates (st_trace s2) =
          port_updates (st_trace s1) @
          (if \<forall>c\<in>set sdcs. c then []
           else map (\<lambda>p. PortsUpdate p [''1.1.1.1/0'']) (wanted_ports sdcs nets))"
    using Create_sourceDestCheck_ok[OF sec _ nets, of sdcs] sdcs net s2 by simp
  then have "port_updates (st_trace (snd (resourceComputeInstanceCreate E s))) =
           port_updates (st_trace s) @
           (if \<forall>c\<in>set sdcs. c then []
            else map (\<lambda>p. PortsUpdate p [''1.1.1.1/0'']) (wanted_ports sdcs nets))"
    using n3 p1 by (simp add: run port_updates_append port_updates_read)
  moreover have "take (length (st_trace s1)) (st_trace (snd (resourceComputeInstanceCreate E s))) =
           st_trace s1"
    using n2 n3 by (simp add: run)
  ultimately show ?thesis
    using p1 by simp
qed

theorem create_disables_source_dest_check_witness:
  "fst (Create_provision (env_of remote_creating []) (start (rd_of [] two_network_config []))) = Inr ()
   \<and> port_updates (st_trace (snd (resourceComputeInstanceCreate (env_of remote_creating [])
                                     (start (rd_of [] two_network_config []))))) =
       [PortsUpdate ''port-1'' [''1.1.1.1/0'']]"
proof -
  let ?E = "env_of remote_creating []"
  let ?s = "start (rd_of [] two_network_config [])"
  let ?s1 = "\<lparr>st_d = d_SetId ''i-1'' (rd_of [] two_network_config []),
              st_trace =
                [(SubnetsGet ''subnet-1'', Inr (RString ''vpc-1'')),
                 (CloudserversCreate
                    \<lparr>co_Name = ''ecs-1'', co_ImageRef = ''img-1'', co_FlavorRef = ''s6.small'',
                     co_KeyName = [], co_VpcId = ''vpc-1'', co_SecurityGroups = [''sg-1''],
                     co_ChargingMode = [], co_MarketType = [], co_SpotPrice = [],
                     co_OpSvcUserId = []\<rparr>, Inr (RString ''job-1'')),
                 (WaitForJobSuccess ''job-1'', Inr RUnit),
                 (GetJobEntity ''job-1'' ''server_id'', Inr (RString ''i-1''))]\<rparr>"
  have "run (Create_provision ?E) ?s = (Inr (), ?s1)"
    by (simp add: Create_provision_def run_simps input_simps
        validateComputeInstanceConfig_def getOpSvcUserID_def
        Create_ecs_def getVpcID_def resourceInstanceSecGroupIdsV1_def ecsCreateOpts_def
        getImageIDFromConfig_def getFlavorID_def checkBlockDeviceConfig_def hasDeprecatedConfig_def
        Create_powerAction_def two_network_config_def Let_def)
  then have prov: "Create_provision ?E ?s = (Inr (), ?s1)"
    by (simp add: run_def)
  have "fst (run (Create_sourceDestCheck ?E) ?s1) = Inr ()"
    by (simp add: Create_sourceDestCheck_def disableSourceDestCheck_def run_simps input_simps
        two_network_config_def two_nics_def Let_def)
  then have sec: "fst (Create_sourceDestCheck ?E ?s1) = Inr ()"
    by (simp add: run_def)
  have nets: "respond ?E (Suc (length (st_trace ?s1))) (FlattenInstanceNetworks (rd_Id (st_d ?s1))) =
                Inr (RNetworks two_nics)"
    by (simp add: env_of_def)
  have sdcs: "map (\<lambda>v. as_bool (field (as_map v) ''source_dest_check''))
                (as_list (d_Get (st_d ?s) ''network'')) = [False, True]"
    by (simp add: input_simps two_network_config_def)
  have w: "wanted_ports [False, True] two_nics = [''port-1'']"
    by (simp add: wanted_ports_def two_nics_def field_def)
  show ?thesis
    using create_disables_source_dest_check[OF prov sec sdcs[symmetric] nets] prov w
    by (simp add: start_sel port_updates_Nil)
qed

subsection \<open>The update handler stops at the first fatal answer\<close>

lemma good_ret: "good (ret x)"
  by (simp add: good_def ret_def)

lemma good_fail: "good (fail e)"
  by (simp add: good_def fail_def)

lemma good_get_d: "good get_d"
  by (simp add: good_def get_d_def)

lemma good_update_d: "good (update_d g)"
  by (simp add: good_def update_d_def)

lemma good_client: "good (client E n msg)"
  by (simp add: client_def good_ret good_fail split: option.splits)

lemma all_of_butlast_last:
  "\<forall>x\<in>set (butlast xs). P x \<Longrightarrow> (xs \<noteq> [] \<Longrightarrow> P (last xs)) \<Longrightarrow> \<forall>x\<in>set xs. P x"
  by (cases xs rule: rev_cases) auto

lemma good_continue:
  assumes m: "st_trace s1 = st_trace s @ n1" "\<forall>x\<in>set n1. \<not> fatal x"
      and f: "good k"
  shows "\<exists>new. st_trace (snd (k s1)) = st_trace s @ new
         \<and> (\<forall>x \<in> set (butlast new). \<not> fatal x)
         \<and> (new \<noteq> [] \<and> fatal (last new) \<longrightarrow>
              (\<exists>err. fst (k s1) = Inl err
                 \<and> (\<forall>e. snd (last new) = Inl e \<longrightarrow> \<not> is_tags_call (fst (last new)) \<longrightarrow>
                        mentions err e)))"
proof -
  from f obtain n2 where n2: "st_trace (snd (k s1)) = st_trace s1 @ n2"
      "\<forall>x \<in> set (butlast n2). \<not> fatal x"
      "n2 \<noteq> [] \<and> fatal (last n2) \<longrightarrow>
         (\<exists>err. fst (k s1) = Inl err
            \<and> (\<forall>e. snd (last n2) = Inl e \<longrightarrow> \<not> is_tags_call (fst (last n2)) \<longrightarrow> mentions err e))"
    unfolding good_def by blast
  show ?thesis
  proof (cases "n2 = []")
    case True
    with m n2 show ?thesis
      by (intro exI[of _ n1]) (auto dest: in_set_butlastD simp: last_in_set)
  next
    case False
    with m n2 show ?thesis
      by (intro exI[of _ "n1 @ n2"]) (auto simp: butlast_append)
  qed
qed

lemma good_bind:
  assumes "good m" and "\<And>x. good (f x)"
  shows "good (bind m f)"
  unfolding good_def
proof
  fix s
  obtain r s1 where ms: "m s = (r, s1)"
    by (cases "m s")
  from assms(1) ms obtain n1 where n1: "st_trace s1 = st_trace s @ n1"
      "\<forall>x \<in> set (butlast n1). \<not> fatal x"
      "n1 \<noteq> [] \<and> fatal (last n1) \<longrightarrow>
         (\<exists>err. r = Inl err
            \<and> (\<forall>e. snd (last n1) = Inl e \<longrightarrow> \<not> is_tags_call (fst (last n1)) \<longrightarrow> mentions err e))"
    unfolding good_def by (metis fst_conv snd_conv)
  show "\<exists>new. st_trace (snd (bind m f s)) = st_trace s @ new
         \<and> (\<forall>x \<in> set (butlast new). \<not> fatal x)
         \<and> (new \<noteq> [] \<and> fatal (last new) \<longrightarrow>
              (\<exists>err. fst (bind m f s) = Inl err
                 \<and> (\<forall>e. snd (last new) = Inl e \<longrightarrow> \<not> is_tags_call (fst (last new)) \<longrightarrow>
                        mentions err e)))"
  proof (cases r)
    case (Inl e)
    with ms n1 show ?thesis
      by (intro exI[of _ n1]) (simp add: bind_def)
  next
    case (Inr x)
    with n1(3) have "n1 \<noteq> [] \<Longrightarrow> \<not> fatal (last n1)"
      by auto
    with n1(2) have all: "\<forall>x\<in>set n1. \<not> fatal x"
      by (rule all_of_butlast_last) auto
    from good_continue[OF n1(1) all assms(2)[of x]] ms Inr show ?thesis
      by (simp add: bind_def)
  qed
qed

lemma good_remote_bind:
  assumes fatal_case:
        "\<And>e. is_update_call c \<Longrightarrow> \<not> tolerated c e \<Longrightarrow>
           \<exists>err. (\<forall>s. f (Inl e) s = (Inl err, s)) \<and> (\<not> is_tags_call c \<longrightarrow> mentions err e)"
      and ok_case: "\<And>r. \<not> fatal (c, r) \<Longrightarrow> good (f r)"
  shows "good (bind (remote E c) f)"
  unfolding good_def
proof
  fix s :: st
  let ?r = "respond E (length (st_trace s)) c"
  let ?s1 = "s\<lparr>st_trace := st_trace s @ [(c, ?r)]\<rparr>"
  have run: "bind (remote E c) f s = f ?r ?s1"
    by (simp add: bind_remote)
  show "\<exists>new. st_trace (snd (bind (remote E c) f s)) = st_trace s @ new
         \<and> (\<forall>x \<in> set (butlast new). \<not> fatal x)
         \<and> (new \<noteq> [] \<and> fatal (last new) \<longrightarrow>
              (\<exists>err. fst (bind (remote E c) f s) = Inl err
                 \<and> (\<forall>e. snd (last new) = Inl e \<longrightarrow> \<not> is_tags_call (fst (last new)) \<longrightarrow>
                        mentions err e)))"
  proof (cases "fatal (c, ?r)")
    case True
    then obtain e where e: "?r = Inl e" "is_update_call c" "\<not> tolerated c e"
      by (auto simp: fatal_def split: sum.splits)
    from fatal_case[OF e(2,3)] obtain err where
      err: "\<forall>s. f (Inl e) s = (Inl err, s)" "\<not> is_tags_call c \<longrightarrow> mentions err e"
      by blast
    show ?thesis
      using e err by (intro exI[of _ "[(c, ?r)]"]) (simp add: run)
  next
    case False
    have "st_trace ?s1 = st_trace s @ [(c, ?r)]" "\<forall>x\<in>set [(c, ?r)]. \<not> fatal x"
      using False by simp_all
    from good_continue[OF this ok_case[OF False]] show ?thesis
      by (simp add: run)
  qed
qed

lemma good_attempt_bind:
  assumes m: "good m"
      and err_case: "\<And>err. \<exists>err'. (\<forall>s. f (Inl err) s = (Inl err', s))
                              \<and> (\<forall>e. mentions err e \<longrightarrow> mentions err' e)"
      and ok_case: "\<And>x. good (f (Inr x))"
  shows "good (bind (attempt m) f)"
  unfolding good_def
proof
  fix s
  obtain r s1 where ms: "m s = (r, s1)"
    by (cases "m s")
  have run: "bind (attempt m) f s = f r s1"
    using ms by (simp add: bind_attempt)
  from m ms obtain n1 where n1: "st_trace s1 = st_trace s @ n1"
      "\<forall>x \<in> set (butlast n1). \<not> fatal x"
      "n1 \<noteq> [] \<and> fatal (last n1) \<longrightarrow>
         (\<exists>err. r = Inl err
            \<and> (\<forall>e. snd (last n1) = Inl e \<longrightarrow> \<not> is_tags_call (fst (last n1)) \<longrightarrow> mentions err e))"
    unfolding good_def by (metis fst_conv snd_conv)
  show "\<exists>new. st_trace (snd (bind (attempt m) f s)) = st_trace s @ new
         \<and> (\<forall>x \<in> set (butlast new). \<not> fatal x)
         \<and> (new \<noteq> [] \<and> fatal (last new) \<longrightarrow>
              (\<exists>err. fst (bind (attempt m) f s) = Inl err
                 \<and> (\<forall>e. snd (last new) = Inl e \<longrightarrow> \<not> is_tags_call (fst (last new)) \<longrightarrow>
                        mentions err e)))"
  proof (cases r)
    case (Inl err)
    from err_case[of err] obtain err' where
      err': "\<forall>s. f (Inl err) s = (Inl err', s)" "\<forall>e. mentions err e \<longrightarrow> mentions err' e"
      by blast
    with n1 Inl show ?thesis
      by (intro exI[of _ n1]) (auto simp: run)
  next
    case (Inr x)
    with n1(3) have "n1 \<noteq> [] \<Longrightarrow> \<not> fatal (last n1)"
      by auto
    with n1(2) have all: "\<forall>x\<in>set n1. \<not> fatal x"
      by (rule all_of_butlast_last) auto
    from good_continue[OF n1(1) all ok_case[of x]] Inr show ?thesis
      by (simp add: run)
  qed
qed


lemma good_of_issues:
  assumes "issues P m" and "\<And>c. P c \<Longrightarrow> \<not> is_update_call c"
  shows "good m"
  unfolding good_def
proof
  fix s
  from assms(1) obtain new where new: "st_trace (snd (m s)) = st_trace s @ new"
      "\<forall>x\<in>set new. P (fst x)"
    unfolding issues_def by blast
  with assms(2) have nf: "\<forall>x\<in>set new. \<not> fatal x"
    by (auto simp: fatal_def)
  then have "\<forall>x\<in>set (butlast new). \<not> fatal x" "new \<noteq> [] \<longrightarrow> \<not> fatal (last new)"
    by (auto dest: in_set_butlastD)
  with new show "\<exists>new. st_trace (snd (m s)) = st_trace s @ new
         \<and> (\<forall>x \<in> set (butlast new). \<not> fatal x)
         \<and> (new \<noteq> [] \<and> fatal (last new) \<longrightarrow>
              (\<exists>err. fst (m s) = Inl err
                 \<and> (\<forall>e. snd (last new) = Inl e \<longrightarrow> \<not> is_tags_call (fst (last new)) \<longrightarrow>
                        mentions err e)))"
    by blast
qed

lemma good_Read: "good (resourceComputeInstanceRead E)"
proof (rule good_of_issues[OF issues_Read])
  fix c assume "is_read_call c"
  then show "\<not> is_update_call c"
    by (cases c) auto
qed


lemma good_bind_other: "True \<Longrightarrow> good m \<Longrightarrow> (\<And>x. good (f x)) \<Longrightarrow> good (bind m f)"
  by (rule good_bind)

lemmas good_intros =
  good_bind_other good_ret good_fail good_get_d good_update_d good_client good_remote_bind
  good_attempt_bind

lemmas good_simps = fail_apply fatal_def bind_assoc

lemma good_Update_name: "good (Update_name E)"
  unfolding Update_name_def
  by (auto intro!: good_intros simp: good_simps split: option.splits sum.splits)

lemma good_Update_deleteMetadata: "good (Update_deleteMetadata E d keys)"
proof (induction keys)
  case Nil
  show ?case by (simp add: good_ret)
next
  case (Cons key keys)
  show ?case
    by (auto intro!: good_intros Cons.IH simp: good_simps split: option.splits sum.splits)
qed

lemma good_Update_metadata: "good (Update_metadata E)"
  unfolding Update_metadata_def Let_def
  by (auto intro!: good_intros good_Update_deleteMetadata simp: good_simps
      split: option.splits sum.splits)

lemma good_Update_agency: "good (Update_agency E)"
  unfolding Update_agency_def Let_def
  by (auto intro!: good_intros simp: good_simps split: option.splits sum.splits)

lemma good_Update_removeSecgroups: "good (Update_removeSecgroups E d gs)"
proof (induction gs)
  case Nil
  show ?case by (simp add: good_ret)
next
  case (Cons g gs)
  show ?case
    by (auto intro!: good_intros Cons.IH simp: good_simps split: option.splits sum.splits)
qed

lemma good_Update_addSecgroups: "good (Update_addSecgroups E d gs)"
proof (induction gs)
  case Nil
  show ?case by (simp add: good_ret)
next
  case (Cons g gs)
  show ?case
    by (auto intro!: good_intros Cons.IH simp: good_simps split: option.splits sum.splits)
qed

lemma good_Update_secgroups: "good (Update_secgroups E)"
  unfolding Update_secgroups_def Let_def
  by (auto intro!: good_intros good_Update_removeSecgroups good_Update_addSecgroups)

lemma good_Update_adminPass: "good (Update_adminPass E)"
  unfolding Update_adminPass_def
  by (auto intro!: good_intros simp: good_simps split: option.splits sum.splits)

lemma good_Update_flavor: "good (Update_flavor E)"
  unfolding Update_flavor_def
  by (auto intro!: good_intros simp: good_simps split: option.splits sum.splits)

lemma good_updateSourceDestCheck_from: "good (updateSourceDestCheck_from E d i vs)"
proof (induction vs arbitrary: i)
  case Nil
  show ?case by (simp add: good_ret)
next
  case (Cons v vs)
  show ?case
    by (auto intro!: good_intros Cons.IH
        simp: good_simps Let_def disableSourceDestCheck_def enableSourceDestCheck_def
        split: option.splits sum.splits)
qed

lemma good_Update_network: "good (Update_network E)"
  unfolding Update_network_def updateSourceDestCheck_def
  by (auto intro!: good_intros good_updateSourceDestCheck_from)

lemma good_Update_tags: "good (Update_tags E)"
  unfolding Update_tags_def
  by (auto intro!: good_intros simp: good_simps split: option.splits sum.splits)

lemma good_wait_volume:
  "good (WaitForStateContext n pending target (CloudVolumeRefreshFunc E v))"
proof (induction n)
  case 0
  show ?case by (simp add: WaitForStateContext_0 good_fail)
next
  case (Suc n)
  show ?case
    using Suc.IH unfolding WaitForStateContext_Suc
    apply (subst CloudVolumeRefreshFunc_def)
    apply (auto intro!: good_intros simp: good_simps split: option.splits sum.splits)
    done
qed

lemma good_Update_systemDisk: "good (Update_systemDisk E)"
  unfolding Update_systemDisk_def Let_def
  by (auto intro!: good_intros good_wait_volume simp: good_simps
      split: option.splits sum.splits)

lemma good_Update_keyPair: "good (Update_keyPair E)"
  unfolding Update_keyPair_def
  by (auto intro!: good_intros simp: good_simps split: option.splits sum.splits)

lemma good_doPowerAction: "good (doPowerAction E a)"
  unfolding doPowerAction_def Let_def
  by (auto intro!: good_intros simp: good_simps split: option.splits sum.splits)

lemma good_Update_powerAction: "good (Update_powerAction E)"
  unfolding Update_powerAction_def Let_def
  by (auto intro!: good_intros good_doPowerAction simp: good_simps
      split: option.splits sum.splits)

lemma good_Update_autoRenew: "good (Update_autoRenew E)"
  unfolding Update_autoRenew_def
  by (auto intro!: good_intros simp: good_simps split: option.splits sum.splits)

lemma good_Update_blocks: "good (Update_blocks E)"
  unfolding Update_blocks_def
  by (intro good_bind good_Update_name good_Update_metadata good_Update_agency
      good_Update_secgroups good_Update_adminPass good_Update_flavor good_Update_network
      good_Update_tags good_Update_systemDisk good_Update_keyPair good_Update_powerAction
      good_Update_autoRenew)

lemma good_Update: "good (resourceComputeInstanceUpdate E)"
  unfolding resourceComputeInstanceUpdate_def
  by (intro good_bind good_client good_Update_blocks good_Read)


text \<open>
  The claim C6 fails on an update that replaces a security group when the removal of the
  old group answers with a 404 error: the handler goes on to add the new group and to
  read the instance, and returns no error.
\<close>

theorem update_first_error_counterexample:
  "fst (resourceComputeInstanceUpdate (env_of remote_secgroup_gone [])
          (start (rd_of ''i-1'' [(''security_group_ids'', VList [VStr ''sg-new''])]
                               [(''security_group_ids'', VList [VStr ''sg-old''])]))) = Inr ()
   \<and> st_trace (snd (resourceComputeInstanceUpdate (env_of remote_secgroup_gone [])
          (start (rd_of ''i-1'' [(''security_group_ids'', VList [VStr ''sg-new''])]
                               [(''security_group_ids'', VList [VStr ''sg-old''])])))) =
       [(RemoveServer ''i-1'' ''sg-old'', Inl (ErrDefault404 ''not attached'')),
        (AddServer ''i-1'' ''sg-new'', Inr RUnit),
        (CloudserversGet ''i-1'', Inr (RServer (server_of ''ACTIVE'' ''0''))),
        (FlattenInstanceNetworks ''i-1'', Inr (RNetworks []))]"
proof -
  have "fst (run (resourceComputeInstanceUpdate (env_of remote_secgroup_gone []))
          (start (rd_of ''i-1'' [(''security_group_ids'', VList [VStr ''sg-new''])]
                               [(''security_group_ids'', VList [VStr ''sg-old''])]))) = Inr ()
   \<and> st_trace (snd (run (resourceComputeInstanceUpdate (env_of remote_secgroup_gone []))
          (start (rd_of ''i-1'' [(''security_group_ids'', VList [VStr ''sg-new''])]
                               [(''security_group_ids'', VList [VStr ''sg-old''])])))) =
       [(RemoveServer ''i-1'' ''sg-old'', Inl (ErrDefault404 ''not attached'')),
        (AddServer ''i-1'' ''sg-new'', Inr RUnit),
        (CloudserversGet ''i-1'', Inr (RServer (server_of ''ACTIVE'' ''0''))),
        (FlattenInstanceNetworks ''i-1'', Inr (RNetworks []))]"
    by (simp add: resourceComputeInstanceUpdate_def Update_blocks_def Update_name_def
        Update_metadata_def Update_agency_def Update_secgroups_def Update_adminPass_def
        Update_flavor_def Update_network_def Update_tags_def Update_systemDisk_def
        Update_keyPair_def Update_powerAction_def Update_autoRenew_def
        resourceComputeInstanceRead_def setImageInformation_def Read_setNetworks_def
        Read_setVolumes_def Read_setBasic_def computePublicIP_def flattenTagsToMap_def
        run_simps input_simps Let_def)
  then show ?thesis
    by (simp add: run_def)
qed

text \<open>
  Claim C6, amended. In the log of one run of the update handler, an answer to an
  operation of one of its blocks that is an error, other than an \<open>EOF\<close> error from adding
  or removing a security group and a 404 error from removing one, is the last entry: no
  operation is issued after it, none to undo an earlier one either. The handler then
  returns an error, and that error wraps the error of the answer unless the operation is
  the tag update.
\<close>

theorem update_stops_at_first_fatal_error:
  assumes "st_trace (snd (resourceComputeInstanceUpdate E s)) = st_trace s @ new"
      and "i < length new"
      and "new ! i = (c, Inl e)"
      and "is_update_call c"
      and "\<not> tolerated c e"
  shows "Suc i = length new
       \<and> (\<exists>err. fst (resourceComputeInstanceUpdate E s) = Inl err
             \<and> (\<not> is_tags_call c \<longrightarrow> mentions err e))"
proof -
  from good_Update[of E] assms(1) have
    bl: "\<forall>x\<in>set (butlast new). \<not> fatal x" and
    la: "new \<noteq> [] \<and> fatal (last new) \<longrightarrow>
           (\<exists>err. fst (resourceComputeInstanceUpdate E s) = Inl err
              \<and> (\<forall>e. snd (last new) = Inl e \<longrightarrow> \<not> is_tags_call (fst (last new)) \<longrightarrow>
                     mentions err e))"
    unfolding good_def by (metis same_append_eq)+
  have f: "fatal (new ! i)"
    using assms(3,4,5) by (simp add: fatal_def)
  have last: "Suc i = length new"
  proof (rule ccontr)
    assume "Suc i \<noteq> length new"
    with assms(2) have "i < length (butlast new)"
      by simp
    then have "new ! i \<in> set (butlast new)"
      by (metis nth_butlast nth_mem)
    with bl f show False by blast
  qed
  have ne: "new \<noteq> []"
    using assms(2) by auto
  have "length new - 1 = i"
    using last by arith
  with ne have "last new = new ! i"
    by (simp add: last_conv_nth)
  with la f assms(3) last ne show ?thesis
    by auto
qed

theorem update_stops_at_first_fatal_error_witness:
  "is_update_call (CloudserversUpdate ''i-1'' ''new-name'' [])
   \<and> \<not> tolerated (CloudserversUpdate ''i-1'' ''new-name'' []) (ErrGeneric ''refused'')
   \<and> st_trace (snd (resourceComputeInstanceUpdate (env_of remote_refusing [])
          (start (rd_of ''i-1'' [(''name'', VStr ''new-name'')] [(''name'', VStr ''old-name'')])))) =
       [(CloudserversUpdate ''i-1'' ''new-name'' [], Inl (ErrGeneric ''refused''))]
   \<and> (\<exists>err. fst (resourceComputeInstanceUpdate (env_of remote_refusing [])
          (start (rd_of ''i-1'' [(''name'', VStr ''new-name'')] [(''name'', VStr ''old-name'')]))) =
            Inl err
          \<and> mentions err (ErrGeneric ''refused''))"
proof -
  let ?E = "env_of remote_refusing []"
  let ?s = "start (rd_of ''i-1'' [(''name'', VStr ''new-name'')] [(''name'', VStr ''old-name'')])"
  let ?c = "CloudserversUpdate ''i-1'' ''new-name'' []"
  have "st_trace (snd (run (resourceComputeInstanceUpdate ?E) ?s)) =
          [(?c, Inl (ErrGeneric ''refused''))]"
    by (simp add: resourceComputeInstanceUpdate_def Update_blocks_def Update_name_def
        run_simps input_simps Let_def)
  then have tr: "st_trace (snd (resourceComputeInstanceUpdate ?E ?s)) =
          st_trace ?s @ [(?c, Inl (ErrGeneric ''refused''))]"
    by (simp add: run_def start_sel)
  have i: "0 < length [(?c, Inl (ErrGeneric ''refused'') :: goerr + response)]"
    and n: "[(?c, Inl (ErrGeneric ''refused'') :: goerr + response)] ! 0 = (?c, Inl (ErrGeneric ''refused''))"
    and u: "is_update_call ?c" and t: "\<not> tolerated ?c (ErrGeneric ''refused'')"
    by simp_all
  show ?thesis
    using update_stops_at_first_fatal_error[OF tr i n u t] tr
    by (simp add: start_sel)
qed

subsection \<open>Validation in the create handler\<close>

lemma validateComputeInstanceConfig_iff:
  "validateComputeInstanceConfig d E \<noteq> None \<longleftrightarrow>
     as_string (d_Get d ''charging_mode'') = ''prePaid''
     \<and> \<not> is_zero (d_Get d ''key_pair'') \<and> getOpSvcUserID d E = []"
  by (simp add: validateComputeInstanceConfig_def d_GetOk_def d_Get_def Let_def)

lemma issues_at_of_issues: "issues P m \<Longrightarrow> issues_at d P m"
  by (simp add: issues_def issues_at_def)

lemma issues_at_get_d: "issues_at d P (f d) \<Longrightarrow> issues_at d P (bind get_d f)"
  by (simp add: issues_at_def bind_def get_d_def)

lemma issues_at_bind_keeps:
  assumes k: "keeps_d m" and m: "issues P m" and f: "\<And>x. issues_at d P (f x)"
  shows "issues_at d P (bind m f)"
  unfolding issues_at_def
proof (intro allI impI)
  fix s :: st
  assume d: "st_d s = d"
  obtain r s1 where ms: "m s = (r, s1)"
    by (cases "m s")
  from k ms d have d1: "st_d s1 = d"
    unfolding keeps_d_def by (metis snd_conv)
  from m ms obtain n1 where n1: "st_trace s1 = st_trace s @ n1" "\<forall>x\<in>set n1. P (fst x)"
    unfolding issues_def by (metis snd_conv)
  show "\<exists>new. st_trace (snd (bind m f s)) = st_trace s @ new \<and> (\<forall>x\<in>set new. P (fst x))"
  proof (cases r)
    case (Inl e)
    with ms n1 show ?thesis
      by (simp add: bind_def)
  next
    case (Inr x)
    from f[of x] d1 obtain n2 where
      "st_trace (snd (f x s1)) = st_trace s1 @ n2" "\<forall>x\<in>set n2. P (fst x)"
      unfolding issues_at_def by blast
    with ms n1 Inr show ?thesis
      by (auto simp: bind_def intro!: exI[of _ "n1 @ n2"])
  qed
qed

lemma issues_at_bind_then:
  assumes m: "issues_at d P m" and f: "\<And>x. issues P (f x)"
  shows "issues_at d P (bind m f)"
  unfolding issues_at_def
proof (intro allI impI)
  fix s :: st
  assume d: "st_d s = d"
  obtain r s1 where ms: "m s = (r, s1)"
    by (cases "m s")
  from m ms d obtain n1 where n1: "st_trace s1 = st_trace s @ n1" "\<forall>x\<in>set n1. P (fst x)"
    unfolding issues_at_def by (metis snd_conv)
  show "\<exists>new. st_trace (snd (bind m f s)) = st_trace s @ new \<and> (\<forall>x\<in>set new. P (fst x))"
  proof (cases r)
    case (Inl e)
    with ms n1 show ?thesis
      by (simp add: bind_def)
  next
    case (Inr x)
    from f[of x] obtain n2 where
      "st_trace (snd (f x s1)) = st_trace s1 @ n2" "\<forall>x\<in>set n2. P (fst x)"
      unfolding issues_def by blast
    with ms n1 Inr show ?thesis
      by (auto simp: bind_def intro!: exI[of _ "n1 @ n2"])
  qed
qed

lemma no_create_getImageIDFromConfig:
  "issues (\<lambda>c. \<not> is_create_call c) (getImageIDFromConfig E)"
  unfolding getImageIDFromConfig_def
  by (auto intro!: issues_intros issues_getImage split: sum.splits)

lemma no_create_getVpcID: "issues (\<lambda>c. \<not> is_create_call c) (getVpcID E)"
  unfolding getVpcID_def Let_def
  by (auto intro!: issues_intros split: sum.splits)

lemma no_create_resourceInstanceSecGroupIdsV1:
  "issues (\<lambda>c. \<not> is_create_call c) (resourceInstanceSecGroupIdsV1 E)"
  unfolding resourceInstanceSecGroupIdsV1_def Let_def
  by (auto intro!: issues_intros split: sum.splits prod.splits)

lemma no_create_Create_powerAction: "issues (\<lambda>c. \<not> is_create_call c) (Create_powerAction E)"
  unfolding Create_powerAction_def Let_def
  by (auto intro!: issues_intros issues_doPowerAction split: sum.splits prod.splits)

lemma no_create_Create_disableChecks:
  "issues (\<lambda>c. \<not> is_create_call c) (Create_disableChecks E d sdcs i nics)"
proof (induction nics arbitrary: i)
  case Nil
  show ?case by (simp add: issues_ret)
next
  case (Cons nic nics)
  show ?case
    by (auto simp: Let_def disableSourceDestCheck_def intro!: issues_intros Cons.IH
        split: option.splits)
qed

lemma no_create_Create_sourceDestCheck:
  "issues (\<lambda>c. \<not> is_create_call c) (Create_sourceDestCheck E)"
  unfolding Create_sourceDestCheck_def Let_def
  by (auto intro!: issues_intros no_create_Create_disableChecks split: sum.splits)

lemma no_create_Read: "issues (\<lambda>c. \<not> is_create_call c) (resourceComputeInstanceRead E)"
proof (rule issues_mono[OF issues_Read])
  fix c assume "is_read_call c"
  then show "\<not> is_create_call c" by (cases c) auto
qed

text \<open>
  The create requests of an instance that is not pre-paid: the ECS path issues
  \<^verbatim>\<open>cloudservers.Create\<close> with the options built from the resource data, the OpenStack path
  issues \<^verbatim>\<open>servers.Create\<close>, and nothing else in the handler creates a server.
\<close>

lemma requests_Create_ecs:
  assumes np: "as_string (d_Get d ''charging_mode'') \<noteq> ''prePaid''"
      and req: "\<And>vpcId secGroups.
                  P (CloudserversCreate (ecsCreateOpts E d imageId flavorId vpcId secGroups))"
      and other: "\<And>c. \<not> is_create_call c \<Longrightarrow> P c"
  shows "issues_at d P (Create_ecs E imageId flavorId)"
proof -
  have pp: "d_Get d ''charging_mode'' \<noteq> VStr ''prePaid''"
    using np by auto
  have o: "issues P m" if "issues (\<lambda>c. \<not> is_create_call c) m" for m :: "'b io"
    using that other by (rule issues_mono)
  show ?thesis
    unfolding Create_ecs_def
    apply (rule issues_at_bind_keeps[OF keeps_d_client issues_client])
    apply (rule issues_at_bind_keeps[OF keeps_d_client issues_client])
    apply (rule issues_at_bind_keeps[OF keeps_d_getVpcID o[OF no_create_getVpcID]])
    apply (rule issues_at_bind_keeps[OF keeps_d_resourceInstanceSecGroupIdsV1
                                       o[OF no_create_resourceInstanceSecGroupIdsV1]])
    apply (rule issues_at_get_d)
    apply (simp add: np pp Let_def)
    apply (rule issues_at_of_issues)
    apply (auto simp: req other intro!: issues_intros split: sum.splits option.splits)
    done
qed

lemma requests_Create_nova:
  assumes req: "\<And>opts. P (ServersCreate opts)"
      and other: "\<And>c. \<not> is_create_call c \<Longrightarrow> P c"
  shows "issues P (Create_nova E imageId flavorId)"
  unfolding Create_nova_def
  by (auto simp: req other intro!: issues_intros issues_wait
      split: sum.splits option.splits prod.splits)

lemma requests_Create:
  assumes np: "as_string (d_Get d ''charging_mode'') \<noteq> ''prePaid''"
      and req: "\<And>imageId flavorId vpcId secGroups.
                  P (CloudserversCreate (ecsCreateOpts E d imageId flavorId vpcId secGroups))"
      and nova: "\<And>opts. hasDeprecatedConfig d \<Longrightarrow> P (ServersCreate opts)"
      and other: "\<And>c. \<not> is_create_call c \<Longrightarrow> P c"
  shows "issues_at d P (resourceComputeInstanceCreate E)"
proof -
  have o: "issues P m" if "issues (\<lambda>c. \<not> is_create_call c) m" for m :: "'b io"
    using that other by (rule issues_mono)
  have branch: "issues_at d P
      (if \<not> hasDeprecatedConfig d then Create_ecs E imageId flavorId
       else Create_nova E imageId flavorId)" for imageId flavorId
    using requests_Create_ecs[of d P E imageId flavorId, OF np req other]
          requests_Create_nova[of P E imageId flavorId, OF nova other]
    by (auto intro: issues_at_of_issues)
  have rest: "issues P (bind (Create_powerAction E) (\<lambda>_.
                 bind (Create_sourceDestCheck E) (\<lambda>_. resourceComputeInstanceRead E)))"
    by (intro issues_bind o[OF no_create_Create_powerAction]
        o[OF no_create_Create_sourceDestCheck] o[OF no_create_Read])
  show ?thesis
    unfolding resourceComputeInstanceCreate_def
    apply (rule issues_at_bind_keeps[OF keeps_d_client issues_client])+
    apply (rule issues_at_get_d)
    apply (rule issues_at_bind_keeps)
      apply (simp add: keeps_d_intros split: option.splits)
     apply (simp add: issues_intros split: option.splits)
    apply (rule issues_at_bind_keeps[OF keeps_d_getImageIDFromConfig
                                       o[OF no_create_getImageIDFromConfig]])
    apply (rule issues_at_bind_keeps)
      apply (simp add: keeps_d_intros split: sum.splits)
     apply (simp add: issues_intros split: sum.splits)
    apply (rule issues_at_bind_keeps)
      apply (simp add: keeps_d_intros split: option.splits)
     apply (simp add: issues_intros split: option.splits)
    apply (rule issues_at_bind_then[OF branch])
    apply (rule rest)
    done
qed

text \<open>
  The claim C2 fails on two inputs. A spot instance without a maximum price passes the
  validation and the handler goes on to the remote create call, with an empty price in
  the request. A pre-paid instance with a key pair and without \<open>user_id\<close> passes the
  validation when the provider configuration has a user id.
\<close>

theorem create_validation_counterexample:
  "resourceComputeInstanceCreate (env_of remote_rejecting_create []) (start (rd_of [] spot_config [])) =
     (Inl (Errorf ''error creating server: %s'' [AErr (GoErr (ErrGeneric ''rejected''))]),
      \<lparr>st_d = rd_of [] spot_config [],
       st_trace =
         [(SubnetsGet ''subnet-1'', Inr (RString ''vpc-1'')),
          (CloudserversCreate
             \<lparr>co_Name = ''ecs-1'', co_ImageRef = ''img-1'', co_FlavorRef = ''s6.small'',
              co_KeyName = [], co_VpcId = ''vpc-1'', co_SecurityGroups = [''sg-1''],
              co_ChargingMode = [], co_MarketType = ''spot'', co_SpotPrice = [],
              co_OpSvcUserId = []\<rparr>,
           Inl (ErrGeneric ''rejected''))]\<rparr>)
   \<and> validateComputeInstanceConfig (rd_of [] prepaid_config [])
         (env_of remote_rejecting_create ''user-9'') = None"
proof -
  have "run (resourceComputeInstanceCreate (env_of remote_rejecting_create []))
          (start (rd_of [] spot_config [])) =
     (Inl (Errorf ''error creating server: %s'' [AErr (GoErr (ErrGeneric ''rejected''))]),
      \<lparr>st_d = rd_of [] spot_config [],
       st_trace =
         [(SubnetsGet ''subnet-1'', Inr (RString ''vpc-1'')),
          (CloudserversCreate
             \<lparr>co_Name = ''ecs-1'', co_ImageRef = ''img-1'', co_FlavorRef = ''s6.small'',
              co_KeyName = [], co_VpcId = ''vpc-1'', co_SecurityGroups = [''sg-1''],
              co_ChargingMode = [], co_MarketType = ''spot'', co_SpotPrice = [],
              co_OpSvcUserId = []\<rparr>,
           Inl (ErrGeneric ''rejected''))]\<rparr>)"
    by (simp add: resourceComputeInstanceCreate_def run_simps input_simps
        validateComputeInstanceConfig_def getOpSvcUserID_def
        Create_ecs_def getVpcID_def resourceInstanceSecGroupIdsV1_def ecsCreateOpts_def
        getImageIDFromConfig_def getFlavorID_def checkBlockDeviceConfig_def hasDeprecatedConfig_def
        spot_config_def Let_def)
  moreover have "validateComputeInstanceConfig (rd_of [] prepaid_config [])
         (env_of remote_rejecting_create ''user-9'') = None"
    by (simp add: validateComputeInstanceConfig_def getOpSvcUserID_def input_simps
        prepaid_config_def)
  ultimately show ?thesis
    by (simp add: run_def)
qed

text \<open>
  Claim C2, amended. When \<open>charging_mode\<close> is \<open>prePaid\<close>, a key pair is set, and both the
  \<open>user_id\<close> attribute and the user id of the provider configuration are empty, the
  create handler returns an error without having issued a remote call; when its four
  service clients can be built, that error is the validation error. A configuration
  whose \<open>charging_mode\<close> is \<open>spot\<close> always passes \<^verbatim>\<open>validateComputeInstanceConfig\<close>, and
  of the operations that the create handler then issues, none is the pre-paid create
  request, every \<^verbatim>\<open>cloudservers.Create\<close> request has the market type \<open>spot\<close> and, as its
  spot price, the attribute \<open>spot_maximum_price\<close> as it is, and the OpenStack create request
  occurs only with a deprecated block in the configuration.
\<close>

theorem create_validation_prepaid_user_id:
  assumes "as_string (d_Get (st_d s) ''charging_mode'') = ''prePaid''"
      and "as_string (d_Get (st_d s) ''key_pair'') \<noteq> []"
      and "as_string (d_Get (st_d s) ''user_id'') = []"
      and "cfg_UserID E = []"
  shows "validateComputeInstanceConfig (st_d s) E =
           Some (Errorf ''user_id must be specified when charging_mode is set to prePaid and the ECS is logged in using an SSH key'' [])
       \<and> (\<exists>e. resourceComputeInstanceCreate E s = (Inl e, s))
       \<and> (cfg_client E ''ComputeV2Client'' = None \<and> cfg_client E ''ComputeV1Client'' = None
          \<and> cfg_client E ''ImageV2Client'' = None \<and> cfg_client E ''NetworkingV2Client'' = None
          \<longrightarrow> resourceComputeInstanceCreate E s =
                (Inl (Errorf ''user_id must be specified when charging_mode is set to prePaid and the ECS is logged in using an SSH key'' []), s))
       \<and> (as_string (d_Get (st_d s') ''charging_mode'') = ''spot'' \<longrightarrow>
            validateComputeInstanceConfig (st_d s') E' = None
          \<and> (\<exists>new. st_trace (snd (resourceComputeInstanceCreate E' s')) = st_trace s' @ new
                \<and> (\<forall>x \<in> set new.
                      spot_create_request (hasDeprecatedConfig (st_d s'))
                        (as_string (d_Get (st_d s') ''spot_maximum_price'')) (fst x))))"
proof -
  have key: "\<not> is_zero (d_Get (st_d s) ''key_pair'')"
    using assms(2) by (cases "d_Get (st_d s) ''key_pair''") auto
  have uid: "getOpSvcUserID (st_d s) E = []"
    using assms(3,4) by (simp add: getOpSvcUserID_def d_GetOk_def d_Get_def)
  have v: "validateComputeInstanceConfig (st_d s) E =
           Some (Errorf ''user_id must be specified when charging_mode is set to prePaid and the ECS is logged in using an SSH key'' [])"
    using assms(1) key uid
    by (simp add: validateComputeInstanceConfig_def d_GetOk_def d_Get_def)
  have "\<exists>e. run (resourceComputeInstanceCreate E) s = (Inl e, s)"
    by (simp add: resourceComputeInstanceCreate_def run_simps v split: option.splits)
  moreover have "run (resourceComputeInstanceCreate E) s =
      (Inl (Errorf ''user_id must be specified when charging_mode is set to prePaid and the ECS is logged in using an SSH key'' []), s)"
    if "cfg_client E ''ComputeV2Client'' = None \<and> cfg_client E ''ComputeV1Client'' = None
          \<and> cfg_client E ''ImageV2Client'' = None \<and> cfg_client E ''NetworkingV2Client'' = None"
    using that by (simp add: resourceComputeInstanceCreate_def run_simps v)
  moreover have "validateComputeInstanceConfig (st_d s') E' = None"
    if "as_string (d_Get (st_d s') ''charging_mode'') = ''spot''"
    using that by (simp add: validateComputeInstanceConfig_def)
  moreover have "\<exists>new. st_trace (snd (resourceComputeInstanceCreate E' s')) = st_trace s' @ new
                \<and> (\<forall>x \<in> set new.
                      spot_create_request (hasDeprecatedConfig (st_d s'))
                        (as_string (d_Get (st_d s') ''spot_maximum_price'')) (fst x))"
    if spot: "as_string (d_Get (st_d s') ''charging_mode'') = ''spot''"
  proof -
    let ?P = "spot_create_request (hasDeprecatedConfig (st_d s'))
                (as_string (d_Get (st_d s') ''spot_maximum_price''))"
    have "issues_at (st_d s') ?P (resourceComputeInstanceCreate E')"
    proof (rule requests_Create)
      show "as_string (d_Get (st_d s') ''charging_mode'') \<noteq> ''prePaid''"
        using spot by simp
      show "?P (CloudserversCreate (ecsCreateOpts E' (st_d s') imageId flavorId vpcId secGroups))"
        for imageId flavorId vpcId secGroups
        using spot by (simp add: ecsCreateOpts_def)
      show "?P (ServersCreate opts)" if "hasDeprecatedConfig (st_d s')" for opts
        using that by simp
      show "?P c" if "\<not> is_create_call c" for c
        using that by (cases c) auto
    qed
    then show ?thesis
      unfolding issues_at_def by blast
  qed
  ultimately show ?thesis
    using v by (simp add: run_def)
qed

theorem create_validation_prepaid_user_id_witness:
  "resourceComputeInstanceCreate (env_of remote_rejecting_create [])
       (start (rd_of [] prepaid_config [])) =
     (Inl (Errorf ''user_id must be specified when charging_mode is set to prePaid and the ECS is logged in using an SSH key'' []),
      start (rd_of [] prepaid_config []))
   \<and> validateComputeInstanceConfig (rd_of [] spot_priced_config [])
        (env_of remote_rejecting_create []) = None
   \<and> st_trace (snd (resourceComputeInstanceCreate (env_of remote_rejecting_create [])
                      (start (rd_of [] spot_priced_config [])))) =
       [(SubnetsGet ''subnet-1'', Inr (RString ''vpc-1'')),
        (CloudserversCreate
           \<lparr>co_Name = ''ecs-1'', co_ImageRef = ''img-1'', co_FlavorRef = ''s6.small'',
            co_KeyName = [], co_VpcId = ''vpc-1'', co_SecurityGroups = [''sg-1''],
            co_ChargingMode = [], co_MarketType = ''spot'', co_SpotPrice = ''0.5'',
            co_OpSvcUserId = []\<rparr>,
         Inl (ErrGeneric ''rejected''))]
   \<and> \<not> hasDeprecatedConfig (rd_of [] spot_priced_config [])
   \<and> as_string (d_Get (rd_of [] spot_priced_config []) ''spot_maximum_price'') = ''0.5''"
proof -
  let ?E = "env_of remote_rejecting_create []"
  let ?s = "start (rd_of [] prepaid_config [])"
  let ?s' = "start (rd_of [] spot_priced_config [])"
  have a: "as_string (d_Get (st_d ?s) ''charging_mode'') = ''prePaid''"
          "as_string (d_Get (st_d ?s) ''key_pair'') \<noteq> []"
          "as_string (d_Get (st_d ?s) ''user_id'') = []"
          "cfg_UserID ?E = []"
    by (simp_all add: input_simps prepaid_config_def)
  have c: "cfg_client ?E n = None" for n
    by (simp add: env_of_def)
  have sp: "as_string (d_Get (st_d ?s') ''charging_mode'') = ''spot''"
           "\<not> hasDeprecatedConfig (rd_of [] spot_priced_config [])"
           "as_string (d_Get (rd_of [] spot_priced_config []) ''spot_maximum_price'') = ''0.5''"
    by (simp_all add: input_simps spot_priced_config_def spot_config_def hasDeprecatedConfig_def)
  have "st_trace (snd (run (resourceComputeInstanceCreate ?E) ?s')) =
       [(SubnetsGet ''subnet-1'', Inr (RString ''vpc-1'')),
        (CloudserversCreate
           \<lparr>co_Name = ''ecs-1'', co_ImageRef = ''img-1'', co_FlavorRef = ''s6.small'',
            co_KeyName = [], co_VpcId = ''vpc-1'', co_SecurityGroups = [''sg-1''],
            co_ChargingMode = [], co_MarketType = ''spot'', co_SpotPrice = ''0.5'',
            co_OpSvcUserId = []\<rparr>,
         Inl (ErrGeneric ''rejected''))]"
    by (simp add: resourceComputeInstanceCreate_def run_simps input_simps
        validateComputeInstanceConfig_def getOpSvcUserID_def
        Create_ecs_def getVpcID_def resourceInstanceSecGroupIdsV1_def ecsCreateOpts_def
        getImageIDFromConfig_def getFlavorID_def checkBlockDeviceConfig_def hasDeprecatedConfig_def
        spot_priced_config_def spot_config_def Let_def)
  then have tr: "st_trace (snd (resourceComputeInstanceCreate ?E ?s')) =
       [(SubnetsGet ''subnet-1'', Inr (RString ''vpc-1'')),
        (CloudserversCreate
           \<lparr>co_Name = ''ecs-1'', co_ImageRef = ''img-1'', co_FlavorRef = ''s6.small'',
            co_KeyName = [], co_VpcId = ''vpc-1'', co_SecurityGroups = [''sg-1''],
            co_ChargingMode = [], co_MarketType = ''spot'', co_SpotPrice = ''0.5'',
            co_OpSvcUserId = []\<rparr>,
         Inl (ErrGeneric ''rejected''))]"
    by (simp add: run_def)
  have d: "st_d ?s' = rd_of [] spot_priced_config []"
    by (simp add: start_def)
  show ?thesis
    using create_validation_prepaid_user_id[OF a, of ?s' ?E] c sp tr d
    by simp
qed

end
